theory Spec2Isabelle
  imports Complex_Main
begin

section \<open>The FMultiGrid facade of the multigrid solver\<close>

text \<open>
  This theory embeds the class \<open>FMultiGrid\<close> (the orchestrator of the spec) with its two
  member structures \<open>Boundary\<close> and \<open>ABecCoeff\<close>. Every member function becomes a HOL
  function from the object before the call to either a failure or the object after it.

  Conventions.
  \<^item> \<open>Real\<close> is an IEEE 754 double, with its rounding, infinities and NaN. The only
    arithmetic in this code is the product \<open>0.5 * r * dx\<close> of the transition distances.
  \<^item> A \<open>MultiFab\<close> lives in a heap; a reference or pointer to one is its address, so a
    \<open>PArray<MultiFab>\<close> (an array of non-owning pointers) is a list of addresses.
  \<^item> \<open>BL_SPACEDIM\<close> is a build constant defined outside these sources; every function
    that reads it takes it as its first argument \<open>sd\<close>.
  \<^item> The numerical kernel (\<open>MGT_Solver\<close>, \<open>MacBndry\<close>, \<open>BndryRegister\<close>, \<open>BoxArray\<close>) is an
    external library. The calls made to it are recorded as data; the three kernel
    operations that compute (solve, compute_residual, get_fluxes) are parameters.
\<close>

subsection \<open>Failures\<close>

text \<open>
  The code has two ways to stop: \<open>BoxLib::Abort(msg)\<close> and a failed \<open>BL_ASSERT(expr)\<close>; a
  failure carries the message, or the text of the asserted expression.
  Two more outcomes are outside what C++ defines and are kept apart: calling a member
  through a null pointer, and indexing a container beyond its size.
\<close>

text \<open>
  Modelled from the spec: the macro \<open>BL_ASSERT\<close>, defined in a header that is not among
  the sources. Following the spec, a false condition is a fatal precondition failure: the
  checks are compiled in, and nothing after a failed check is executed.
\<close>

datatype error =
    Abort string
  | AssertFailed string
  | NullDereference
  | IndexOutOfRange

subsection \<open>Double precision\<close>

text \<open>
  \<open>Real\<close> is the library's name for \<open>double\<close> (the typedef is outside these sources). A
  finite double is a sign, a mantissa and an exponent: \<open>Finite s m e\<close> is
  \<open>(-1)\<^sup>s * m * 2\<^sup>e\<close>, and both zeros are \<open>Finite s 0 0\<close>. Every operation returns its
  result in lowest terms (odd mantissa), so that equal values are equal terms.
  The binary64 format has 53 significant bits, the least exponent of a bit is \<open>-1074\<close>
  (subnormal numbers included), and every finite value is below \<open>2\<^sup>1\<^sup>0\<^sup>2\<^sup>4\<close>.
\<close>

datatype double = Finite bool nat int | Infinity bool | NaN

type_synonym Real = double

text \<open>The number of bits of a mantissa.\<close>

function bit_length :: "nat \<Rightarrow> nat" where
  "bit_length m = (if m = 0 then 0 else Suc (bit_length (m div 2)))"
  by pat_completeness auto
termination
  by (relation "measure (\<lambda>m. m)") auto

declare bit_length.simps [simp del]

text \<open>Lowest terms: factors of two move from the mantissa to the exponent.\<close>

function normalize_d :: "bool \<Rightarrow> nat \<Rightarrow> int \<Rightarrow> double" where
  "normalize_d s m e =
     (if m = 0 then Finite s 0 0
      else if even m then normalize_d s (m div 2) (e + 1)
      else Finite s m e)"
  by pat_completeness auto
termination
  by (relation "measure (\<lambda>(s, m, e). m)") auto

declare normalize_d.simps [simp del]

text \<open>
  Rounding of the exact magnitude \<open>m * 2\<^sup>e\<close> to the nearest double, ties to the even
  mantissa (the default rounding mode): \<open>k\<close> low bits are dropped, as many as the 53 bits
  of precision or the least exponent demand; the dropped part \<open>r\<close> is compared with half
  a unit; a result of \<open>2\<^sup>1\<^sup>0\<^sup>2\<^sup>4\<close> or more is an infinity.
\<close>

definition round_to_double :: "bool \<Rightarrow> nat \<Rightarrow> int \<Rightarrow> double" where
  "round_to_double s m e =
     (let k = max (int (bit_length m) - 53) (- 1074 - e)
      in if k \<le> 0
         then (if int (bit_length m) + e > 1024 then Infinity s else normalize_d s m e)
         else
           let d = 2 ^ nat k;
               q = m div d;
               r = m mod d;
               half = d div 2;
               q' = (if r > half \<or> (r = half \<and> odd q) then q + 1 else q)
           in if int (bit_length q') + (e + k) > 1024 then Infinity s
              else normalize_d s q' (e + k))"

text \<open>
  The product of two doubles: the exact product of two finite ones, rounded; the sign of the
  result is the exclusive or of the signs; infinity times zero is NaN.
\<close>

fun dmul :: "double \<Rightarrow> double \<Rightarrow> double" where
  "dmul NaN y = NaN"
| "dmul x NaN = NaN"
| "dmul (Infinity s) (Infinity t) = Infinity (s \<noteq> t)"
| "dmul (Infinity s) (Finite t n f) = (if n = 0 then NaN else Infinity (s \<noteq> t))"
| "dmul (Finite s m e) (Infinity t) = (if m = 0 then NaN else Infinity (s \<noteq> t))"
| "dmul (Finite s m e) (Finite t n f) = round_to_double (s \<noteq> t) (m * n) (e + f)"

text \<open>The conversion of an \<open>int\<close> operand, and the two literals \<open>0.0\<close> and \<open>0.5\<close>.\<close>

definition double_of_int :: "int \<Rightarrow> double" where
  "double_of_int i = round_to_double (i < 0) (nat \<bar>i\<bar>) 0"

definition d_zero :: double where
  "d_zero = Finite False 0 0"

definition d_half :: double where
  "d_half = Finite False 1 (- 1)"

text \<open>The real number a finite double stands for.\<close>

fun is_finite :: "double \<Rightarrow> bool" where
  "is_finite (Finite s m e) = True"
| "is_finite d = False"

fun valof :: "double \<Rightarrow> real" where
  "valof (Finite s m e) = (if s then - 1 else 1) * real m * 2 powi e"
| "valof d = 0"

text \<open>\<open>m * 2\<^sup>e\<close> is a double as it stands: nothing is rounded away and it is in range.\<close>

definition fits :: "nat \<Rightarrow> int \<Rightarrow> bool" where
  "fits m e = (int (bit_length m) \<le> 53 \<and> - 1074 \<le> e \<and> int (bit_length m) + e \<le> 1024)"

type_synonym addr = nat
type_synonym IntVect = "int list"

text \<open>
  Modelled from the spec: \<open>IntVect::TheZeroVector()\<close> (declared outside the sources), the
  vector that is zero in every dimension, the sentinel for a ratio that was not given.
  An \<open>IntVect\<close> holds \<open>BL_SPACEDIM\<close> integers, and \<open>operator==\<close> compares all of them.
\<close>

definition TheZeroVector :: "nat \<Rightarrow> IntVect" where
  "TheZeroVector sd = replicate sd 0"

subsection \<open>External data: geometry, fields, kernel objects\<close>

text \<open>
  Of a \<open>Geometry\<close> this code reads only \<open>CellSize()\<close>, an array of \<open>BL_SPACEDIM\<close> values of type \<open>Real\<close>.
  That array and an \<open>IntVect\<close> have \<open>BL_SPACEDIM\<close> entries by their C++ types; the lists
  that stand for them are read at indices below \<open>sd\<close> only.
\<close>

record Geometry =
  CellSize :: "Real list"

text \<open>
  \<open>BoxArray::coarsen\<close> belongs to the external library: a coarsened layout is kept as the
  term \<open>Coarsen ba ratio\<close>.
\<close>

datatype BoxArray =
    Boxes "(int list \<times> int list) list"
  | Coarsen BoxArray IntVect

record MultiFab =
  boxArray :: BoxArray
  DistributionMap :: "nat list"
  nComp :: int
  nGrow :: int
  fab_values :: "Real list"

type_synonym heap = "addr \<Rightarrow> MultiFab"

type_synonym BCRec = "int list \<times> int list"

text \<open>
  A \<open>BndryRegister\<close> is the constructor's arguments followed by what \<open>copyFrom\<close> was given:
  the source field, the number of ghost cells, source and destination component and the
  number of components.
\<close>

record BndryRegister =
  br_boxes :: BoxArray
  br_in_rad :: int
  br_out_rad :: int
  br_extent_rad :: int
  br_ncomp :: int
  br_copyFrom :: "(MultiFab \<times> int \<times> int \<times> int \<times> int) option"

text \<open>The three calls that give a \<open>MacBndry\<close> its values, with their arguments.\<close>

datatype BndryValues =
    setHomogValues BCRec IntVect
  | setBndryValues MultiFab int int int BCRec
  | setBndryValues_crse BndryRegister int MultiFab int int int IntVect BCRec

record MacBndry =
  mb_boxes :: BoxArray
  mb_ncomp :: int
  mb_geom :: Geometry
  mb_values :: "BndryValues option"

datatype Stencil = CC_CROSS_STENCIL

text \<open>
  The three calls that hand coefficients to the kernel; the last two arguments of each are
  the transition distances \<open>xa\<close> and \<open>xb\<close>.
\<close>

datatype KernelCoeffs =
    set_const_gravity_coeffs_k "Real list list" "Real list list"
  | set_gravity_coefficients_k "addr list list" "Real list list" "Real list list"
  | set_abeclap_coeffs_k Real "addr list" Real "addr list list" "Real list list" "Real list list"

fun coeffs_xa :: "KernelCoeffs \<Rightarrow> Real list list" where
  "coeffs_xa (set_const_gravity_coeffs_k xa xb) = xa"
| "coeffs_xa (set_gravity_coefficients_k bs xa xb) = xa"
| "coeffs_xa (set_abeclap_coeffs_k al as be bs xa xb) = xa"

fun coeffs_xb :: "KernelCoeffs \<Rightarrow> Real list list" where
  "coeffs_xb (set_const_gravity_coeffs_k xa xb) = xb"
| "coeffs_xb (set_gravity_coefficients_k bs xa xb) = xb"
| "coeffs_xb (set_abeclap_coeffs_k al as be bs xa xb) = xb"

text \<open>
  The solver handle: the arguments of \<open>new MGT_Solver(...)\<close> and the coefficients it was
  given afterwards. Its numerical state is the kernel's business.
\<close>

record MGT_Solver =
  mgt_geom :: "Geometry list"
  mgt_bc :: "int list"
  mgt_ba :: "BoxArray list"
  mgt_dmap :: "nat list list"
  mgt_nodal :: bool
  mgt_stencil :: Stencil
  mgt_have_rhcc :: bool
  mgt_nc :: int
  mgt_ncomp :: int
  mgt_verbose :: int
  mgt_coeffs :: "KernelCoeffs option"

text \<open>
  The kernel operations used by the facade. \<open>k_solve\<close> gets the handle, the heap, the
  pointers to \<open>phi\<close> and \<open>rhs\<close>, the boundary object, both tolerances and the two flags; it
  returns the heap it leaves behind and the final residual norm.
\<close>

record kernel =
  k_solve :: "MGT_Solver \<Rightarrow> heap \<Rightarrow> addr list \<Rightarrow> addr list \<Rightarrow> MacBndry
                \<Rightarrow> Real \<Rightarrow> Real \<Rightarrow> int \<Rightarrow> int \<Rightarrow> heap \<times> Real"
  k_compute_residual :: "MGT_Solver \<Rightarrow> heap \<Rightarrow> addr list \<Rightarrow> addr list \<Rightarrow> addr list
                \<Rightarrow> MacBndry \<Rightarrow> heap"
  k_get_fluxes :: "MGT_Solver \<Rightarrow> heap \<Rightarrow> nat \<Rightarrow> addr list \<Rightarrow> Real list \<Rightarrow> heap"

subsection \<open>The member structures and the class\<close>

text \<open>
  The header that declares \<open>Boundary\<close>, \<open>ABecCoeff\<close>, \<open>EqType\<close> and the data members is not
  among the sources; the fields below are the ones the member functions read and write.
  The pointer \<open>phi\<close> of \<open>Boundary\<close> is the field \<open>fine_phi\<close>, and the members \<open>a\<close> and \<open>b\<close> of
  \<open>ABecCoeff\<close> are \<open>acoef\<close> and \<open>bcoef\<close>.
\<close>

record Boundary =
  mg_bc :: "int list"
  crse_phi :: "addr option"
  fine_phi :: "addr option"
  initilized :: bool

datatype EqType = invalid_eq | const_gravity_eq | gravity_eq | general_eq

record ABecCoeff =
  alpha :: Real
  beta :: Real
  acoef :: "addr list"
  bcoef :: "addr list list"
  eq_type :: EqType
  alpha_set :: bool
  a_set :: bool
  beta_set :: bool
  b_set :: bool

record FMultiGrid =
  m_nlevels :: nat
  m_baselevel :: int
  m_crse_ratio :: IntVect
  m_stencil :: Stencil
  m_verbose :: int
  m_geom :: "Geometry list"
  m_bc :: Boundary
  m_coeff :: ABecCoeff
  m_bndry :: "MacBndry option"
  m_mgt_solver :: "MGT_Solver option"

text \<open>
  Modelled from the spec: the constructors of \<open>Boundary\<close> (declared in the missing header).
  The default one leaves both field references null and the descriptor not set; the one
  taking the boundary codes and up to two field pointers stores them and marks the
  descriptor as set (the spec's boundary descriptor, set at most once).
\<close>

definition Boundary_default :: Boundary where
  "Boundary_default =
     \<lparr>mg_bc = [], crse_phi = None, fine_phi = None, initilized = False\<rparr>"

definition Boundary_ctor :: "int list \<Rightarrow> addr option \<Rightarrow> addr option \<Rightarrow> Boundary" where
  "Boundary_ctor bc crse fine =
     \<lparr>mg_bc = bc, crse_phi = crse, fine_phi = fine, initilized = True\<rparr>"

text \<open>
  Modelled from the spec: the default constructor of \<open>ABecCoeff\<close> (declared in the missing
  header): the variant is Uninitialized and no sub-value is set.
\<close>

definition ABecCoeff_default :: ABecCoeff where
  "ABecCoeff_default =
     \<lparr>alpha = d_zero, beta = d_zero, acoef = [], bcoef = [], eq_type = invalid_eq,
      alpha_set = False, a_set = False, beta_set = False, b_set = False\<rparr>"

subsection \<open>Constructors\<close>

definition FMultiGrid_geom :: "nat \<Rightarrow> Geometry \<Rightarrow> int \<Rightarrow> IntVect \<Rightarrow> error + FMultiGrid" where
  "FMultiGrid_geom sd geom baselevel crse_ratio =
     (if baselevel > 0 \<and> crse_ratio = TheZeroVector sd
      then Inl (Abort ''FMultiGrid: must set crse_ratio if baselevel > 0'')
      else Inr \<lparr>m_nlevels = 1, m_baselevel = baselevel, m_crse_ratio = crse_ratio,
                m_stencil = CC_CROSS_STENCIL, m_verbose = 0, m_geom = [geom],
                m_bc = Boundary_default, m_coeff = ABecCoeff_default,
                m_bndry = None, m_mgt_solver = None\<rparr>)"

definition FMultiGrid_vector :: "nat \<Rightarrow> Geometry list \<Rightarrow> int \<Rightarrow> IntVect \<Rightarrow> error + FMultiGrid" where
  "FMultiGrid_vector sd geom baselevel crse_ratio =
     (if baselevel > 0 \<and> crse_ratio = TheZeroVector sd
      then Inl (Abort ''FMultiGrid: must set crse_ratio if baselevel > 0'')
      else Inr \<lparr>m_nlevels = length geom, m_baselevel = baselevel, m_crse_ratio = crse_ratio,
                m_stencil = CC_CROSS_STENCIL, m_verbose = 0, m_geom = geom,
                m_bc = Boundary_default, m_coeff = ABecCoeff_default,
                m_bndry = None, m_mgt_solver = None\<rparr>)"

definition FMultiGrid_PArray :: "nat \<Rightarrow> Geometry list \<Rightarrow> int \<Rightarrow> IntVect \<Rightarrow> error + FMultiGrid" where
  "FMultiGrid_PArray sd geom baselevel crse_ratio =
     (if baselevel > 0 \<and> crse_ratio = TheZeroVector sd
      then Inl (Abort ''FMultiGrid: must set crse_ratio if baselevel > 0'')
      else Inr \<lparr>m_nlevels = length geom, m_baselevel = baselevel, m_crse_ratio = crse_ratio,
                m_stencil = CC_CROSS_STENCIL, m_verbose = 0,
                m_geom = map (\<lambda>ilev. geom ! ilev) [0..<length geom],
                m_bc = Boundary_default, m_coeff = ABecCoeff_default,
                m_bndry = None, m_mgt_solver = None\<rparr>)"

subsection \<open>set_bc\<close>

definition set_bc :: "FMultiGrid \<Rightarrow> int list \<Rightarrow> error + FMultiGrid" where
  "set_bc fmg bc =
     (if initilized (m_bc fmg) then Inl (AssertFailed ''!m_bc.initilized'')
      else Inr (fmg\<lparr>m_bc := Boundary_ctor bc None None\<rparr>))"

definition set_bc_phi :: "FMultiGrid \<Rightarrow> int list \<Rightarrow> addr \<Rightarrow> error + FMultiGrid" where
  "set_bc_phi fmg bc p =
     (if initilized (m_bc fmg) then Inl (AssertFailed ''!m_bc.initilized'')
      else Inr (fmg\<lparr>m_bc := Boundary_ctor bc None (Some p)\<rparr>))"

definition set_bc_crse :: "nat \<Rightarrow> FMultiGrid \<Rightarrow> int list \<Rightarrow> addr \<Rightarrow> addr \<Rightarrow> error + FMultiGrid" where
  "set_bc_crse sd fmg bc cp p =
     (if \<not> m_crse_ratio fmg \<noteq> TheZeroVector sd
      then Inl (AssertFailed ''m_crse_ratio != IntVect::TheZeroVector()'')
      else if initilized (m_bc fmg) then Inl (AssertFailed ''!m_bc.initilized'')
      else Inr (fmg\<lparr>m_bc := Boundary_ctor bc (Some cp) (Some p)\<rparr>))"

subsection \<open>The Copy helpers\<close>

text \<open>
  Each \<open>Copy\<close> overload resizes the destination and stores the addresses of the source
  objects: the destination aliases the source fields, nothing is duplicated.
  \<open>Copy_levels\<close> reads \<open>src[0].size()\<close> and then \<open>src[ilev][idim]\<close> for every level; a
  source with no level, or with a level shorter than the first, is read out of range.
  \<open>Copy_ptr\<close> takes a pointer to the first of \<open>ndim\<close> consecutive objects.
\<close>

definition Copy_MultiFab :: "addr \<Rightarrow> addr list" where
  "Copy_MultiFab src = [src]"

definition Copy_PArray :: "addr list \<Rightarrow> addr list" where
  "Copy_PArray src = (let nlevels = length src in map (\<lambda>ilev. src ! ilev) [0..<nlevels])"

definition Copy_dims :: "addr list \<Rightarrow> addr list list" where
  "Copy_dims src = (let ndim = length src in [map (\<lambda>idim. src ! idim) [0..<ndim]])"

definition Copy_levels :: "addr list list \<Rightarrow> error + addr list list" where
  "Copy_levels src =
     (let nlevels = length src in
      if src = [] then Inl IndexOutOfRange
      else let ndim = length (src ! 0) in
        if list_ex (\<lambda>lev. length lev < ndim) src then Inl IndexOutOfRange
        else Inr (map (\<lambda>ilev. map (\<lambda>idim. src ! ilev ! idim) [0..<ndim]) [0..<nlevels]))"

definition Copy_ptr :: "addr \<Rightarrow> nat \<Rightarrow> addr list list" where
  "Copy_ptr src ndim = [map (\<lambda>idim. src + idim) [0..<ndim]]"

subsection \<open>Coefficient setters\<close>

definition set_const_gravity_coeffs :: "FMultiGrid \<Rightarrow> error + FMultiGrid" where
  "set_const_gravity_coeffs fmg =
     (if eq_type (m_coeff fmg) \<noteq> invalid_eq
      then Inl (AssertFailed ''m_coeff.eq_type == invalid_eq'')
      else Inr (fmg\<lparr>m_coeff := (m_coeff fmg)\<lparr>eq_type := const_gravity_eq\<rparr>\<rparr>))"

definition set_gravity_coeffs :: "nat \<Rightarrow> FMultiGrid \<Rightarrow> addr list \<Rightarrow> error + FMultiGrid" where
  "set_gravity_coeffs sd fmg bs =
     (if eq_type (m_coeff fmg) \<noteq> invalid_eq
      then Inl (AssertFailed ''m_coeff.eq_type == invalid_eq'')
      else if m_nlevels fmg \<noteq> 1 then Inl (AssertFailed ''m_nlevels == 1'')
      else if length bs \<noteq> sd then Inl (AssertFailed ''b.size() == BL_SPACEDIM'')
      else Inr (fmg\<lparr>m_coeff := (m_coeff fmg)
                  \<lparr>eq_type := gravity_eq, b_set := True, bcoef := Copy_dims bs\<rparr>\<rparr>))"

definition set_gravity_coeffs_lev :: "nat \<Rightarrow> FMultiGrid \<Rightarrow> addr list list \<Rightarrow> error + FMultiGrid" where
  "set_gravity_coeffs_lev sd fmg bs =
     (if eq_type (m_coeff fmg) \<noteq> invalid_eq
      then Inl (AssertFailed ''m_coeff.eq_type == invalid_eq'')
      else if length bs \<noteq> m_nlevels fmg then Inl (AssertFailed ''b.size() == m_nlevels'')
      else if bs = [] then Inl IndexOutOfRange
      else if length (bs ! 0) \<noteq> sd then Inl (AssertFailed ''b[0].size() == BL_SPACEDIM'')
      else case Copy_levels bs of
             Inl e \<Rightarrow> Inl e
           | Inr bs' \<Rightarrow> Inr (fmg\<lparr>m_coeff := (m_coeff fmg)
                  \<lparr>eq_type := gravity_eq, b_set := True, bcoef := bs'\<rparr>\<rparr>))"

definition set_alpha :: "FMultiGrid \<Rightarrow> Real \<Rightarrow> error + FMultiGrid" where
  "set_alpha fmg al =
     (if \<not> (eq_type (m_coeff fmg) = invalid_eq \<or> eq_type (m_coeff fmg) = general_eq)
      then Inl (AssertFailed ''m_coeff.eq_type == invalid_eq || m_coeff.eq_type == general_eq'')
      else if alpha_set (m_coeff fmg) then Inl (AssertFailed ''!m_coeff.alpha_set'')
      else Inr (fmg\<lparr>m_coeff := (m_coeff fmg)
                  \<lparr>eq_type := general_eq, alpha_set := True, alpha := al\<rparr>\<rparr>))"

definition set_acoef :: "FMultiGrid \<Rightarrow> addr \<Rightarrow> error + FMultiGrid" where
  "set_acoef fmg ac =
     (if \<not> (eq_type (m_coeff fmg) = invalid_eq \<or> eq_type (m_coeff fmg) = general_eq)
      then Inl (AssertFailed ''m_coeff.eq_type == invalid_eq || m_coeff.eq_type == general_eq'')
      else if a_set (m_coeff fmg) then Inl (AssertFailed ''!m_coeff.a_set'')
      else if m_nlevels fmg \<noteq> 1 then Inl (AssertFailed ''m_nlevels == 1'')
      else Inr (fmg\<lparr>m_coeff := (m_coeff fmg)
                  \<lparr>eq_type := general_eq, a_set := True, acoef := Copy_MultiFab ac\<rparr>\<rparr>))"

definition set_acoef_lev :: "FMultiGrid \<Rightarrow> addr list \<Rightarrow> error + FMultiGrid" where
  "set_acoef_lev fmg acs =
     (if \<not> (eq_type (m_coeff fmg) = invalid_eq \<or> eq_type (m_coeff fmg) = general_eq)
      then Inl (AssertFailed ''m_coeff.eq_type == invalid_eq || m_coeff.eq_type == general_eq'')
      else if a_set (m_coeff fmg) then Inl (AssertFailed ''!m_coeff.a_set'')
      else if m_nlevels fmg \<noteq> length acs then Inl (AssertFailed ''m_nlevels == a.size()'')
      else Inr (fmg\<lparr>m_coeff := (m_coeff fmg)
                  \<lparr>eq_type := general_eq, a_set := True, acoef := Copy_PArray acs\<rparr>\<rparr>))"

definition set_beta :: "FMultiGrid \<Rightarrow> Real \<Rightarrow> error + FMultiGrid" where
  "set_beta fmg be =
     (if \<not> (eq_type (m_coeff fmg) = invalid_eq \<or> eq_type (m_coeff fmg) = general_eq)
      then Inl (AssertFailed ''m_coeff.eq_type == invalid_eq || m_coeff.eq_type == general_eq'')
      else if beta_set (m_coeff fmg) then Inl (AssertFailed ''!m_coeff.beta_set'')
      else Inr (fmg\<lparr>m_coeff := (m_coeff fmg)
                  \<lparr>eq_type := general_eq, beta_set := True, beta := be\<rparr>\<rparr>))"

definition set_bcoef_ptr :: "nat \<Rightarrow> FMultiGrid \<Rightarrow> addr \<Rightarrow> error + FMultiGrid" where
  "set_bcoef_ptr sd fmg bp =
     (if \<not> (eq_type (m_coeff fmg) = invalid_eq \<or> eq_type (m_coeff fmg) = general_eq)
      then Inl (AssertFailed ''m_coeff.eq_type == invalid_eq || m_coeff.eq_type == general_eq'')
      else if b_set (m_coeff fmg) then Inl (AssertFailed ''!m_coeff.b_set'')
      else if m_nlevels fmg \<noteq> 1 then Inl (AssertFailed ''m_nlevels == 1'')
      else Inr (fmg\<lparr>m_coeff := (m_coeff fmg)
                  \<lparr>eq_type := general_eq, b_set := True, bcoef := Copy_ptr bp sd\<rparr>\<rparr>))"

definition set_bcoef :: "nat \<Rightarrow> FMultiGrid \<Rightarrow> addr list \<Rightarrow> error + FMultiGrid" where
  "set_bcoef sd fmg bs =
     (if \<not> (eq_type (m_coeff fmg) = invalid_eq \<or> eq_type (m_coeff fmg) = general_eq)
      then Inl (AssertFailed ''m_coeff.eq_type == invalid_eq || m_coeff.eq_type == general_eq'')
      else if b_set (m_coeff fmg) then Inl (AssertFailed ''!m_coeff.b_set'')
      else if m_nlevels fmg \<noteq> 1 then Inl (AssertFailed ''m_nlevels == 1'')
      else if length bs \<noteq> sd then Inl (AssertFailed ''b.size() == BL_SPACEDIM'')
      else Inr (fmg\<lparr>m_coeff := (m_coeff fmg)
                  \<lparr>eq_type := general_eq, b_set := True, bcoef := Copy_dims bs\<rparr>\<rparr>))"

definition set_bcoef_lev :: "nat \<Rightarrow> FMultiGrid \<Rightarrow> addr list list \<Rightarrow> error + FMultiGrid" where
  "set_bcoef_lev sd fmg bs =
     (if \<not> (eq_type (m_coeff fmg) = invalid_eq \<or> eq_type (m_coeff fmg) = general_eq)
      then Inl (AssertFailed ''m_coeff.eq_type == invalid_eq || m_coeff.eq_type == general_eq'')
      else if b_set (m_coeff fmg) then Inl (AssertFailed ''!m_coeff.b_set'')
      else if m_nlevels fmg \<noteq> length bs then Inl (AssertFailed ''m_nlevels == b.size()'')
      else if bs = [] then Inl IndexOutOfRange
      else if length (bs ! 0) \<noteq> sd then Inl (AssertFailed ''b[0].size() == BL_SPACEDIM'')
      else case Copy_levels bs of
             Inl e \<Rightarrow> Inl e
           | Inr bs' \<Rightarrow> Inr (fmg\<lparr>m_coeff := (m_coeff fmg)
                  \<lparr>eq_type := general_eq, b_set := True, bcoef := bs'\<rparr>\<rparr>))"

subsection \<open>Boundary::set_bndry_values\<close>

definition set_bndry_values ::
  "nat \<Rightarrow> heap \<Rightarrow> Boundary \<Rightarrow> MacBndry \<Rightarrow> IntVect \<Rightarrow> error + MacBndry" where
  "set_bndry_values sd h bc bndry crse_ratio =
     (let ref_ratio = TheZeroVector sd;
          lo_bc = replicate sd (0::int);
          hi_bc = replicate sd (0::int);
          phys_bc = (lo_bc, hi_bc)
      in if crse_phi bc = None \<and> fine_phi bc = None
         then Inr (bndry\<lparr>mb_values := Some (setHomogValues phys_bc ref_ratio)\<rparr>)
         else if crse_phi bc = None \<and> fine_phi bc \<noteq> None
         then (let p = h (the (fine_phi bc))
               in Inr (bndry\<lparr>mb_values := Some (setBndryValues p 0 0 (nComp p) phys_bc)\<rparr>))
         else if crse_phi bc \<noteq> None \<and> fine_phi bc \<noteq> None
         then (if \<not> crse_ratio \<noteq> TheZeroVector sd
               then Inl (AssertFailed ''crse_ratio != IntVect::TheZeroVector()'')
               else
                 let p = h (the (fine_phi bc));
                     cp = h (the (crse_phi bc));
                     ncomp = nComp p;
                     in_rad = 0;
                     out_rad = 1;
                     extent_rad = 2;
                     crse_boxes = Coarsen (boxArray p) crse_ratio;
                     crse_br = \<lparr>br_boxes = crse_boxes, br_in_rad = in_rad,
                                br_out_rad = out_rad, br_extent_rad = extent_rad,
                                br_ncomp = ncomp, br_copyFrom = None\<rparr>;
                     crse_br = crse_br\<lparr>br_copyFrom := Some (cp, nGrow cp, 0, 0, ncomp)\<rparr>
                 in Inr (bndry\<lparr>mb_values :=
                      Some (setBndryValues_crse crse_br 0 p 0 0 ncomp crse_ratio phys_bc)\<rparr>))
         else Inl (Abort ''FMultiGrid::Boundary::build_bndry: How did we get here?''))"

subsection \<open>ABecCoeff::set_coeffs\<close>

text \<open>
  The loop over the levels fills \<open>xa[lev]\<close> and \<open>xb[lev]\<close> with the same \<open>BL_SPACEDIM\<close>
  values; \<open>level_distance\<close> is the body of the loop for one level. \<open>m_geom\<close> has
  \<open>m_nlevels\<close> entries in every constructed object, so \<open>m_geom[0]\<close> and \<open>m_geom[lev-1]\<close>
  exist where the loop reads them.
\<close>

definition level_distance :: "nat \<Rightarrow> FMultiGrid \<Rightarrow> nat \<Rightarrow> Real list" where
  "level_distance sd fmg lev =
     (if int lev + m_baselevel fmg = 0
      then map (\<lambda>n. d_zero) [0..<sd]
      else if lev = 0
      then (let dx = CellSize (m_geom fmg ! 0)
            in map (\<lambda>n. dmul (dmul d_half (double_of_int (m_crse_ratio fmg ! n))) (dx ! n))
                 [0..<sd])
      else (let dx_crse = CellSize (m_geom fmg ! (lev - 1))
            in map (\<lambda>n. dmul d_half (dx_crse ! n)) [0..<sd]))"

definition set_coeffs :: "nat \<Rightarrow> ABecCoeff \<Rightarrow> MGT_Solver \<Rightarrow> FMultiGrid \<Rightarrow> error + MGT_Solver" where
  "set_coeffs sd co mgt_solver fmg =
     (if \<not> m_baselevel fmg \<ge> 0 then Inl (AssertFailed ''fmg.m_baselevel >= 0'')
      else if \<not> (m_baselevel fmg = 0 \<or> m_crse_ratio fmg \<noteq> TheZeroVector sd)
      then Inl (AssertFailed
             ''fmg.m_baselevel == 0 || fmg.m_crse_ratio != IntVect::TheZeroVector()'')
      else
        let xa = map (level_distance sd fmg) [0..<m_nlevels fmg];
            xb = map (level_distance sd fmg) [0..<m_nlevels fmg]
        in if eq_type co = const_gravity_eq
           then Inr (mgt_solver\<lparr>mgt_coeffs := Some (set_const_gravity_coeffs_k xa xb)\<rparr>)
           else if eq_type co = gravity_eq
           then (if \<not> b_set co then Inl (AssertFailed ''b_set'')
                 else Inr (mgt_solver\<lparr>mgt_coeffs :=
                        Some (set_gravity_coefficients_k (bcoef co) xa xb)\<rparr>))
           else if eq_type co = general_eq
           then (if \<not> (alpha_set co \<and> a_set co \<and> beta_set co \<and> b_set co)
                 then Inl (AssertFailed ''alpha_set && a_set && beta_set && b_set'')
                 else Inr (mgt_solver\<lparr>mgt_coeffs :=
                        Some (set_abeclap_coeffs_k (alpha co) (acoef co) (beta co) (bcoef co)
                                xa xb)\<rparr>))
           else Inl (Abort ''FMultiGrid::ABecCoeff::set_coeffs: How did we get here?''))"

subsection \<open>Lazy construction of the solver handle\<close>

text \<open>
  \<open>init_mgt_solver\<close> reads \<open>phi[0]\<close> and \<open>phi[ilev]\<close> for every level of the instance; a
  \<open>phi\<close> with fewer entries is read out of range. \<open>ba[0]\<close> exists only when the instance
  has a level.
\<close>

definition init_mgt_solver :: "nat \<Rightarrow> FMultiGrid \<Rightarrow> heap \<Rightarrow> addr list \<Rightarrow> error + FMultiGrid" where
  "init_mgt_solver sd fmg h phi =
     (if \<not> initilized (m_bc fmg) then Inl (AssertFailed ''m_bc.initilized'')
      else if \<not> eq_type (m_coeff fmg) \<noteq> invalid_eq
      then Inl (AssertFailed ''m_coeff.eq_type != invalid_eq'')
      else if \<not> m_mgt_solver fmg = None then Inl (AssertFailed ''m_mgt_solver == 0'')
      else if phi = [] \<or> length phi < m_nlevels fmg then Inl IndexOutOfRange
      else
        let ncomp = nComp (h (phi ! 0));
            dmap = map (\<lambda>ilev. DistributionMap (h (phi ! ilev))) [0..<m_nlevels fmg];
            ba = map (\<lambda>ilev. boxArray (h (phi ! ilev))) [0..<m_nlevels fmg];
            nodal = False;
            nc = 0;
            solver = \<lparr>mgt_geom = m_geom fmg, mgt_bc = mg_bc (m_bc fmg), mgt_ba = ba,
                      mgt_dmap = dmap, mgt_nodal = nodal, mgt_stencil = m_stencil fmg,
                      mgt_have_rhcc = nodal, mgt_nc = nc, mgt_ncomp = ncomp,
                      mgt_verbose = m_verbose fmg, mgt_coeffs = None\<rparr>;
            fmg1 = fmg\<lparr>m_mgt_solver := Some solver\<rparr>
        in if ba = [] then Inl IndexOutOfRange
           else
             let bndry = \<lparr>mb_boxes = ba ! 0, mb_ncomp = ncomp, mb_geom = m_geom fmg1 ! 0,
                          mb_values = None\<rparr>
             in case set_bndry_values sd h (m_bc fmg1) bndry (m_crse_ratio fmg1) of
                  Inl e \<Rightarrow> Inl e
                | Inr bndry' \<Rightarrow>
                    (let fmg2 = fmg1\<lparr>m_bndry := Some bndry'\<rparr>
                     in case set_coeffs sd (m_coeff fmg2) solver fmg2 of
                          Inl e \<Rightarrow> Inl e
                        | Inr solver' \<Rightarrow> Inr (fmg2\<lparr>m_mgt_solver := Some solver'\<rparr>)))"

subsection \<open>solve and compute_residual\<close>

text \<open>
  The multi-level overloads take the addresses of \<open>phi[ilev]\<close> and \<open>rhs[ilev]\<close> for every
  level of the instance before anything else happens. The result is the object, the heap
  the kernel leaves behind and, for \<open>solve\<close>, the final residual norm. The argument
  \<open>verbose\<close> is not read by the code.
\<close>

definition solve ::
  "nat \<Rightarrow> kernel \<Rightarrow> FMultiGrid \<Rightarrow> heap \<Rightarrow> addr list \<Rightarrow> addr list \<Rightarrow> Real \<Rightarrow> Real
     \<Rightarrow> int \<Rightarrow> int \<Rightarrow> int \<Rightarrow> error + (FMultiGrid \<times> heap \<times> Real)" where
  "solve sd K fmg h phi rhs rel_tol abs_tol always_use_bnorm need_grad_phi verbose =
     (if \<not> initilized (m_bc fmg) then Inl (AssertFailed ''m_bc.initilized'')
      else if \<not> eq_type (m_coeff fmg) \<noteq> invalid_eq
      then Inl (AssertFailed ''m_coeff.eq_type != invalid_eq'')
      else if \<not> m_mgt_solver fmg = None then Inl (AssertFailed ''m_mgt_solver == 0'')
      else if \<not> m_bndry fmg = None then Inl (AssertFailed ''m_bndry == 0'')
      else if length phi < m_nlevels fmg \<or> length rhs < m_nlevels fmg
      then Inl IndexOutOfRange
      else
        let phi_p = map (\<lambda>ilev. phi ! ilev) [0..<m_nlevels fmg];
            rhs_p = map (\<lambda>ilev. rhs ! ilev) [0..<m_nlevels fmg]
        in case init_mgt_solver sd fmg h phi of
             Inl e \<Rightarrow> Inl e
           | Inr fmg' \<Rightarrow>
               (case m_mgt_solver fmg' of
                  None \<Rightarrow> Inl NullDereference
                | Some s \<Rightarrow>
                    (case m_bndry fmg' of
                       None \<Rightarrow> Inl NullDereference
                     | Some bn \<Rightarrow>
                         (let (h', final_resnorm) =
                                k_solve K s h phi_p rhs_p bn rel_tol abs_tol
                                  always_use_bnorm need_grad_phi
                          in Inr (fmg', h', final_resnorm)))))"

definition solve_MultiFab ::
  "nat \<Rightarrow> kernel \<Rightarrow> FMultiGrid \<Rightarrow> heap \<Rightarrow> addr \<Rightarrow> addr \<Rightarrow> Real \<Rightarrow> Real
     \<Rightarrow> int \<Rightarrow> int \<Rightarrow> int \<Rightarrow> error + (FMultiGrid \<times> heap \<times> Real)" where
  "solve_MultiFab sd K fmg h phi rhs rel_tol abs_tol always_use_bnorm need_grad_phi verbose =
     (let phi_p = Copy_MultiFab phi;
          rhs_p = Copy_MultiFab rhs
      in solve sd K fmg h phi_p rhs_p rel_tol abs_tol always_use_bnorm need_grad_phi verbose)"

definition compute_residual ::
  "nat \<Rightarrow> kernel \<Rightarrow> FMultiGrid \<Rightarrow> heap \<Rightarrow> addr list \<Rightarrow> addr list \<Rightarrow> addr list
     \<Rightarrow> error + (FMultiGrid \<times> heap)" where
  "compute_residual sd K fmg h phi rhs res =
     (if \<not> initilized (m_bc fmg) then Inl (AssertFailed ''m_bc.initilized'')
      else if \<not> eq_type (m_coeff fmg) \<noteq> invalid_eq
      then Inl (AssertFailed ''m_coeff.eq_type != invalid_eq'')
      else if \<not> m_mgt_solver fmg = None then Inl (AssertFailed ''m_mgt_solver == 0'')
      else if \<not> m_bndry fmg = None then Inl (AssertFailed ''m_bndry == 0'')
      else if length phi < m_nlevels fmg \<or> length rhs < m_nlevels fmg
                \<or> length res < m_nlevels fmg
      then Inl IndexOutOfRange
      else
        let phi_p = map (\<lambda>ilev. phi ! ilev) [0..<m_nlevels fmg];
            rhs_p = map (\<lambda>ilev. rhs ! ilev) [0..<m_nlevels fmg];
            res_p = map (\<lambda>ilev. res ! ilev) [0..<m_nlevels fmg]
        in case init_mgt_solver sd fmg h phi of
             Inl e \<Rightarrow> Inl e
           | Inr fmg' \<Rightarrow>
               (case m_mgt_solver fmg' of
                  None \<Rightarrow> Inl NullDereference
                | Some s \<Rightarrow>
                    (case m_bndry fmg' of
                       None \<Rightarrow> Inl NullDereference
                     | Some bn \<Rightarrow>
                         Inr (fmg', k_compute_residual K s h phi_p rhs_p res_p bn))))"

definition compute_residual_MultiFab ::
  "nat \<Rightarrow> kernel \<Rightarrow> FMultiGrid \<Rightarrow> heap \<Rightarrow> addr \<Rightarrow> addr \<Rightarrow> addr
     \<Rightarrow> error + (FMultiGrid \<times> heap)" where
  "compute_residual_MultiFab sd K fmg h phi rhs res =
     (let phi_p = Copy_MultiFab phi;
          rhs_p = Copy_MultiFab rhs;
          res_p = Copy_MultiFab res
      in compute_residual sd K fmg h phi_p rhs_p res_p)"

subsection \<open>get_grad_phi\<close>

text \<open>
  None of the three overloads tests \<open>m_mgt_solver\<close> before calling \<open>get_fluxes\<close> through it.
  The overloads for \<open>Array<PArray<MultiFab> >\<close> and \<open>PArray<PArray<MultiFab> >\<close> have the
  same body: a loop over the levels of the instance, reading \<open>grad_phi[ilev]\<close>.
\<close>

definition get_grad_phi ::
  "kernel \<Rightarrow> FMultiGrid \<Rightarrow> heap \<Rightarrow> addr list \<Rightarrow> error + heap" where
  "get_grad_phi K fmg h grad_phi =
     (if m_nlevels fmg \<noteq> 1 then Inl (AssertFailed ''m_nlevels == 1'')
      else
        let dx = CellSize (m_geom fmg ! 0)
        in case m_mgt_solver fmg of
             None \<Rightarrow> Inl NullDereference
           | Some s \<Rightarrow> Inr (k_get_fluxes K s h 0 grad_phi dx))"

fun get_grad_phi_loop ::
  "kernel \<Rightarrow> FMultiGrid \<Rightarrow> addr list list \<Rightarrow> nat list \<Rightarrow> heap \<Rightarrow> error + heap" where
  "get_grad_phi_loop K fmg grad_phi [] h = Inr h"
| "get_grad_phi_loop K fmg grad_phi (ilev # rest) h =
     (let dx = CellSize (m_geom fmg ! ilev)
      in if length grad_phi \<le> ilev then Inl IndexOutOfRange
         else case m_mgt_solver fmg of
                None \<Rightarrow> Inl NullDereference
              | Some s \<Rightarrow>
                  get_grad_phi_loop K fmg grad_phi rest
                    (k_get_fluxes K s h ilev (grad_phi ! ilev) dx))"

definition get_grad_phi_Array ::
  "kernel \<Rightarrow> FMultiGrid \<Rightarrow> heap \<Rightarrow> addr list list \<Rightarrow> error + heap" where
  "get_grad_phi_Array K fmg h grad_phi =
     get_grad_phi_loop K fmg grad_phi [0..<m_nlevels fmg] h"

definition get_grad_phi_PArray ::
  "kernel \<Rightarrow> FMultiGrid \<Rightarrow> heap \<Rightarrow> addr list list \<Rightarrow> error + heap" where
  "get_grad_phi_PArray K fmg h grad_phi =
     get_grad_phi_loop K fmg grad_phi [0..<m_nlevels fmg] h"

subsection \<open>A calling program\<close>

text \<open>
  A driver is a sequence of calls of the public member functions on one instance and one
  heap. \<open>step\<close> performs one call and drops the value it returns; \<open>run\<close> performs a
  sequence and stops at the first failure, as the process would.
\<close>

datatype call =
    Call_set_bc "int list"
  | Call_set_bc_phi "int list" addr
  | Call_set_bc_crse "int list" addr addr
  | Call_set_const_gravity_coeffs
  | Call_set_gravity_coeffs "addr list"
  | Call_set_gravity_coeffs_lev "addr list list"
  | Call_set_alpha Real
  | Call_set_acoef addr
  | Call_set_acoef_lev "addr list"
  | Call_set_beta Real
  | Call_set_bcoef_ptr addr
  | Call_set_bcoef "addr list"
  | Call_set_bcoef_lev "addr list list"
  | Call_solve_MultiFab addr addr Real Real int int int
  | Call_solve "addr list" "addr list" Real Real int int int
  | Call_get_grad_phi "addr list"
  | Call_get_grad_phi_Array "addr list list"
  | Call_get_grad_phi_PArray "addr list list"
  | Call_compute_residual_MultiFab addr addr addr
  | Call_compute_residual "addr list" "addr list" "addr list"

definition keep_heap :: "heap \<Rightarrow> error + FMultiGrid \<Rightarrow> error + (FMultiGrid \<times> heap)" where
  "keep_heap h r = (case r of Inl e \<Rightarrow> Inl e | Inr fmg \<Rightarrow> Inr (fmg, h))"

definition keep_object :: "FMultiGrid \<Rightarrow> error + heap \<Rightarrow> error + (FMultiGrid \<times> heap)" where
  "keep_object fmg r = (case r of Inl e \<Rightarrow> Inl e | Inr h \<Rightarrow> Inr (fmg, h))"

definition drop_norm ::
  "error + (FMultiGrid \<times> heap \<times> Real) \<Rightarrow> error + (FMultiGrid \<times> heap)" where
  "drop_norm r = (case r of Inl e \<Rightarrow> Inl e | Inr (fmg, h, n) \<Rightarrow> Inr (fmg, h))"

fun step :: "nat \<Rightarrow> kernel \<Rightarrow> FMultiGrid \<times> heap \<Rightarrow> call \<Rightarrow> error + (FMultiGrid \<times> heap)" where
  "step sd K (fmg, h) (Call_set_bc bc) = keep_heap h (set_bc fmg bc)"
| "step sd K (fmg, h) (Call_set_bc_phi bc p) = keep_heap h (set_bc_phi fmg bc p)"
| "step sd K (fmg, h) (Call_set_bc_crse bc cp p) = keep_heap h (set_bc_crse sd fmg bc cp p)"
| "step sd K (fmg, h) Call_set_const_gravity_coeffs = keep_heap h (set_const_gravity_coeffs fmg)"
| "step sd K (fmg, h) (Call_set_gravity_coeffs bs) = keep_heap h (set_gravity_coeffs sd fmg bs)"
| "step sd K (fmg, h) (Call_set_gravity_coeffs_lev bs) =
     keep_heap h (set_gravity_coeffs_lev sd fmg bs)"
| "step sd K (fmg, h) (Call_set_alpha al) = keep_heap h (set_alpha fmg al)"
| "step sd K (fmg, h) (Call_set_acoef ac) = keep_heap h (set_acoef fmg ac)"
| "step sd K (fmg, h) (Call_set_acoef_lev acs) = keep_heap h (set_acoef_lev fmg acs)"
| "step sd K (fmg, h) (Call_set_beta be) = keep_heap h (set_beta fmg be)"
| "step sd K (fmg, h) (Call_set_bcoef_ptr bp) = keep_heap h (set_bcoef_ptr sd fmg bp)"
| "step sd K (fmg, h) (Call_set_bcoef bs) = keep_heap h (set_bcoef sd fmg bs)"
| "step sd K (fmg, h) (Call_set_bcoef_lev bs) = keep_heap h (set_bcoef_lev sd fmg bs)"
| "step sd K (fmg, h) (Call_solve_MultiFab phi rhs rt atl ub ng vb) =
     drop_norm (solve_MultiFab sd K fmg h phi rhs rt atl ub ng vb)"
| "step sd K (fmg, h) (Call_solve phi rhs rt atl ub ng vb) =
     drop_norm (solve sd K fmg h phi rhs rt atl ub ng vb)"
| "step sd K (fmg, h) (Call_get_grad_phi g) = keep_object fmg (get_grad_phi K fmg h g)"
| "step sd K (fmg, h) (Call_get_grad_phi_Array g) =
     keep_object fmg (get_grad_phi_Array K fmg h g)"
| "step sd K (fmg, h) (Call_get_grad_phi_PArray g) =
     keep_object fmg (get_grad_phi_PArray K fmg h g)"
| "step sd K (fmg, h) (Call_compute_residual_MultiFab phi rhs res) =
     compute_residual_MultiFab sd K fmg h phi rhs res"
| "step sd K (fmg, h) (Call_compute_residual phi rhs res) =
     compute_residual sd K fmg h phi rhs res"

fun run :: "nat \<Rightarrow> kernel \<Rightarrow> FMultiGrid \<times> heap \<Rightarrow> call list \<Rightarrow> error + (FMultiGrid \<times> heap)" where
  "run sd K s [] = Inr s"
| "run sd K s (c # cs) = (case step sd K s c of Inl e \<Rightarrow> Inl e | Inr s' \<Rightarrow> run sd K s' cs)"

fun is_set_bc :: "call \<Rightarrow> bool" where
  "is_set_bc (Call_set_bc bc) = True"
| "is_set_bc (Call_set_bc_phi bc p) = True"
| "is_set_bc (Call_set_bc_crse bc cp p) = True"
| "is_set_bc c = False"

fun is_solve :: "call \<Rightarrow> bool" where
  "is_solve (Call_solve_MultiFab phi rhs rt atl ub ng vb) = True"
| "is_solve (Call_solve phi rhs rt atl ub ng vb) = True"
| "is_solve (Call_compute_residual_MultiFab phi rhs res) = True"
| "is_solve (Call_compute_residual phi rhs res) = True"
| "is_solve c = False"

text \<open>
  Concrete objects for the examples: a field, a heap, and a kernel whose \<open>solve\<close> and
  \<open>compute_residual\<close> change nothing and whose \<open>get_fluxes\<close> stores the cell sizes it is
  given in each of the fields it is given.
\<close>

definition example_fab :: MultiFab where
  "example_fab = \<lparr>boxArray = Boxes [([0, 0], [7, 7])], DistributionMap = [0], nComp = 1,
                  nGrow = 1, fab_values = []\<rparr>"

definition example_heap :: heap where
  "example_heap = (\<lambda>p. example_fab)"

definition example_kernel :: kernel where
  "example_kernel = \<lparr>k_solve = (\<lambda>s h phi rhs bn rt atl ub ng. (h, d_zero)),
                     k_compute_residual = (\<lambda>s h phi rhs res bn. h),
                     k_get_fluxes = (\<lambda>s h ilev g dx.
                        fold (\<lambda>p hh. hh(p := (hh p)\<lparr>fab_values := dx\<rparr>)) g h)\<rparr>"

definition example_solver :: MGT_Solver where
  "example_solver = \<lparr>mgt_geom = [], mgt_bc = [], mgt_ba = [], mgt_dmap = [],
                     mgt_nodal = False, mgt_stencil = CC_CROSS_STENCIL, mgt_have_rhcc = False,
                     mgt_nc = 0, mgt_ncomp = 1, mgt_verbose = 0, mgt_coeffs = None\<rparr>"

subsection \<open>Reading results\<close>

text \<open>The distances handed to the kernel, read back from the handle.\<close>

definition solver_xa :: "MGT_Solver \<Rightarrow> Real list list" where
  "solver_xa s = (case mgt_coeffs s of None \<Rightarrow> [] | Some kc \<Rightarrow> coeffs_xa kc)"

definition solver_xb :: "MGT_Solver \<Rightarrow> Real list list" where
  "solver_xb s = (case mgt_coeffs s of None \<Rightarrow> [] | Some kc \<Rightarrow> coeffs_xb kc)"

text \<open>A failed \<open>BL_ASSERT\<close>, as opposed to any other outcome.\<close>

fun is_assert_failure :: "error + 'a \<Rightarrow> bool" where
  "is_assert_failure (Inl (AssertFailed m)) = True"
| "is_assert_failure r = False"

text \<open>
  How the variant tag and the four flags of \<open>ABecCoeff\<close> go together in an object that was
  built by a constructor and changed by the setters only: no flag with the invalid or the
  constant-gravity variant, \<open>b_set\<close> and no other flag with the gravity variant, and at
  least one flag with the general variant.
\<close>

definition coeff_consistent :: "ABecCoeff \<Rightarrow> bool" where
  "coeff_consistent co =
     (case eq_type co of
        invalid_eq \<Rightarrow> \<not> alpha_set co \<and> \<not> a_set co \<and> \<not> beta_set co \<and> \<not> b_set co
      | const_gravity_eq \<Rightarrow> \<not> alpha_set co \<and> \<not> a_set co \<and> \<not> beta_set co \<and> \<not> b_set co
      | gravity_eq \<Rightarrow> \<not> alpha_set co \<and> \<not> a_set co \<and> \<not> beta_set co \<and> b_set co
      | general_eq \<Rightarrow> alpha_set co \<or> a_set co \<or> beta_set co \<or> b_set co)"

text \<open>What \<open>solve\<close> asks of the configuration.\<close>

definition configured :: "FMultiGrid \<Rightarrow> bool" where
  "configured fmg = (initilized (m_bc fmg) \<and> eq_type (m_coeff fmg) \<noteq> invalid_eq)"

abbreviation tag_assert :: string where
  "tag_assert \<equiv> ''m_coeff.eq_type == invalid_eq || m_coeff.eq_type == general_eq''"

text \<open>
  The coefficient setters by what they ask for: the variant a setter call requests, the
  sub-value it sets (the two gravity setters with an argument set \<open>b\<close>,
  \<open>set_const_gravity_coeffs\<close> sets none), the flag of a sub-value, and the text of the
  assertion on that flag.
\<close>

datatype sub_value = No_sub | Alpha_sub | A_sub | Beta_sub | B_sub

fun requested :: "call \<Rightarrow> EqType option" where
  "requested Call_set_const_gravity_coeffs = Some const_gravity_eq"
| "requested (Call_set_gravity_coeffs bs) = Some gravity_eq"
| "requested (Call_set_gravity_coeffs_lev bs) = Some gravity_eq"
| "requested (Call_set_alpha al) = Some general_eq"
| "requested (Call_set_acoef ac) = Some general_eq"
| "requested (Call_set_acoef_lev acs) = Some general_eq"
| "requested (Call_set_beta be) = Some general_eq"
| "requested (Call_set_bcoef_ptr bp) = Some general_eq"
| "requested (Call_set_bcoef bs) = Some general_eq"
| "requested (Call_set_bcoef_lev bs) = Some general_eq"
| "requested c = None"

fun sub_of :: "call \<Rightarrow> sub_value" where
  "sub_of (Call_set_gravity_coeffs bs) = B_sub"
| "sub_of (Call_set_gravity_coeffs_lev bs) = B_sub"
| "sub_of (Call_set_alpha al) = Alpha_sub"
| "sub_of (Call_set_acoef ac) = A_sub"
| "sub_of (Call_set_acoef_lev acs) = A_sub"
| "sub_of (Call_set_beta be) = Beta_sub"
| "sub_of (Call_set_bcoef_ptr bp) = B_sub"
| "sub_of (Call_set_bcoef bs) = B_sub"
| "sub_of (Call_set_bcoef_lev bs) = B_sub"
| "sub_of c = No_sub"

fun sub_set :: "sub_value \<Rightarrow> ABecCoeff \<Rightarrow> bool" where
  "sub_set No_sub co = False"
| "sub_set Alpha_sub co = alpha_set co"
| "sub_set A_sub co = a_set co"
| "sub_set Beta_sub co = beta_set co"
| "sub_set B_sub co = b_set co"

fun flag_assert :: "sub_value \<Rightarrow> string" where
  "flag_assert No_sub = []"
| "flag_assert Alpha_sub = ''!m_coeff.alpha_set''"
| "flag_assert A_sub = ''!m_coeff.a_set''"
| "flag_assert Beta_sub = ''!m_coeff.beta_set''"
| "flag_assert B_sub = ''!m_coeff.b_set''"

subsection \<open>Example objects\<close>

text \<open>
  Some doubles: \<open>1\<close>, \<open>2\<close>, \<open>2\<^sup>-\<^sup>1\<^sup>0\<close>, and the doubles nearest to \<open>0.1\<close> and to \<open>0.05\<close>,
  which is what the literals \<open>0.1\<close> and \<open>0.05\<close> denote in the program.
\<close>

definition d_one :: double where
  "d_one = Finite False 1 0"

definition d_two :: double where
  "d_two = Finite False 1 1"

definition d_tol :: double where
  "d_tol = Finite False 1 (- 10)"

definition d_tenth :: double where
  "d_tenth = Finite False 3602879701896397 (- 55)"

definition d_twentieth :: double where
  "d_twentieth = Finite False 3602879701896397 (- 56)"

text \<open>
  The two instances of the spec's examples, both in two dimensions: one level at the true
  root with cell size \<open>(0.1, 0.1)\<close>, and one level above the root (base level 1,
  refinement ratio \<open>(2, 2)\<close>) with cell size \<open>(0.05, 0.05)\<close>. Further: one level above the
  root with refinement ratio \<open>(3, 3)\<close> and cell size \<open>(0.1, 0.1)\<close>; an instance with two
  levels; the three kinds of coefficients; the root instance after \<open>set_bc\<close> and
  \<open>set_const_gravity_coeffs\<close>, and after a following \<open>solve\<close>; the heap after
  \<open>get_grad_phi\<close> on that instance; and instances on which single setters were called.
\<close>

definition example_root :: FMultiGrid where
  "example_root = projr (FMultiGrid_geom 2 \<lparr>CellSize = [d_tenth, d_tenth]\<rparr> 0 [0, 0])"

definition example_fine :: FMultiGrid where
  "example_fine = projr (FMultiGrid_geom 2 \<lparr>CellSize = [d_twentieth, d_twentieth]\<rparr> 1 [2, 2])"

definition example_ratio3 :: FMultiGrid where
  "example_ratio3 = projr (FMultiGrid_geom 2 \<lparr>CellSize = [d_tenth, d_tenth]\<rparr> 1 [3, 3])"

definition example_two_level :: FMultiGrid where
  "example_two_level =
     projr (FMultiGrid_vector 2 [\<lparr>CellSize = [d_tenth, d_tenth]\<rparr>,
                                \<lparr>CellSize = [d_twentieth, d_twentieth]\<rparr>] 0 [0, 0])"

definition example_coeff :: ABecCoeff where
  "example_coeff = ABecCoeff_default\<lparr>eq_type := const_gravity_eq\<rparr>"

definition example_gravity :: ABecCoeff where
  "example_gravity = m_coeff (projr (set_gravity_coeffs 2 example_root [5, 6]))"

definition example_general :: ABecCoeff where
  "example_general =
     m_coeff (fst (projr (run 2 example_kernel (example_root, example_heap)
        [Call_set_alpha d_one, Call_set_acoef 7, Call_set_beta d_two, Call_set_bcoef [5, 6]])))"

definition example_calls :: "call list" where
  "example_calls = [Call_set_bc [0, 0, 0, 0], Call_set_const_gravity_coeffs]"

definition example_configured :: FMultiGrid where
  "example_configured =
     fst (projr (run 2 example_kernel (example_root, example_heap) example_calls))"

definition example_solve :: call where
  "example_solve = Call_solve_MultiFab 1 2 d_tol d_zero 0 0 0"

definition example_solved :: FMultiGrid where
  "example_solved =
     fst (projr (step 2 example_kernel (example_configured, example_heap) example_solve))"

definition example_marked :: heap where
  "example_marked = example_heap
     (10 := example_fab\<lparr>fab_values := [d_tenth, d_tenth]\<rparr>,
      11 := example_fab\<lparr>fab_values := [d_tenth, d_tenth]\<rparr>)"

definition example_with_acoef :: FMultiGrid where
  "example_with_acoef = example_root\<lparr>m_coeff := ABecCoeff_default
      \<lparr>eq_type := general_eq, a_set := True, acoef := [7]\<rparr>\<rparr>"

definition example_with_alpha :: FMultiGrid where
  "example_with_alpha = example_root\<lparr>m_coeff := ABecCoeff_default
      \<lparr>eq_type := general_eq, alpha_set := True, alpha := d_one\<rparr>\<rparr>"

definition example_with_alpha_beta :: FMultiGrid where
  "example_with_alpha_beta = example_root\<lparr>m_coeff := ABecCoeff_default
      \<lparr>eq_type := general_eq, alpha_set := True, alpha := d_one,
       beta_set := True, beta := d_two\<rparr>\<rparr>"

definition example_with_bcoef :: FMultiGrid where
  "example_with_bcoef = example_root\<lparr>m_coeff := ABecCoeff_default
      \<lparr>eq_type := general_eq, b_set := True, bcoef := [[5, 6]]\<rparr>\<rparr>"

definition example_two_level_acoef :: FMultiGrid where
  "example_two_level_acoef = example_two_level\<lparr>m_coeff := ABecCoeff_default
      \<lparr>eq_type := general_eq, a_set := True, acoef := [7, 8]\<rparr>\<rparr>"

definition example_const_gravity :: FMultiGrid where
  "example_const_gravity =
     example_root\<lparr>m_coeff := ABecCoeff_default\<lparr>eq_type := const_gravity_eq\<rparr>\<rparr>"

definition example_bndry :: MacBndry where
  "example_bndry = \<lparr>mb_boxes = Boxes [([0, 0], [7, 7])], mb_ncomp = 1,
                    mb_geom = \<lparr>CellSize = [d_twentieth, d_twentieth]\<rparr>, mb_values = None\<rparr>"

section \<open>Properties\<close>

subsection \<open>Double precision\<close>

text \<open>
  \<open>bit_length\<close> and \<open>normalize_d\<close> one step at a time; a product whose mantissa and
  exponent fit the format is not rounded: it is finite and its value is the product of
  the values. Half of an integer below \<open>2\<^sup>5\<^sup>3\<close> in absolute value is exact.
\<close>

lemma bit_length_0: "bit_length 0 = 0"
  by (subst bit_length.simps) simp

lemma bit_length_pos: "m \<noteq> 0 \<Longrightarrow> bit_length m = Suc (bit_length (m div 2))"
  by (subst bit_length.simps) simp

lemma normalize_d_0: "normalize_d s 0 e = Finite s 0 0"
  by (subst normalize_d.simps) simp

lemma normalize_d_even:
  "m \<noteq> 0 \<Longrightarrow> even m \<Longrightarrow> normalize_d s m e = normalize_d s (m div 2) (e + 1)"
  by (subst normalize_d.simps) simp

lemma normalize_d_odd: "odd m \<Longrightarrow> normalize_d s m e = Finite s m e"
  by (subst normalize_d.simps) auto

lemma bit_length_le_iff: "bit_length m \<le> k \<longleftrightarrow> m < 2 ^ k"
proof (induction k arbitrary: m)
  case 0
  show ?case by (cases "m = 0") (simp_all add: bit_length_0 bit_length_pos)
next
  case (Suc k)
  show ?case
  proof (cases "m = 0")
    case True
    then show ?thesis by (simp add: bit_length_0)
  next
    case False
    then have "bit_length m = Suc (bit_length (m div 2))" by (rule bit_length_pos)
    then have "bit_length m \<le> Suc k \<longleftrightarrow> bit_length (m div 2) \<le> k" by simp
    also have "\<dots> \<longleftrightarrow> m div 2 < 2 ^ k" by (rule Suc.IH)
    also have "\<dots> \<longleftrightarrow> m < 2 ^ Suc k" by auto
    finally show ?thesis .
  qed
qed

lemma bit_length_mono: "m \<le> n \<Longrightarrow> bit_length m \<le> bit_length n"
proof -
  assume a: "m \<le> n"
  have "n < 2 ^ bit_length n" using bit_length_le_iff[of n "bit_length n"] by simp
  with a have "m < 2 ^ bit_length n" by simp
  then show ?thesis by (simp add: bit_length_le_iff)
qed

lemma normalize_d_props:
  "\<exists>m' e'. normalize_d s m e = Finite s m' e' \<and> m' \<le> m
      \<and> (m = 0 \<longrightarrow> e' = 0) \<and> (m \<noteq> 0 \<longrightarrow> e \<le> e' \<and> e' \<le> e + int (bit_length m))
      \<and> real m' * 2 powi e' = real m * 2 powi e"
proof (induction s m e rule: normalize_d.induct)
  case (1 s m e)
  show ?case
  proof (cases "m = 0")
    case True
    then show ?thesis by (simp add: normalize_d_0)
  next
    case False
    show ?thesis
    proof (cases "even m")
      case True
      with False have h: "m div 2 \<noteq> 0" by (auto elim: evenE)
      from "1.IH"[OF False True] h obtain m' e' where
        n: "normalize_d s (m div 2) (e + 1) = Finite s m' e'" and
        b: "m' \<le> m div 2" "e + 1 \<le> e'" "e' \<le> e + 1 + int (bit_length (m div 2))" and
        v: "real m' * 2 powi e' = real (m div 2) * 2 powi (e + 1)" by blast
      from False True n have r: "normalize_d s m e = Finite s m' e'"
        by (simp add: normalize_d_even)
      from False have bl: "bit_length m = Suc (bit_length (m div 2))"
        by (rule bit_length_pos)
      from True have "real (m div 2) * 2 = real m" by (auto elim: evenE)
      then have "real (m div 2) * 2 powi (e + 1) = real m * 2 powi e"
        by (simp add: power_int_add)
      with v have v': "real m' * 2 powi e' = real m * 2 powi e" by simp
      from b have b': "m' \<le> m" "e \<le> e'" "e' \<le> e + int (bit_length m)"
        unfolding bl by simp_all
      from r b' v' False show ?thesis by blast
    next
      case odd: False
      then have "normalize_d s m e = Finite s m e"
        by (rule normalize_d_odd)
      with False show ?thesis by simp
    qed
  qed
qed

lemma round_exact: "fits m e \<Longrightarrow> round_to_double s m e = normalize_d s m e"
  by (simp add: fits_def round_to_double_def Let_def)

lemma round_exact_value:
  assumes "fits m e"
  shows "\<exists>m' e'. round_to_double s m e = Finite s m' e' \<and> m' \<le> m
      \<and> (m = 0 \<longrightarrow> e' = 0) \<and> (m \<noteq> 0 \<longrightarrow> e \<le> e' \<and> e' \<le> e + int (bit_length m))
      \<and> valof (Finite s m' e') = (if s then - 1 else 1) * (real m * 2 powi e)"
proof -
  from normalize_d_props[of s m e] obtain m' e' where
    n: "normalize_d s m e = Finite s m' e'" and b: "m' \<le> m" "m = 0 \<longrightarrow> e' = 0"
      "m \<noteq> 0 \<longrightarrow> e \<le> e' \<and> e' \<le> e + int (bit_length m)"
    and v: "real m' * 2 powi e' = real m * 2 powi e" by blast
  have "valof (Finite s m' e') = (if s then - 1 else 1) * (real m' * 2 powi e')" by simp
  with v have "valof (Finite s m' e') = (if s then - 1 else 1) * (real m * 2 powi e)"
    by (simp only:)
  with n b round_exact[OF assms, of s] show ?thesis by simp
qed

lemma dmul_exact:
  assumes "fits (m * n) (e + f)"
  shows "is_finite (dmul (Finite s m e) (Finite t n f))
       \<and> valof (dmul (Finite s m e) (Finite t n f))
           = valof (Finite s m e) * valof (Finite t n f)"
proof -
  from round_exact_value[OF assms, of "s \<noteq> t"] obtain m' e' where
    r: "round_to_double (s \<noteq> t) (m * n) (e + f) = Finite (s \<noteq> t) m' e'" and
    v: "valof (Finite (s \<noteq> t) m' e')
          = (if s \<noteq> t then - 1 else 1) * (real (m * n) * 2 powi (e + f))" by blast
  have p: "(2::real) powi (e + f) = 2 powi e * 2 powi f" by (simp add: power_int_add)
  have "(if s \<noteq> t then - 1 else 1) * (real (m * n) * 2 powi (e + f))
      = valof (Finite s m e) * valof (Finite t n f)"
    unfolding p by (cases s; cases t) simp_all
  with v have "valof (Finite (s \<noteq> t) m' e') = valof (Finite s m e) * valof (Finite t n f)"
    by (simp only:)
  with r show ?thesis by (simp del: valof.simps)
qed

lemma half_of_int:
  assumes "\<bar>r\<bar> < 2 ^ 53"
  shows "\<exists>s m e. dmul d_half (double_of_int r) = Finite s m e
       \<and> valof (Finite s m e) = real_of_int r / 2"
proof -
  from assms have "nat \<bar>r\<bar> < 2 ^ 53" by (simp add: nat_less_iff)
  then have bl: "bit_length (nat \<bar>r\<bar>) \<le> 53" by (simp add: bit_length_le_iff)
  then have "fits (nat \<bar>r\<bar>) 0" by (simp add: fits_def)
  from round_exact_value[OF this, of "r < 0"] obtain m1 e1 where
    d: "double_of_int r = Finite (r < 0) m1 e1" and
    b: "m1 \<le> nat \<bar>r\<bar>" "nat \<bar>r\<bar> = 0 \<longrightarrow> e1 = 0"
       "nat \<bar>r\<bar> \<noteq> 0 \<longrightarrow> 0 \<le> e1 \<and> e1 \<le> 0 + int (bit_length (nat \<bar>r\<bar>))" and
    v: "valof (Finite (r < 0) m1 e1) = (if r < 0 then - 1 else 1) * (real (nat \<bar>r\<bar>) * 2 powi 0)"
    unfolding double_of_int_def by auto
  from v have v1: "valof (Finite (r < 0) m1 e1) = real_of_int r"
    by (simp del: valof.simps)
  from b have e: "0 \<le> e1" "e1 \<le> 53" using bl by auto
  from bit_length_mono[OF b(1)] bl have "bit_length m1 \<le> 53" by simp
  with e have "fits (1 * m1) (- 1 + e1)" by (simp add: fits_def)
  from dmul_exact[OF this, of False "r < 0"]
  have f: "is_finite (dmul (Finite False 1 (- 1)) (Finite (r < 0) m1 e1))"
    and w: "valof (dmul (Finite False 1 (- 1)) (Finite (r < 0) m1 e1))
       = valof (Finite False 1 (- 1)) * valof (Finite (r < 0) m1 e1)" by simp_all
  have "valof (Finite False 1 (- 1)) = 1 / 2" by (simp add: power_int_minus)
  with w v1 have w': "valof (dmul (Finite False 1 (- 1)) (Finite (r < 0) m1 e1)) = real_of_int r / 2"
    by (simp del: valof.simps dmul.simps)
  from f w' show ?thesis
    unfolding d_half_def d
    by (cases "dmul (Finite False 1 (- 1)) (Finite (r < 0) m1 e1)")
       (simp_all del: dmul.simps valof.simps)
qed

text \<open>
  Products of the examples. \<open>0.5 * 2 * 0.05\<close> and \<open>0.5 * 0.1\<close> are exact; \<open>0.5 * 3 * 0.1\<close>
  is rounded, and \<open>0.5 * 4 * 1e308\<close> overflows.
\<close>

lemma example_products:
  "dmul (dmul d_half (double_of_int 2)) d_twentieth = d_twentieth"
  "dmul (dmul d_half (double_of_int 3)) d_tenth = Finite False 1351079888211149 (- 53)"
  "dmul d_half (double_of_int 3) = Finite False 3 (- 1)"
  "dmul d_half (double_of_int 2) = Finite False 1 0"
  "dmul d_half d_tenth = d_twentieth"
  "dmul (Finite False 3 (- 1)) d_tenth = Finite False 1351079888211149 (- 53)"
  "dmul (Finite False (Suc 0) 0) d_twentieth = d_twentieth"
  by (simp_all add: d_half_def d_tenth_def d_twentieth_def double_of_int_def
        round_to_double_def bit_length.simps normalize_d.simps Let_def)

lemma example_values:
  "\<bar>valof d_tenth - 1 / 10\<bar> < 2 powi (- 57)"
  "\<bar>valof d_twentieth - 1 / 20\<bar> < 2 powi (- 58)"
  "valof (Finite False 1351079888211149 (- 53)) \<noteq> 0.5 * real_of_int 3 * valof d_tenth"
  "valof d_twentieth = 0.5 * real_of_int 2 * valof d_twentieth"
  by (simp_all add: d_tenth_def d_twentieth_def power_int_minus field_simps)

lemma example_overflow:
  "dmul (dmul d_half (double_of_int 4)) (Finite False 156575653125701 976) = Infinity False"
  by (simp add: d_half_def double_of_int_def round_to_double_def bit_length.simps
        normalize_d.simps Let_def)

subsection \<open>Evaluation of the examples\<close>

lemma upt2: "[0..<2] = [0, Suc 0]" "[0..<Suc 0] = [0]" "replicate 2 x = [x, x]"
  by (simp_all add: upt_rec numeral_2_eq_2)

lemmas example_defs = example_root_def example_fine_def example_coeff_def example_solver_def
  FMultiGrid_geom_def TheZeroVector_def ABecCoeff_default_def Boundary_default_def upt2

lemma run_append:
  "run sd K s (cs @ ds) = (case run sd K s cs of Inl e \<Rightarrow> Inl e | Inr s' \<Rightarrow> run sd K s' ds)"
  by (induction cs arbitrary: s) (simp_all split: sum.splits)

lemma example_root_eval:
  "FMultiGrid_vector 2 [\<lparr>CellSize = [d_tenth, d_tenth]\<rparr>] 0 [0, 0] = Inr example_root"
  by (simp add: FMultiGrid_vector_def example_defs)

lemma example_root_fields:
  "example_root = \<lparr>m_nlevels = 1, m_baselevel = 0, m_crse_ratio = [0, 0],
      m_stencil = CC_CROSS_STENCIL, m_verbose = 0, m_geom = [\<lparr>CellSize = [d_tenth, d_tenth]\<rparr>],
      m_bc = Boundary_default, m_coeff = ABecCoeff_default,
      m_bndry = None, m_mgt_solver = None\<rparr>"
  by (simp add: example_root_def FMultiGrid_geom_def TheZeroVector_def)

lemma example_ratio3_fields:
  "example_ratio3 = \<lparr>m_nlevels = 1, m_baselevel = 1, m_crse_ratio = [3, 3],
      m_stencil = CC_CROSS_STENCIL, m_verbose = 0, m_geom = [\<lparr>CellSize = [d_tenth, d_tenth]\<rparr>],
      m_bc = Boundary_default, m_coeff = ABecCoeff_default,
      m_bndry = None, m_mgt_solver = None\<rparr>"
  by (simp add: example_ratio3_def FMultiGrid_geom_def TheZeroVector_def upt2)

lemma example_two_level_fields:
  "example_two_level = \<lparr>m_nlevels = 2, m_baselevel = 0, m_crse_ratio = [0, 0],
      m_stencil = CC_CROSS_STENCIL, m_verbose = 0,
      m_geom = [\<lparr>CellSize = [d_tenth, d_tenth]\<rparr>, \<lparr>CellSize = [d_twentieth, d_twentieth]\<rparr>],
      m_bc = Boundary_default, m_coeff = ABecCoeff_default,
      m_bndry = None, m_mgt_solver = None\<rparr>"
  by (simp add: example_two_level_def FMultiGrid_vector_def)

lemma example_configured_fields:
  "example_configured = example_root\<lparr>m_bc := Boundary_ctor [0, 0, 0, 0] None None,
      m_coeff := ABecCoeff_default\<lparr>eq_type := const_gravity_eq\<rparr>\<rparr>"
  by (simp add: example_configured_def example_calls_def example_root_fields keep_heap_def
        set_bc_def set_const_gravity_coeffs_def Boundary_default_def ABecCoeff_default_def)

lemma example_configured_eval:
  "run 2 example_kernel (example_root, example_heap) example_calls
     = Inr (example_configured, example_heap)"
  by (simp add: example_configured_fields example_calls_def example_root_fields keep_heap_def
        set_bc_def set_const_gravity_coeffs_def Boundary_default_def ABecCoeff_default_def)

lemma example_solved_step:
  "step 2 example_kernel (example_configured, example_heap) example_solve
     = Inr (example_configured\<lparr>
         m_bndry := Some \<lparr>mb_boxes = Boxes [([0, 0], [7, 7])], mb_ncomp = 1,
                          mb_geom = \<lparr>CellSize = [d_tenth, d_tenth]\<rparr>,
                          mb_values = Some (setHomogValues ([0, 0], [0, 0]) [0, 0])\<rparr>,
         m_mgt_solver := Some \<lparr>mgt_geom = [\<lparr>CellSize = [d_tenth, d_tenth]\<rparr>], mgt_bc = [0, 0, 0, 0],
            mgt_ba = [Boxes [([0, 0], [7, 7])]], mgt_dmap = [[0]], mgt_nodal = False,
            mgt_stencil = CC_CROSS_STENCIL, mgt_have_rhcc = False, mgt_nc = 0, mgt_ncomp = 1,
            mgt_verbose = 0,
            mgt_coeffs = Some (set_const_gravity_coeffs_k [[d_zero, d_zero]] [[d_zero, d_zero]])\<rparr>\<rparr>, example_heap)"
  by (simp add: example_solve_def example_configured_fields example_root_fields
        drop_norm_def solve_MultiFab_def solve_def Copy_MultiFab_def init_mgt_solver_def
        set_bndry_values_def set_coeffs_def level_distance_def Boundary_ctor_def
        ABecCoeff_default_def TheZeroVector_def example_heap_def example_fab_def
        example_kernel_def upt2 Let_def)

lemma example_solved_fields:
  "example_solved = example_configured\<lparr>
         m_bndry := Some \<lparr>mb_boxes = Boxes [([0, 0], [7, 7])], mb_ncomp = 1,
                          mb_geom = \<lparr>CellSize = [d_tenth, d_tenth]\<rparr>,
                          mb_values = Some (setHomogValues ([0, 0], [0, 0]) [0, 0])\<rparr>,
         m_mgt_solver := Some \<lparr>mgt_geom = [\<lparr>CellSize = [d_tenth, d_tenth]\<rparr>], mgt_bc = [0, 0, 0, 0],
            mgt_ba = [Boxes [([0, 0], [7, 7])]], mgt_dmap = [[0]], mgt_nodal = False,
            mgt_stencil = CC_CROSS_STENCIL, mgt_have_rhcc = False, mgt_nc = 0, mgt_ncomp = 1,
            mgt_verbose = 0,
            mgt_coeffs = Some (set_const_gravity_coeffs_k [[d_zero, d_zero]] [[d_zero, d_zero]])\<rparr>\<rparr>"
  unfolding example_solved_def by (simp only: example_solved_step) simp

lemma example_solved_eval:
  "step 2 example_kernel (example_configured, example_heap) example_solve
     = Inr (example_solved, example_heap)"
  by (simp add: example_solved_def example_solved_step)

lemma example_solved_facts:
  "m_mgt_solver example_solved \<noteq> None" "m_nlevels example_solved = 1"
  "initilized (m_bc example_solved)" "eq_type (m_coeff example_solved) \<noteq> invalid_eq"
  by (simp_all add: example_solved_fields example_configured_fields
        example_root_fields Boundary_ctor_def ABecCoeff_default_def)

lemma example_run_solved:
  "run 2 example_kernel (example_root, example_heap) (example_calls @ [example_solve])
     = Inr (example_solved, example_heap)"
  by (simp only: run_append example_configured_eval sum.case run.simps example_solved_eval)

lemma example_gravity_fields:
  "example_gravity = ABecCoeff_default\<lparr>eq_type := gravity_eq, b_set := True, bcoef := [[5, 6]]\<rparr>"
  by (simp add: example_gravity_def set_gravity_coeffs_def example_root_fields
        ABecCoeff_default_def Copy_dims_def upt2)

lemma example_general_fields:
  "example_general = \<lparr>alpha = d_one, beta = d_two, acoef = [7], bcoef = [[5, 6]], eq_type = general_eq,
      alpha_set = True, a_set = True, beta_set = True, b_set = True\<rparr>"
  by (simp add: example_general_def example_root_fields keep_heap_def set_alpha_def
        set_acoef_def set_beta_def set_bcoef_def ABecCoeff_default_def Copy_dims_def
        Copy_MultiFab_def upt2)

subsection \<open>What one call changes\<close>

text \<open>
  A successful \<open>solve\<close> or \<open>compute_residual\<close> found the boundary and the coefficients set
  and no handle, and leaves the object with a handle and a boundary object and nothing
  else changed. Every other successful call leaves the handle, the levels and the
  geometry alone.
\<close>

lemmas setter_defs = set_bc_def set_bc_phi_def set_bc_crse_def set_const_gravity_coeffs_def
  set_gravity_coeffs_def set_gravity_coeffs_lev_def set_alpha_def set_acoef_def
  set_acoef_lev_def set_beta_def set_bcoef_ptr_def set_bcoef_def set_bcoef_lev_def

lemma ctor_fresh:
  "FMultiGrid_geom sd g B r = Inr fmg \<Longrightarrow>
     m_mgt_solver fmg = None \<and> m_bndry fmg = None \<and> m_nlevels fmg = 1 \<and> m_geom fmg = [g]
     \<and> m_bc fmg = Boundary_default \<and> m_coeff fmg = ABecCoeff_default"
  "FMultiGrid_vector sd gs B r = Inr fmg \<Longrightarrow>
     m_mgt_solver fmg = None \<and> m_bndry fmg = None \<and> m_nlevels fmg = length gs
     \<and> m_geom fmg = gs
     \<and> m_bc fmg = Boundary_default \<and> m_coeff fmg = ABecCoeff_default"
  "FMultiGrid_PArray sd gs B r = Inr fmg \<Longrightarrow>
     m_mgt_solver fmg = None \<and> m_bndry fmg = None \<and> m_nlevels fmg = length gs
     \<and> m_geom fmg = gs
     \<and> m_bc fmg = Boundary_default \<and> m_coeff fmg = ABecCoeff_default"
  by (auto simp: FMultiGrid_geom_def FMultiGrid_vector_def FMultiGrid_PArray_def map_nth
      split: if_splits)

lemma init_mgt_solver_Inr:
  assumes "init_mgt_solver sd fmg h phi = Inr fmg'"
  shows "initilized (m_bc fmg) \<and> eq_type (m_coeff fmg) \<noteq> invalid_eq
       \<and> m_mgt_solver fmg = None
       \<and> (\<exists>s b. fmg' = fmg\<lparr>m_bndry := Some b, m_mgt_solver := Some s\<rparr>)"
  using assms unfolding init_mgt_solver_def Let_def
  by (auto split: if_splits sum.splits)

lemma solve_Inr:
  assumes "solve sd K fmg h phi rhs rt atl ub ng vb = Inr (fmg', h', nrm)"
  shows "initilized (m_bc fmg) \<and> eq_type (m_coeff fmg) \<noteq> invalid_eq
       \<and> m_mgt_solver fmg = None \<and> m_bndry fmg = None
       \<and> (\<exists>s b. fmg' = fmg\<lparr>m_bndry := Some b, m_mgt_solver := Some s\<rparr>)"
proof -
  from assms obtain f1 where i: "init_mgt_solver sd fmg h phi = Inr f1" and f: "fmg' = f1"
    and p: "initilized (m_bc fmg)" "eq_type (m_coeff fmg) \<noteq> invalid_eq"
       "m_mgt_solver fmg = None" "m_bndry fmg = None"
    unfolding solve_def Let_def
    by (auto split: if_splits sum.splits option.splits prod.splits)
  from init_mgt_solver_Inr[OF i] f p show ?thesis by simp
qed

lemma compute_residual_Inr:
  assumes "compute_residual sd K fmg h phi rhs res = Inr (fmg', h')"
  shows "initilized (m_bc fmg) \<and> eq_type (m_coeff fmg) \<noteq> invalid_eq
       \<and> m_mgt_solver fmg = None \<and> m_bndry fmg = None
       \<and> (\<exists>s b. fmg' = fmg\<lparr>m_bndry := Some b, m_mgt_solver := Some s\<rparr>)"
proof -
  from assms obtain f1 where i: "init_mgt_solver sd fmg h phi = Inr f1" and f: "fmg' = f1"
    and p: "initilized (m_bc fmg)" "eq_type (m_coeff fmg) \<noteq> invalid_eq"
       "m_mgt_solver fmg = None" "m_bndry fmg = None"
    unfolding compute_residual_def Let_def
    by (auto split: if_splits sum.splits option.splits prod.splits)
  from init_mgt_solver_Inr[OF i] f p show ?thesis by simp
qed

lemma step_non_solve:
  assumes "step sd K (fmg, h) c = Inr (fmg', h')" and "\<not> is_solve c"
  shows "m_mgt_solver fmg' = m_mgt_solver fmg \<and> m_bndry fmg' = m_bndry fmg
       \<and> m_nlevels fmg' = m_nlevels fmg \<and> m_geom fmg' = m_geom fmg
       \<and> m_baselevel fmg' = m_baselevel fmg \<and> m_crse_ratio fmg' = m_crse_ratio fmg"
  using assms
  by (cases c) (auto simp: keep_heap_def keep_object_def setter_defs
       split: if_splits sum.splits)

lemma step_solve:
  assumes "step sd K (fmg, h) c = Inr (fmg', h')" and "is_solve c"
  shows "initilized (m_bc fmg) \<and> eq_type (m_coeff fmg) \<noteq> invalid_eq
       \<and> m_mgt_solver fmg = None \<and> m_bndry fmg = None
       \<and> (\<exists>s b. fmg' = fmg\<lparr>m_bndry := Some b, m_mgt_solver := Some s\<rparr>)"
proof (cases c)
  case (Call_solve_MultiFab phi rhs rt atl ub ng vb)
  with assms(1) obtain nrm where
    "solve sd K fmg h (Copy_MultiFab phi) (Copy_MultiFab rhs) rt atl ub ng vb = Inr (fmg', h', nrm)"
    by (auto simp: drop_norm_def solve_MultiFab_def Let_def split: sum.splits)
  from solve_Inr[OF this] show ?thesis .
next
  case (Call_solve phi rhs rt atl ub ng vb)
  with assms(1) obtain nrm where
    "solve sd K fmg h phi rhs rt atl ub ng vb = Inr (fmg', h', nrm)"
    by (auto simp: drop_norm_def split: sum.splits)
  from solve_Inr[OF this] show ?thesis .
next
  case (Call_compute_residual_MultiFab phi rhs res)
  with assms(1) have
    "compute_residual sd K fmg h (Copy_MultiFab phi) (Copy_MultiFab rhs) (Copy_MultiFab res)
       = Inr (fmg', h')"
    by (simp add: compute_residual_MultiFab_def Let_def)
  from compute_residual_Inr[OF this] show ?thesis .
next
  case (Call_compute_residual phi rhs res)
  with assms(1) have "compute_residual sd K fmg h phi rhs res = Inr (fmg', h')" by simp
  from compute_residual_Inr[OF this] show ?thesis .
qed (use assms(2) in simp_all)

lemma run_non_solve:
  assumes "run sd K (fmg, h) cs = Inr (fmg', h')" and "\<not> list_ex is_solve cs"
  shows "m_mgt_solver fmg' = m_mgt_solver fmg \<and> m_nlevels fmg' = m_nlevels fmg"
  using assms
proof (induction cs arbitrary: fmg h)
  case Nil
  then show ?case by simp
next
  case (Cons c cs)
  from Cons.prems obtain f1 h1 where s: "step sd K (fmg, h) c = Inr (f1, h1)"
    and r: "run sd K (f1, h1) cs = Inr (fmg', h')"
    by (auto split: sum.splits)
  from Cons.prems(2) have n: "\<not> is_solve c" "\<not> list_ex is_solve cs" by simp_all
  from step_non_solve[OF s n(1)] Cons.IH[OF r n(2)] show ?case by simp
qed

lemma step_handle_kept:
  assumes "step sd K (fmg, h) c = Inr (fmg', h')" and "m_mgt_solver fmg = Some s"
  shows "m_mgt_solver fmg' = Some s \<and> \<not> is_solve c"
proof (cases "is_solve c")
  case True
  from step_solve[OF assms(1) True] assms(2) show ?thesis by simp
next
  case False
  from step_non_solve[OF assms(1) False] assms(2) False show ?thesis by simp
qed

lemma run_handle_kept:
  assumes "run sd K (fmg, h) cs = Inr (fmg', h')" and "m_mgt_solver fmg = Some s"
  shows "m_mgt_solver fmg' = Some s \<and> filter is_solve cs = []"
  using assms
proof (induction cs arbitrary: fmg h)
  case Nil
  then show ?case by simp
next
  case (Cons c cs)
  from Cons.prems(1) obtain f1 h1 where s: "step sd K (fmg, h) c = Inr (f1, h1)"
    and r: "run sd K (f1, h1) cs = Inr (fmg', h')"
    by (auto split: sum.splits)
  from step_handle_kept[OF s Cons.prems(2)] have k: "m_mgt_solver f1 = Some s" "\<not> is_solve c"
    by simp_all
  from Cons.IH[OF r k(1)] k show ?case by simp
qed

lemma run_solve_once:
  assumes "run sd K (fmg, h) cs = Inr (fmg', h')"
  shows "length (filter is_solve cs) \<le> 1"
  using assms
proof (induction cs arbitrary: fmg h)
  case Nil
  then show ?case by simp
next
  case (Cons c cs)
  from Cons.prems(1) obtain f1 h1 where s: "step sd K (fmg, h) c = Inr (f1, h1)"
    and r: "run sd K (f1, h1) cs = Inr (fmg', h')"
    by (auto split: sum.splits)
  show ?case
  proof (cases "is_solve c")
    case True
    from step_solve[OF s True] obtain s1 where "m_mgt_solver f1 = Some s1" by auto
    from run_handle_kept[OF r this] True show ?thesis by simp
  next
    case False
    with Cons.IH[OF r] show ?thesis by simp
  qed
qed

lemma run_solve_sets:
  assumes "run sd K (fmg, h) cs = Inr (fmg', h')" and "list_ex is_solve cs"
  shows "m_mgt_solver fmg' \<noteq> None"
  using assms
proof (induction cs arbitrary: fmg h)
  case Nil
  then show ?case by simp
next
  case (Cons c cs)
  from Cons.prems(1) obtain f1 h1 where s: "step sd K (fmg, h) c = Inr (f1, h1)"
    and r: "run sd K (f1, h1) cs = Inr (fmg', h')"
    by (auto split: sum.splits)
  show ?case
  proof (cases "is_solve c")
    case True
    from step_solve[OF s True] obtain s1 where "m_mgt_solver f1 = Some s1" by auto
    from run_handle_kept[OF r this] show ?thesis by simp
  next
    case False
    with Cons.prems(2) have "list_ex is_solve cs" by simp
    from Cons.IH[OF r this] show ?thesis .
  qed
qed

lemma step_configured:
  assumes "step sd K (fmg, h) c = Inr (fmg', h')" and "configured fmg"
  shows "configured fmg'"
proof (cases "is_solve c")
  case True
  from step_solve[OF assms(1) True] assms(2) show ?thesis by (auto simp: configured_def)
next
  case False
  with assms show ?thesis
    by (cases c) (auto simp: keep_heap_def keep_object_def setter_defs configured_def
         Boundary_ctor_def split: if_splits sum.splits)
qed

lemma run_handle_configured:
  assumes "run sd K (fmg, h) cs = Inr (fmg', h')"
      and "m_mgt_solver fmg \<noteq> None \<longrightarrow> configured fmg"
  shows "m_mgt_solver fmg' \<noteq> None \<longrightarrow> configured fmg'"
  using assms
proof (induction cs arbitrary: fmg h)
  case Nil
  then show ?case by simp
next
  case (Cons c cs)
  from Cons.prems(1) obtain f1 h1 where s: "step sd K (fmg, h) c = Inr (f1, h1)"
    and r: "run sd K (f1, h1) cs = Inr (fmg', h')"
    by (auto split: sum.splits)
  have "m_mgt_solver f1 \<noteq> None \<longrightarrow> configured f1"
  proof (cases "is_solve c")
    case True
    from step_solve[OF s True] show ?thesis by (auto simp: configured_def)
  next
    case False
    from step_non_solve[OF s False] have "m_mgt_solver f1 = m_mgt_solver fmg" by simp
    with Cons.prems(2) step_configured[OF s] show ?thesis by auto
  qed
  from Cons.IH[OF r this] show ?case .
qed

lemma second_solve_fails:
  assumes "m_mgt_solver fmg \<noteq> None" and "configured fmg"
  shows "solve sd K fmg h phi rhs rt atl ub ng vb = Inl (AssertFailed ''m_mgt_solver == 0'')"
    and "solve_MultiFab sd K fmg h p1 r1 rt atl ub ng vb = Inl (AssertFailed ''m_mgt_solver == 0'')"
    and "compute_residual sd K fmg h phi rhs res = Inl (AssertFailed ''m_mgt_solver == 0'')"
    and "compute_residual_MultiFab sd K fmg h p1 r1 e1 = Inl (AssertFailed ''m_mgt_solver == 0'')"
  using assms
  by (simp_all add: solve_def solve_MultiFab_def compute_residual_def
        compute_residual_MultiFab_def configured_def Let_def)

text \<open>The boundary descriptor: set by the three \<open>set_bc\<close> overloads only, and only once.\<close>

lemma step_set_bc:
  assumes "step sd K (fmg, h) c = Inr (fmg', h')" and "is_set_bc c"
  shows "\<not> initilized (m_bc fmg) \<and> initilized (m_bc fmg')"
  using assms
  by (cases c) (auto simp: keep_heap_def setter_defs Boundary_ctor_def split: if_splits)

lemma step_bc_kept:
  assumes "step sd K (fmg, h) c = Inr (fmg', h')" and "initilized (m_bc fmg)"
  shows "m_bc fmg' = m_bc fmg \<and> \<not> is_set_bc c"
proof (cases "is_solve c")
  case True
  from step_solve[OF assms(1) True] have "m_bc fmg' = m_bc fmg" by auto
  moreover from True have "\<not> is_set_bc c" by (cases c) simp_all
  ultimately show ?thesis by simp
next
  case False
  with assms show ?thesis
    by (cases c) (auto simp: keep_heap_def keep_object_def setter_defs
         split: if_splits sum.splits)
qed

lemma run_bc_kept:
  assumes "run sd K (fmg, h) cs = Inr (fmg', h')" and "initilized (m_bc fmg)"
  shows "m_bc fmg' = m_bc fmg \<and> filter is_set_bc cs = []"
  using assms
proof (induction cs arbitrary: fmg h)
  case Nil
  then show ?case by simp
next
  case (Cons c cs)
  from Cons.prems(1) obtain f1 h1 where s: "step sd K (fmg, h) c = Inr (f1, h1)"
    and r: "run sd K (f1, h1) cs = Inr (fmg', h')"
    by (auto split: sum.splits)
  from step_bc_kept[OF s Cons.prems(2)] have k: "m_bc f1 = m_bc fmg" "\<not> is_set_bc c"
    by simp_all
  with Cons.prems(2) have "initilized (m_bc f1)" by simp
  from Cons.IH[OF r this] k show ?case by simp
qed

lemma run_set_bc_once:
  assumes "run sd K (fmg, h) cs = Inr (fmg', h')"
  shows "length (filter is_set_bc cs) \<le> 1"
  using assms
proof (induction cs arbitrary: fmg h)
  case Nil
  then show ?case by simp
next
  case (Cons c cs)
  from Cons.prems(1) obtain f1 h1 where s: "step sd K (fmg, h) c = Inr (f1, h1)"
    and r: "run sd K (f1, h1) cs = Inr (fmg', h')"
    by (auto split: sum.splits)
  show ?case
  proof (cases "is_set_bc c")
    case True
    from step_set_bc[OF s True] have "initilized (m_bc f1)" by simp
    from run_bc_kept[OF r this] True show ?thesis by simp
  next
    case False
    with Cons.IH[OF r] show ?thesis by simp
  qed
qed

lemma step_bc_shape:
  assumes "step sd K (fmg, h) c = Inr (fmg', h')"
      and "\<not> (crse_phi (m_bc fmg) \<noteq> None \<and> fine_phi (m_bc fmg) = None)"
  shows "\<not> (crse_phi (m_bc fmg') \<noteq> None \<and> fine_phi (m_bc fmg') = None)"
proof (cases "is_solve c")
  case True
  from step_solve[OF assms(1) True] assms(2) show ?thesis by auto
next
  case False
  with assms show ?thesis
    by (cases c) (auto simp: keep_heap_def keep_object_def setter_defs Boundary_ctor_def
         split: if_splits sum.splits)
qed

lemma run_bc_shape:
  assumes "run sd K (fmg, h) cs = Inr (fmg', h')"
      and "\<not> (crse_phi (m_bc fmg) \<noteq> None \<and> fine_phi (m_bc fmg) = None)"
  shows "\<not> (crse_phi (m_bc fmg') \<noteq> None \<and> fine_phi (m_bc fmg') = None)"
  using assms
proof (induction cs arbitrary: fmg h)
  case Nil
  then show ?case by simp
next
  case (Cons c cs)
  from Cons.prems(1) obtain f1 h1 where s: "step sd K (fmg, h) c = Inr (f1, h1)"
    and r: "run sd K (f1, h1) cs = Inr (fmg', h')"
    by (auto split: sum.splits)
  from Cons.IH[OF r step_bc_shape[OF s Cons.prems(2)]] show ?case .
qed

text \<open>The coefficient descriptor: tag and flags stay consistent, and nothing is unset.\<close>

lemma step_coeff_consistent:
  assumes "step sd K (fmg, h) c = Inr (fmg', h')" and "coeff_consistent (m_coeff fmg)"
  shows "coeff_consistent (m_coeff fmg')"
proof (cases "is_solve c")
  case True
  from step_solve[OF assms(1) True] assms(2) show ?thesis by auto
next
  case False
  with assms show ?thesis
    by (cases c) (auto simp: keep_heap_def keep_object_def setter_defs coeff_consistent_def
         split: if_splits sum.splits EqType.splits)
qed

lemma run_coeff_consistent:
  assumes "run sd K (fmg, h) cs = Inr (fmg', h')" and "coeff_consistent (m_coeff fmg)"
  shows "coeff_consistent (m_coeff fmg')"
  using assms
proof (induction cs arbitrary: fmg h)
  case Nil
  then show ?case by simp
next
  case (Cons c cs)
  from Cons.prems(1) obtain f1 h1 where s: "step sd K (fmg, h) c = Inr (f1, h1)"
    and r: "run sd K (f1, h1) cs = Inr (fmg', h')"
    by (auto split: sum.splits)
  from Cons.IH[OF r step_coeff_consistent[OF s Cons.prems(2)]] show ?case .
qed

lemma reachable_coeff_consistent:
  assumes "FMultiGrid_vector sd gs B r = Inr fmg0" and "run sd K (fmg0, h0) cs = Inr (fmg, h)"
  shows "coeff_consistent (m_coeff fmg)"
proof -
  from ctor_fresh(2)[OF assms(1)] have "coeff_consistent (m_coeff fmg0)"
    by (simp add: coeff_consistent_def ABecCoeff_default_def)
  from run_coeff_consistent[OF assms(2) this] show ?thesis .
qed

lemma step_coeff_monotone:
  assumes "step sd K (fmg, h) c = Inr (fmg', h')"
  shows "(eq_type (m_coeff fmg) \<noteq> invalid_eq \<longrightarrow>
            eq_type (m_coeff fmg') = eq_type (m_coeff fmg))
       \<and> (alpha_set (m_coeff fmg) \<longrightarrow> alpha_set (m_coeff fmg'))
       \<and> (a_set (m_coeff fmg) \<longrightarrow> a_set (m_coeff fmg'))
       \<and> (beta_set (m_coeff fmg) \<longrightarrow> beta_set (m_coeff fmg'))
       \<and> (b_set (m_coeff fmg) \<longrightarrow> b_set (m_coeff fmg'))"
proof (cases "is_solve c")
  case True
  from step_solve[OF assms True] show ?thesis by auto
next
  case False
  with assms show ?thesis
    by (cases c) (auto simp: keep_heap_def keep_object_def setter_defs
         split: if_splits sum.splits)
qed

lemma run_coeff_monotone:
  assumes "run sd K (fmg, h) cs = Inr (fmg', h')"
  shows "(eq_type (m_coeff fmg) \<noteq> invalid_eq \<longrightarrow>
            eq_type (m_coeff fmg') = eq_type (m_coeff fmg))
       \<and> (alpha_set (m_coeff fmg) \<longrightarrow> alpha_set (m_coeff fmg'))
       \<and> (a_set (m_coeff fmg) \<longrightarrow> a_set (m_coeff fmg'))
       \<and> (beta_set (m_coeff fmg) \<longrightarrow> beta_set (m_coeff fmg'))
       \<and> (b_set (m_coeff fmg) \<longrightarrow> b_set (m_coeff fmg'))"
  using assms
proof (induction cs arbitrary: fmg h)
  case Nil
  then show ?case by simp
next
  case (Cons c cs)
  from Cons.prems(1) obtain f1 h1 where s: "step sd K (fmg, h) c = Inr (f1, h1)"
    and r: "run sd K (f1, h1) cs = Inr (fmg', h')"
    by (auto split: sum.splits)
  from step_coeff_monotone[OF s] Cons.IH[OF r] show ?case by auto
qed

text \<open>
  \<open>m_geom\<close> has one entry per level in every object a constructor built, whatever was
  called on it since: the reads \<open>m_geom[0]\<close> and \<open>m_geom[lev-1]\<close> of \<open>set_coeffs\<close> are in
  range.
\<close>

lemma geometry_per_level:
  assumes "FMultiGrid_vector sd gs B r = Inr fmg0" and "run sd K (fmg0, h0) cs = Inr (fmg, h)"
  shows "length (m_geom fmg) = m_nlevels fmg"
proof -
  have "length (m_geom f') = m_nlevels f'"
    if "run sd K (f, g) ds = Inr (f', g')" "length (m_geom f) = m_nlevels f" for f g f' g' ds
    using that
  proof (induction ds arbitrary: f g)
    case Nil
    then show ?case by simp
  next
    case (Cons d ds)
    from Cons.prems(1) obtain f1 g1 where s: "step sd K (f, g) d = Inr (f1, g1)"
      and r: "run sd K (f1, g1) ds = Inr (f', g')"
      by (auto split: sum.splits)
    have "length (m_geom f1) = m_nlevels f1"
    proof (cases "is_solve d")
      case True
      from step_solve[OF s True] Cons.prems(2) show ?thesis by auto
    next
      case False
      from step_non_solve[OF s False] Cons.prems(2) show ?thesis by simp
    qed
    from Cons.IH[OF r this] show ?case .
  qed
  from this[OF assms(2)] ctor_fresh(2)[OF assms(1)] show ?thesis by simp
qed

subsection \<open>Transition distances\<close>

lemma set_coeffs_xa:
  assumes "set_coeffs sd co s fmg = Inr s'"
  shows "solver_xa s' = map (level_distance sd fmg) [0..<m_nlevels fmg]
       \<and> solver_xb s' = map (level_distance sd fmg) [0..<m_nlevels fmg]
       \<and> 0 \<le> m_baselevel fmg"
  using assms
  by (auto simp: set_coeffs_def solver_xa_def solver_xb_def Let_def split: if_splits)

text \<open>
  Claim C1. Whenever \<open>set_coeffs\<close> configures the kernel, the distances it passes satisfy,
  for every level \<open>lev\<close> of the instance and every dimension \<open>n\<close>: \<open>xa\<close> and \<open>xb\<close> are
  equal; they are \<open>0\<close> when \<open>lev + m_baselevel = 0\<close>; otherwise, at \<open>lev = 0\<close>, they are
  \<open>0.5 * m_crse_ratio[n] * dx[n]\<close> with the cell size \<open>dx\<close> of level 0; otherwise
  \<open>0.5 * dx_crse[n]\<close> with the cell size of level \<open>lev - 1\<close>. The products are those of
  the program: double precision, from left to right. Both arrays have one entry per level
  and one value per dimension. Where the products need no rounding, the value passed is
  finite and is the product in the real numbers: at \<open>lev = 0\<close> when the ratio is below
  \<open>2\<^sup>5\<^sup>3\<close> in absolute value and the mantissa and exponent of the last product fit the
  format, and at \<open>lev > 0\<close> when the halved cell size fits it.
\<close>

theorem transition_distances:
  assumes "set_coeffs sd co s fmg = Inr s'" and "lev < m_nlevels fmg" and "n < sd"
  shows "solver_xa s' ! lev ! n =
           (if int lev + m_baselevel fmg = 0 then d_zero
            else if lev = 0
            then dmul (dmul d_half (double_of_int (m_crse_ratio fmg ! n)))
                   (CellSize (m_geom fmg ! 0) ! n)
            else dmul d_half (CellSize (m_geom fmg ! (lev - 1)) ! n))
       \<and> solver_xb s' ! lev ! n = solver_xa s' ! lev ! n
       \<and> length (solver_xa s') = m_nlevels fmg \<and> length (solver_xa s' ! lev) = sd
       \<and> length (solver_xb s') = m_nlevels fmg \<and> length (solver_xb s' ! lev) = sd
       \<and> (lev = 0 \<and> m_baselevel fmg \<noteq> 0 \<and> \<bar>m_crse_ratio fmg ! n\<bar> < 2 ^ 53
            \<and> dmul d_half (double_of_int (m_crse_ratio fmg ! n)) = Finite a m e
            \<and> CellSize (m_geom fmg ! 0) ! n = Finite b k f \<and> fits (m * k) (e + f) \<longrightarrow>
          is_finite (solver_xa s' ! lev ! n)
          \<and> valof (solver_xa s' ! lev ! n)
              = 0.5 * real_of_int (m_crse_ratio fmg ! n) * valof (CellSize (m_geom fmg ! 0) ! n))
       \<and> (lev \<noteq> 0 \<and> CellSize (m_geom fmg ! (lev - 1)) ! n = Finite b k f
            \<and> fits k (f - 1) \<longrightarrow>
          is_finite (solver_xa s' ! lev ! n)
          \<and> valof (solver_xa s' ! lev ! n)
              = 0.5 * valof (CellSize (m_geom fmg ! (lev - 1)) ! n))"
proof -
  from set_coeffs_xa[OF assms(1)]
  have xa: "solver_xa s' = map (level_distance sd fmg) [0..<m_nlevels fmg]"
    and xb: "solver_xb s' = map (level_distance sd fmg) [0..<m_nlevels fmg]"
    and B: "0 \<le> m_baselevel fmg" by simp_all
  have v: "solver_xa s' ! lev ! n =
           (if int lev + m_baselevel fmg = 0 then d_zero
            else if lev = 0
            then dmul (dmul d_half (double_of_int (m_crse_ratio fmg ! n)))
                   (CellSize (m_geom fmg ! 0) ! n)
            else dmul d_half (CellSize (m_geom fmg ! (lev - 1)) ! n))"
    using assms(2,3) unfolding xa by (simp add: level_distance_def Let_def)
  have l: "solver_xb s' ! lev ! n = solver_xa s' ! lev ! n"
    "length (solver_xa s') = m_nlevels fmg" "length (solver_xa s' ! lev) = sd"
    "length (solver_xb s') = m_nlevels fmg" "length (solver_xb s' ! lev) = sd"
    using assms(2,3) unfolding xa xb by (simp_all add: level_distance_def Let_def)
  have e1: "lev = 0 \<and> m_baselevel fmg \<noteq> 0 \<and> \<bar>m_crse_ratio fmg ! n\<bar> < 2 ^ 53
            \<and> dmul d_half (double_of_int (m_crse_ratio fmg ! n)) = Finite a m e
            \<and> CellSize (m_geom fmg ! 0) ! n = Finite b k f \<and> fits (m * k) (e + f) \<longrightarrow>
          is_finite (solver_xa s' ! lev ! n)
          \<and> valof (solver_xa s' ! lev ! n)
              = 0.5 * real_of_int (m_crse_ratio fmg ! n) * valof (CellSize (m_geom fmg ! 0) ! n)"
  proof
    assume h: "lev = 0 \<and> m_baselevel fmg \<noteq> 0 \<and> \<bar>m_crse_ratio fmg ! n\<bar> < 2 ^ 53
            \<and> dmul d_half (double_of_int (m_crse_ratio fmg ! n)) = Finite a m e
            \<and> CellSize (m_geom fmg ! 0) ! n = Finite b k f \<and> fits (m * k) (e + f)"
    then have x: "solver_xa s' ! lev ! n = dmul (Finite a m e) (Finite b k f)"
      using v by simp
    from h half_of_int[of "m_crse_ratio fmg ! n"]
    have hv: "valof (Finite a m e) = real_of_int (m_crse_ratio fmg ! n) / 2"
      by (auto simp del: valof.simps)
    from h have "fits (m * k) (e + f)" by simp
    from dmul_exact[OF this, of a b] hv h x
    show "is_finite (solver_xa s' ! lev ! n)
          \<and> valof (solver_xa s' ! lev ! n)
              = 0.5 * real_of_int (m_crse_ratio fmg ! n) * valof (CellSize (m_geom fmg ! 0) ! n)"
      by (simp del: valof.simps dmul.simps)
  qed
  have e2: "lev \<noteq> 0 \<and> CellSize (m_geom fmg ! (lev - 1)) ! n = Finite b k f
            \<and> fits k (f - 1) \<longrightarrow>
          is_finite (solver_xa s' ! lev ! n)
          \<and> valof (solver_xa s' ! lev ! n)
              = 0.5 * valof (CellSize (m_geom fmg ! (lev - 1)) ! n)"
  proof
    assume h: "lev \<noteq> 0 \<and> CellSize (m_geom fmg ! (lev - 1)) ! n = Finite b k f
            \<and> fits k (f - 1)"
    with B have "int lev + m_baselevel fmg \<noteq> 0" by simp
    with h v have x: "solver_xa s' ! lev ! n = dmul (Finite False 1 (- 1)) (Finite b k f)"
      by (simp add: d_half_def)
    from h have "fits (1 * k) (- 1 + f)" by simp
    from dmul_exact[OF this, of False b]
    have "is_finite (dmul (Finite False 1 (- 1)) (Finite b k f))"
      and "valof (dmul (Finite False 1 (- 1)) (Finite b k f))
         = valof (Finite False 1 (- 1)) * valof (Finite b k f)" by simp_all
    moreover have "valof (Finite False 1 (- 1)) = 0.5" by (simp add: power_int_minus)
    ultimately show "is_finite (solver_xa s' ! lev ! n)
          \<and> valof (solver_xa s' ! lev ! n)
              = 0.5 * valof (CellSize (m_geom fmg ! (lev - 1)) ! n)"
      using x h by (simp del: valof.simps dmul.simps)
  qed
  show ?thesis by (intro conjI v l e1 e2)
qed

text \<open>
  The two examples of the spec: at the true root the kernel receives \<open>xa = xb = (0, 0)\<close>,
  and one level above the root, with refinement ratio \<open>(2, 2)\<close> and cell size
  \<open>(0.05, 0.05)\<close>, it receives \<open>xa = xb = (0.05, 0.05)\<close>, with no rounding. On two levels
  with cell sizes \<open>0.1\<close> and \<open>0.05\<close> at the root, level 1 receives half the cell size of
  level 0.
\<close>

theorem transition_distances_witness:
  "set_coeffs 2 example_coeff example_solver example_root
      = Inr (example_solver\<lparr>mgt_coeffs :=
               Some (set_const_gravity_coeffs_k [[d_zero, d_zero]] [[d_zero, d_zero]])\<rparr>)
   \<and> (0::nat) < m_nlevels example_root \<and> (1::nat) < 2
   \<and> solver_xa (example_solver\<lparr>mgt_coeffs :=
               Some (set_const_gravity_coeffs_k [[d_zero, d_zero]] [[d_zero, d_zero]])\<rparr>) ! 0 ! 1
        = d_zero
   \<and> set_coeffs 2 example_coeff example_solver example_fine
      = Inr (example_solver\<lparr>mgt_coeffs :=
               Some (set_const_gravity_coeffs_k [[d_twentieth, d_twentieth]]
                       [[d_twentieth, d_twentieth]])\<rparr>)
   \<and> (0::nat) < m_nlevels example_fine
   \<and> m_baselevel example_fine \<noteq> 0 \<and> \<bar>m_crse_ratio example_fine ! 1\<bar> < 2 ^ 53
   \<and> dmul d_half (double_of_int (m_crse_ratio example_fine ! 1)) = Finite False 1 0
   \<and> CellSize (m_geom example_fine ! 0) ! 1 = Finite False 3602879701896397 (- 56)
   \<and> fits (1 * 3602879701896397) (0 + - 56)
   \<and> solver_xb (example_solver\<lparr>mgt_coeffs :=
               Some (set_const_gravity_coeffs_k [[d_twentieth, d_twentieth]]
                       [[d_twentieth, d_twentieth]])\<rparr>) ! 0 ! 1 = d_twentieth
   \<and> valof (solver_xa (example_solver\<lparr>mgt_coeffs :=
               Some (set_const_gravity_coeffs_k [[d_twentieth, d_twentieth]]
                       [[d_twentieth, d_twentieth]])\<rparr>) ! 0 ! 1)
        = 0.5 * real_of_int 2 * valof d_twentieth
   \<and> set_coeffs 2 example_coeff example_solver example_two_level
      = Inr (example_solver\<lparr>mgt_coeffs :=
               Some (set_const_gravity_coeffs_k [[d_zero, d_zero], [d_twentieth, d_twentieth]]
                       [[d_zero, d_zero], [d_twentieth, d_twentieth]])\<rparr>)
   \<and> (1::nat) < m_nlevels example_two_level \<and> (1::nat) \<noteq> 0
   \<and> CellSize (m_geom example_two_level ! (1 - 1)) ! 1 = Finite False 3602879701896397 (- 55)
   \<and> fits 3602879701896397 (- 55 - 1)
   \<and> solver_xa (example_solver\<lparr>mgt_coeffs :=
               Some (set_const_gravity_coeffs_k [[d_zero, d_zero], [d_twentieth, d_twentieth]]
                       [[d_zero, d_zero], [d_twentieth, d_twentieth]])\<rparr>) ! 1 ! 1 = d_twentieth
   \<and> valof (solver_xa (example_solver\<lparr>mgt_coeffs :=
               Some (set_const_gravity_coeffs_k [[d_zero, d_zero], [d_twentieth, d_twentieth]]
                       [[d_zero, d_zero], [d_twentieth, d_twentieth]])\<rparr>) ! 1 ! 1)
        = 0.5 * valof d_tenth
   \<and> \<bar>valof d_tenth - 1 / 10\<bar> < 2 powi (- 57)
   \<and> \<bar>valof d_twentieth - 1 / 20\<bar> < 2 powi (- 58)"
proof -
  let ?r = "example_solver\<lparr>mgt_coeffs :=
               Some (set_const_gravity_coeffs_k [[d_zero, d_zero]] [[d_zero, d_zero]])\<rparr>"
  let ?f = "example_solver\<lparr>mgt_coeffs :=
               Some (set_const_gravity_coeffs_k [[d_twentieth, d_twentieth]]
                       [[d_twentieth, d_twentieth]])\<rparr>"
  let ?t = "example_solver\<lparr>mgt_coeffs :=
               Some (set_const_gravity_coeffs_k [[d_zero, d_zero], [d_twentieth, d_twentieth]]
                       [[d_zero, d_zero], [d_twentieth, d_twentieth]])\<rparr>"
  have t: "set_coeffs 2 example_coeff example_solver example_two_level = Inr ?t"
    by (simp add: set_coeffs_def level_distance_def example_two_level_fields example_coeff_def
          ABecCoeff_default_def upt2 example_products)
  have nt: "(1::nat) < m_nlevels example_two_level" "(1::nat) \<noteq> 0"
    "CellSize (m_geom example_two_level ! (1 - 1)) ! 1 = Finite False 3602879701896397 (- 55)"
    by (simp_all add: example_two_level_fields d_tenth_def)
  have ftt: "fits 3602879701896397 (- 55 - 1)"
    by (simp add: fits_def bit_length.simps)
  have r: "set_coeffs 2 example_coeff example_solver example_root = Inr ?r"
    by (simp add: set_coeffs_def level_distance_def example_defs)
  have f: "set_coeffs 2 example_coeff example_solver example_fine = Inr ?f"
    by (simp add: set_coeffs_def level_distance_def example_defs example_products)
  have n: "(0::nat) < m_nlevels example_root" "(0::nat) < m_nlevels example_fine" "(1::nat) < 2"
    by (simp_all add: example_defs)
  have h: "m_baselevel example_fine \<noteq> 0" "\<bar>m_crse_ratio example_fine ! 1\<bar> < 2 ^ 53"
    "dmul d_half (double_of_int (m_crse_ratio example_fine ! 1)) = Finite False 1 0"
    "CellSize (m_geom example_fine ! 0) ! 1 = Finite False 3602879701896397 (- 56)"
    by (simp_all add: example_defs example_products d_twentieth_def)
  have ft: "fits (1 * 3602879701896397) (0 + - 56)"
    by (simp add: fits_def bit_length.simps)
  note t1 = transition_distances[OF r n(1) n(3)]
  note t2 = transition_distances[OF f n(2) n(3), where a = False and m = 1 and e = 0
              and b = False and k = 3602879701896397 and f = "- 56"]
  from t1 have c1: "solver_xa ?r ! 0 ! 1 = d_zero" by (simp add: example_defs)
  from t2 have c2: "solver_xb ?f ! 0 ! 1 = d_twentieth"
    by (simp add: example_defs example_products)
  from t2 h ft have "valof (solver_xa ?f ! 0 ! 1)
        = 0.5 * real_of_int (m_crse_ratio example_fine ! 1)
            * valof (CellSize (m_geom example_fine ! 0) ! 1)" by blast
  then have c3: "valof (solver_xa ?f ! 0 ! 1) = 0.5 * real_of_int 2 * valof d_twentieth"
    by (simp add: example_defs del: valof.simps)
  note t3 = transition_distances[OF t nt(1) n(3), where b = False and k = 3602879701896397
              and f = "- 55"]
  from t3 have c4: "solver_xa ?t ! 1 ! 1 = d_twentieth"
    by (simp add: example_two_level_fields example_products)
  from t3 nt ftt have "valof (solver_xa ?t ! 1 ! 1)
        = 0.5 * valof (CellSize (m_geom example_two_level ! (1 - 1)) ! 1)" by blast
  then have c5: "valof (solver_xa ?t ! 1 ! 1) = 0.5 * valof d_tenth"
    by (simp add: example_two_level_fields del: valof.simps)
  show ?thesis
    by (intro conjI r n(1) n(3) c1 f n(2) h ft c2 c3 t nt ftt c4 c5
          example_values(1) example_values(2))
qed

text \<open>
  One level above the root with refinement ratio \<open>(3, 3)\<close> and cell size \<open>(0.1, 0.1)\<close>:
  the kernel receives the double \<open>1351079888211149 / 2\<^sup>5\<^sup>3\<close>, the product \<open>1.5 * 0.1\<close>
  rounded to nearest, which is not the product in the real numbers.
\<close>

lemma example_ratio3_distances:
  "set_coeffs 2 example_coeff example_solver example_ratio3
      = Inr (example_solver\<lparr>mgt_coeffs := Some (set_const_gravity_coeffs_k
               [[Finite False 1351079888211149 (- 53), Finite False 1351079888211149 (- 53)]]
               [[Finite False 1351079888211149 (- 53), Finite False 1351079888211149 (- 53)]])\<rparr>)
   \<and> m_baselevel example_ratio3 = 1
   \<and> m_crse_ratio example_ratio3 ! 0 = 3
   \<and> CellSize (m_geom example_ratio3 ! 0) ! 0 = d_tenth
   \<and> valof (Finite False 1351079888211149 (- 53)) \<noteq> 0.5 * real_of_int 3 * valof d_tenth"
proof -
  have s: "set_coeffs 2 example_coeff example_solver example_ratio3
      = Inr (example_solver\<lparr>mgt_coeffs := Some (set_const_gravity_coeffs_k
               [[Finite False 1351079888211149 (- 53), Finite False 1351079888211149 (- 53)]]
               [[Finite False 1351079888211149 (- 53), Finite False 1351079888211149 (- 53)]])\<rparr>)"
    by (simp add: set_coeffs_def level_distance_def example_ratio3_fields example_coeff_def
          ABecCoeff_default_def TheZeroVector_def upt2 example_products)
  have q: "m_baselevel example_ratio3 = 1" "m_crse_ratio example_ratio3 ! 0 = 3"
    "CellSize (m_geom example_ratio3 ! 0) ! 0 = d_tenth"
    by (simp_all add: example_ratio3_fields)
  show ?thesis by (intro conjI s q example_values(3))
qed

subsection \<open>get_grad_phi without a handle\<close>

lemma get_grad_phi_loop_null:
  assumes "m_mgt_solver fmg = None" and "ls \<noteq> []" and "\<forall>l\<in>set ls. l < length g"
  shows "get_grad_phi_loop K fmg g ls h = Inl NullDereference"
  using assms by (cases ls) (simp_all add: Let_def)

text \<open>
  Claim C2. The claim asks for a failed precondition check when \<open>get_grad_phi\<close> is called
  before any \<open>solve\<close>. The code has no such check. On an object built by a constructor on
  which neither \<open>solve\<close> nor \<open>compute_residual\<close> was called, the handle is null; the
  single-level overload passes its only assertion when the instance has one level and
  then calls \<open>get_fluxes\<close> through the null pointer, and so do the two multi-level
  overloads at their first level.
\<close>

theorem get_grad_phi_before_solve:
  assumes "FMultiGrid_vector sd gs B r = Inr fmg0"
      and "run sd K (fmg0, h0) cs = Inr (fmg, h)"
      and "\<not> list_ex is_solve cs"
  shows "m_mgt_solver fmg = None
       \<and> get_grad_phi K fmg h g =
           (if length gs = 1 then Inl NullDereference else Inl (AssertFailed ''m_nlevels == 1''))
       \<and> (0 < length gs \<and> length gs \<le> length gl \<longrightarrow>
            get_grad_phi_Array K fmg h gl = Inl NullDereference
          \<and> get_grad_phi_PArray K fmg h gl = Inl NullDereference)"
proof -
  from ctor_fresh(2)[OF assms(1)] run_non_solve[OF assms(2,3)]
  have n: "m_mgt_solver fmg = None" and l: "m_nlevels fmg = length gs" by simp_all
  have "get_grad_phi_loop K fmg gl [0..<length gs] h = Inl NullDereference"
    if "0 < length gs" "length gs \<le> length gl"
    using that by (intro get_grad_phi_loop_null[OF n]) auto
  with n l show ?thesis
    by (simp add: get_grad_phi_def get_grad_phi_Array_def get_grad_phi_PArray_def Let_def)
qed

text \<open>
  The failing input: one level at the root, boundary and coefficients set, no \<open>solve\<close>.
\<close>

theorem get_grad_phi_before_solve_witness:
  "FMultiGrid_vector 2 [\<lparr>CellSize = [d_tenth, d_tenth]\<rparr>] 0 [0, 0] = Inr example_root
 \<and> run 2 example_kernel (example_root, example_heap) example_calls
      = Inr (example_configured, example_heap)
 \<and> \<not> list_ex is_solve example_calls
 \<and> m_mgt_solver example_configured = None
 \<and> get_grad_phi example_kernel example_configured example_heap [10, 11] = Inl NullDereference
 \<and> get_grad_phi_Array example_kernel example_configured example_heap [[10, 11]]
      = Inl NullDereference
 \<and> get_grad_phi_PArray example_kernel example_configured example_heap [[10, 11]]
      = Inl NullDereference"
proof -
  have n: "\<not> list_ex is_solve example_calls" by (simp add: example_calls_def)
  from get_grad_phi_before_solve[OF example_root_eval example_configured_eval n,
         of "[10, 11]" "[[10, 11]]"]
       example_root_eval example_configured_eval n
  show ?thesis by simp
qed

subsection \<open>Construction\<close>

lemma zero_vector_iff: "length r = sd \<Longrightarrow> (r = TheZeroVector sd) = (\<forall>x\<in>set r. x = 0)"
  unfolding TheZeroVector_def
  by (metis in_set_replicate replicate_length_same)

text \<open>
  Claim C3, as amended. Each of the three constructors fails exactly when the base level
  is positive and the refinement ratio equals the zero vector, that is, when it is zero in
  every dimension; the failure is \<open>BoxLib::Abort\<close> with the message of the source. With
  base level 0 construction succeeds whatever the ratio.
\<close>

theorem construction_fails_iff_zero_vector:
  "isl (FMultiGrid_geom sd g B r) = (B > 0 \<and> r = TheZeroVector sd)
 \<and> isl (FMultiGrid_vector sd gs B r) = (B > 0 \<and> r = TheZeroVector sd)
 \<and> isl (FMultiGrid_PArray sd gs B r) = (B > 0 \<and> r = TheZeroVector sd)
 \<and> (B > 0 \<and> r = TheZeroVector sd \<longrightarrow>
      FMultiGrid_geom sd g B r = Inl (Abort ''FMultiGrid: must set crse_ratio if baselevel > 0'')
    \<and> FMultiGrid_vector sd gs B r = Inl (Abort ''FMultiGrid: must set crse_ratio if baselevel > 0'')
    \<and> FMultiGrid_PArray sd gs B r = Inl (Abort ''FMultiGrid: must set crse_ratio if baselevel > 0''))
 \<and> (B = 0 \<longrightarrow> \<not> isl (FMultiGrid_geom sd g B r) \<and> \<not> isl (FMultiGrid_vector sd gs B r)
        \<and> \<not> isl (FMultiGrid_PArray sd gs B r))
 \<and> (length r = sd \<longrightarrow> (r = TheZeroVector sd) = (\<forall>x\<in>set r. x = 0))"
  using zero_vector_iff[of r sd]
  by (simp add: FMultiGrid_geom_def FMultiGrid_vector_def FMultiGrid_PArray_def)

theorem construction_fails_iff_zero_vector_witness:
  "(1::int) > 0 \<and> [0, 0] = TheZeroVector 2 \<and> length [0, 0::int] = 2
 \<and> FMultiGrid_geom 2 \<lparr>CellSize = [d_twentieth, d_twentieth]\<rparr> 1 [0, 0]
      = Inl (Abort ''FMultiGrid: must set crse_ratio if baselevel > 0'')
 \<and> isl (FMultiGrid_vector 2 [\<lparr>CellSize = [d_twentieth, d_twentieth]\<rparr>] 1 [0, 0])
 \<and> \<not> isl (FMultiGrid_PArray 2 [\<lparr>CellSize = [d_twentieth, d_twentieth]\<rparr>] 0 [0, 0])"
  using construction_fails_iff_zero_vector[of 2 "\<lparr>CellSize = [d_twentieth, d_twentieth]\<rparr>" 1 "[0, 0]"
          "[\<lparr>CellSize = [d_twentieth, d_twentieth]\<rparr>]"]
        construction_fails_iff_zero_vector[of 2 "\<lparr>CellSize = [d_twentieth, d_twentieth]\<rparr>" 0 "[0, 0]"
          "[\<lparr>CellSize = [d_twentieth, d_twentieth]\<rparr>]"]
  by (simp add: TheZeroVector_def upt2)

text \<open>
  The claim as stated asks construction to fail as soon as the ratio is not non-zero in
  all dimensions. The ratio \<open>(2, 0)\<close> has a zero component, the base level is 1, and all
  three constructors succeed.
\<close>

theorem construction_partial_zero_ratio_counterexample:
  "(1::int) > 0 \<and> (0::int) \<in> set [2, 0]
 \<and> \<not> isl (FMultiGrid_geom 2 \<lparr>CellSize = [d_twentieth, d_twentieth]\<rparr> 1 [2, 0])
 \<and> \<not> isl (FMultiGrid_vector 2 [\<lparr>CellSize = [d_twentieth, d_twentieth]\<rparr>] 1 [2, 0])
 \<and> \<not> isl (FMultiGrid_PArray 2 [\<lparr>CellSize = [d_twentieth, d_twentieth]\<rparr>] 1 [2, 0])"
  by (simp add: FMultiGrid_geom_def FMultiGrid_vector_def FMultiGrid_PArray_def
        TheZeroVector_def upt2)

subsection \<open>Variant dispatch\<close>

text \<open>
  Claim C4. Past its two entry assertions, \<open>set_coeffs\<close> configures the kernel by the
  variant: the constant-gravity form for \<open>const_gravity_eq\<close>; for \<open>gravity_eq\<close> the gravity
  form with \<open>b\<close>, after asserting \<open>b_set\<close>; for \<open>general_eq\<close> the ABecLaplacian form with
  \<open>alpha\<close>, \<open>a\<close>, \<open>beta\<close> and \<open>b\<close>, after asserting that all four are set; and it aborts for
  \<open>invalid_eq\<close>. A \<open>solve\<close> or \<open>compute_residual\<close> on an instance whose variant is still
  \<open>invalid_eq\<close> fails.
\<close>

theorem variant_dispatch:
  assumes "m_baselevel fmg \<ge> 0"
      and "m_baselevel fmg = 0 \<or> m_crse_ratio fmg \<noteq> TheZeroVector sd"
  shows
   "(eq_type co = const_gravity_eq \<longrightarrow>
       set_coeffs sd co s fmg = Inr (s\<lparr>mgt_coeffs := Some (set_const_gravity_coeffs_k
           (map (level_distance sd fmg) [0..<m_nlevels fmg])
           (map (level_distance sd fmg) [0..<m_nlevels fmg]))\<rparr>))
  \<and> (eq_type co = gravity_eq \<longrightarrow>
       set_coeffs sd co s fmg =
         (if b_set co
          then Inr (s\<lparr>mgt_coeffs := Some (set_gravity_coefficients_k (bcoef co)
                 (map (level_distance sd fmg) [0..<m_nlevels fmg])
                 (map (level_distance sd fmg) [0..<m_nlevels fmg]))\<rparr>)
          else Inl (AssertFailed ''b_set'')))
  \<and> (eq_type co = general_eq \<longrightarrow>
       set_coeffs sd co s fmg =
         (if alpha_set co \<and> a_set co \<and> beta_set co \<and> b_set co
          then Inr (s\<lparr>mgt_coeffs := Some (set_abeclap_coeffs_k (alpha co) (acoef co) (beta co)
                 (bcoef co)
                 (map (level_distance sd fmg) [0..<m_nlevels fmg])
                 (map (level_distance sd fmg) [0..<m_nlevels fmg]))\<rparr>)
          else Inl (AssertFailed ''alpha_set && a_set && beta_set && b_set'')))
  \<and> (eq_type co = invalid_eq \<longrightarrow>
       set_coeffs sd co s fmg
         = Inl (Abort ''FMultiGrid::ABecCoeff::set_coeffs: How did we get here?''))
  \<and> (eq_type (m_coeff fmg) = invalid_eq \<longrightarrow>
       isl (init_mgt_solver sd fmg h phi)
     \<and> isl (solve sd K fmg h phi rhs rt atl ub ng vb)
     \<and> isl (solve_MultiFab sd K fmg h p1 r1 rt atl ub ng vb)
     \<and> isl (compute_residual sd K fmg h phi rhs res)
     \<and> isl (compute_residual_MultiFab sd K fmg h p1 r1 e1))"
  using assms
  by (simp add: set_coeffs_def init_mgt_solver_def solve_def solve_MultiFab_def
        compute_residual_def compute_residual_MultiFab_def Let_def)

theorem variant_dispatch_witness:
  "m_baselevel example_root \<ge> 0 \<and> m_baselevel example_root = 0
 \<and> eq_type example_coeff = const_gravity_eq
 \<and> set_coeffs 2 example_coeff example_solver example_root
      = Inr (example_solver\<lparr>mgt_coeffs := Some (set_const_gravity_coeffs_k [[d_zero, d_zero]] [[d_zero, d_zero]])\<rparr>)
 \<and> eq_type example_gravity = gravity_eq \<and> b_set example_gravity
 \<and> set_coeffs 2 example_gravity example_solver example_root
      = Inr (example_solver\<lparr>mgt_coeffs :=
               Some (set_gravity_coefficients_k [[5, 6]] [[d_zero, d_zero]] [[d_zero, d_zero]])\<rparr>)
 \<and> eq_type example_general = general_eq
 \<and> set_coeffs 2 example_general example_solver example_root
      = Inr (example_solver\<lparr>mgt_coeffs :=
               Some (set_abeclap_coeffs_k d_one [7] d_two [[5, 6]] [[d_zero, d_zero]] [[d_zero, d_zero]])\<rparr>)
 \<and> eq_type ABecCoeff_default = invalid_eq
 \<and> set_coeffs 2 ABecCoeff_default example_solver example_root
      = Inl (Abort ''FMultiGrid::ABecCoeff::set_coeffs: How did we get here?'')
 \<and> eq_type (m_coeff example_root) = invalid_eq
 \<and> isl (solve 2 example_kernel example_root example_heap [1] [2] d_tol d_zero 0 0 0)"
proof -
  have b: "m_baselevel example_root \<ge> 0" and z: "m_baselevel example_root = 0"
    by (simp_all add: example_root_fields)
  from z have d: "m_baselevel example_root = 0 \<or> m_crse_ratio example_root \<noteq> TheZeroVector 2"
    by simp
  have xs: "map (level_distance 2 example_root) [0..<m_nlevels example_root] = [[d_zero, d_zero]]"
    by (simp add: example_root_fields level_distance_def upt2)
  have e: "eq_type example_coeff = const_gravity_eq" "eq_type example_gravity = gravity_eq"
    "b_set example_gravity" "eq_type example_general = general_eq"
    "alpha_set example_general \<and> a_set example_general \<and> beta_set example_general
       \<and> b_set example_general"
    "eq_type ABecCoeff_default = invalid_eq" "eq_type (m_coeff example_root) = invalid_eq"
    "bcoef example_gravity = [[5, 6]]" "alpha example_general = d_one" "beta example_general = d_two"
    "acoef example_general = [7]" "bcoef example_general = [[5, 6]]"
    by (simp_all add: example_coeff_def example_gravity_fields example_general_fields
          ABecCoeff_default_def example_root_fields)
  note t = variant_dispatch[OF b d, where s = example_solver and h = example_heap
             and K = example_kernel and phi = "[1]" and rhs = "[2]" and rt = d_tol and atl = d_zero
             and ub = 0 and ng = 0 and vb = 0, unfolded xs]
  from t[where co = example_coeff] e(1)
  have c1: "set_coeffs 2 example_coeff example_solver example_root
      = Inr (example_solver\<lparr>mgt_coeffs := Some (set_const_gravity_coeffs_k [[d_zero, d_zero]] [[d_zero, d_zero]])\<rparr>)"
    by blast
  from t[where co = example_gravity] e(2,3,8)
  have c2: "set_coeffs 2 example_gravity example_solver example_root
      = Inr (example_solver\<lparr>mgt_coeffs :=
               Some (set_gravity_coefficients_k [[5, 6]] [[d_zero, d_zero]] [[d_zero, d_zero]])\<rparr>)"
    by simp
  from t[where co = example_general] e(4,5,9,10,11,12)
  have c3: "set_coeffs 2 example_general example_solver example_root
      = Inr (example_solver\<lparr>mgt_coeffs :=
               Some (set_abeclap_coeffs_k d_one [7] d_two [[5, 6]] [[d_zero, d_zero]] [[d_zero, d_zero]])\<rparr>)"
    by simp
  from t[where co = ABecCoeff_default] e(6)
  have c4: "set_coeffs 2 ABecCoeff_default example_solver example_root
      = Inl (Abort ''FMultiGrid::ABecCoeff::set_coeffs: How did we get here?'')"
    by blast
  from t[where co = example_coeff] e(7)
  have c5: "isl (solve 2 example_kernel example_root example_heap [1] [2] d_tol d_zero 0 0 0)"
    by blast
  show ?thesis
    by (intro conjI b z e(1) c1 e(2) e(3) c2 e(4) c3 e(6) c4 e(7) c5)
qed

subsection \<open>Boundary values\<close>

text \<open>
  Claim C5. \<open>set_bndry_values\<close> by cases on the two field pointers: both null gives
  homogeneous values; the fine field alone gives values taken from it; both give a
  register on the fine layout coarsened by the ratio, filled from the coarse field, and
  values from that register and the fine field with the same ratio, provided the ratio is
  not the zero vector (an assertion otherwise); a coarse field without a fine one aborts.
  No sequence of public calls on a constructed object produces that last combination.
\<close>

theorem boundary_case_analysis:
  "(crse_phi bc = None \<and> fine_phi bc = None \<longrightarrow>
      set_bndry_values sd h bc bndry r =
        Inr (bndry\<lparr>mb_values := Some (setHomogValues (replicate sd 0, replicate sd 0)
                                        (TheZeroVector sd))\<rparr>))
 \<and> (crse_phi bc = None \<and> fine_phi bc = Some p \<longrightarrow>
      set_bndry_values sd h bc bndry r =
        Inr (bndry\<lparr>mb_values := Some (setBndryValues (h p) 0 0 (nComp (h p))
                                        (replicate sd 0, replicate sd 0))\<rparr>))
 \<and> (crse_phi bc = Some cp \<and> fine_phi bc = Some p \<and> r \<noteq> TheZeroVector sd \<longrightarrow>
      set_bndry_values sd h bc bndry r =
        Inr (bndry\<lparr>mb_values := Some (setBndryValues_crse
               \<lparr>br_boxes = Coarsen (boxArray (h p)) r, br_in_rad = 0, br_out_rad = 1,
                br_extent_rad = 2, br_ncomp = nComp (h p),
                br_copyFrom = Some (h cp, nGrow (h cp), 0, 0, nComp (h p))\<rparr>
               0 (h p) 0 0 (nComp (h p)) r (replicate sd 0, replicate sd 0))\<rparr>))
 \<and> (crse_phi bc = Some cp \<and> fine_phi bc = Some p \<and> r = TheZeroVector sd \<longrightarrow>
      set_bndry_values sd h bc bndry r =
        Inl (AssertFailed ''crse_ratio != IntVect::TheZeroVector()''))
 \<and> (crse_phi bc = Some cp \<and> fine_phi bc = None \<longrightarrow>
      set_bndry_values sd h bc bndry r =
        Inl (Abort ''FMultiGrid::Boundary::build_bndry: How did we get here?''))
 \<and> (FMultiGrid_vector sd gs B r0 = Inr fmg0 \<and> run sd K (fmg0, h0) cs = Inr (fmg, h1) \<longrightarrow>
      \<not> (crse_phi (m_bc fmg) \<noteq> None \<and> fine_phi (m_bc fmg) = None))"
proof -
  have "\<not> (crse_phi (m_bc fmg) \<noteq> None \<and> fine_phi (m_bc fmg) = None)"
    if c: "FMultiGrid_vector sd gs B r0 = Inr fmg0" and r: "run sd K (fmg0, h0) cs = Inr (fmg, h1)"
  proof -
    from ctor_fresh(2)[OF c] have "crse_phi (m_bc fmg0) = None"
      by (simp add: Boundary_default_def)
    then show ?thesis using run_bc_shape[OF r] by simp
  qed
  then show ?thesis
    by (simp add: set_bndry_values_def Let_def)
qed

theorem boundary_case_analysis_witness:
  "set_bndry_values 2 example_heap (Boundary_ctor [0, 0, 0, 0] None None) example_bndry [2, 2]
     = Inr (example_bndry\<lparr>mb_values := Some (setHomogValues ([0, 0], [0, 0]) [0, 0])\<rparr>)
 \<and> set_bndry_values 2 example_heap (Boundary_ctor [0, 0, 0, 0] None (Some 4)) example_bndry [2, 2]
     = Inr (example_bndry\<lparr>mb_values :=
              Some (setBndryValues example_fab 0 0 1 ([0, 0], [0, 0]))\<rparr>)
 \<and> set_bndry_values 2 example_heap (Boundary_ctor [0, 0, 0, 0] (Some 3) (Some 4))
       example_bndry [2, 2]
     = Inr (example_bndry\<lparr>mb_values := Some (setBndryValues_crse
               \<lparr>br_boxes = Coarsen (Boxes [([0, 0], [7, 7])]) [2, 2], br_in_rad = 0,
                br_out_rad = 1, br_extent_rad = 2, br_ncomp = 1,
                br_copyFrom = Some (example_fab, 1, 0, 0, 1)\<rparr>
               0 example_fab 0 0 1 [2, 2] ([0, 0], [0, 0]))\<rparr>)
 \<and> set_bndry_values 2 example_heap (Boundary_ctor [0, 0, 0, 0] (Some 3) (Some 4))
       example_bndry [0, 0]
     = Inl (AssertFailed ''crse_ratio != IntVect::TheZeroVector()'')
 \<and> set_bndry_values 2 example_heap (Boundary_ctor [0, 0, 0, 0] (Some 3) None)
       example_bndry [2, 2]
     = Inl (Abort ''FMultiGrid::Boundary::build_bndry: How did we get here?'')
 \<and> FMultiGrid_vector 2 [\<lparr>CellSize = [d_tenth, d_tenth]\<rparr>] 0 [0, 0] = Inr example_root
 \<and> run 2 example_kernel (example_root, example_heap) example_calls
      = Inr (example_configured, example_heap)
 \<and> crse_phi (m_bc example_configured) = None"
proof -
  have z: "TheZeroVector 2 = [0, 0]" "replicate 2 (0::int) = [0, 0]"
    "[2, 2] \<noteq> TheZeroVector 2" "[0, 0] = TheZeroVector 2"
    by (simp_all add: TheZeroVector_def upt2)
  have hp: "example_heap 4 = example_fab" "example_heap 3 = example_fab"
    "nComp example_fab = 1" "nGrow example_fab = 1"
    "boxArray example_fab = Boxes [([0, 0], [7, 7])]"
    by (simp_all add: example_heap_def example_fab_def)
  note t = boundary_case_analysis[where sd = 2 and h = example_heap and bndry = example_bndry
             and cp = 3 and p = 4, unfolded z(1,2) hp]
  have c1: "set_bndry_values 2 example_heap (Boundary_ctor [0, 0, 0, 0] None None)
        example_bndry [2, 2]
     = Inr (example_bndry\<lparr>mb_values := Some (setHomogValues ([0, 0], [0, 0]) [0, 0])\<rparr>)"
    using t[where bc = "Boundary_ctor [0, 0, 0, 0] None None" and r = "[2, 2]"]
    by (simp add: Boundary_ctor_def)
  have c2: "set_bndry_values 2 example_heap (Boundary_ctor [0, 0, 0, 0] None (Some 4))
        example_bndry [2, 2]
     = Inr (example_bndry\<lparr>mb_values :=
              Some (setBndryValues example_fab 0 0 1 ([0, 0], [0, 0]))\<rparr>)"
    using t[where bc = "Boundary_ctor [0, 0, 0, 0] None (Some 4)" and r = "[2, 2]"]
    by (simp add: Boundary_ctor_def)
  have c3: "set_bndry_values 2 example_heap (Boundary_ctor [0, 0, 0, 0] (Some 3) (Some 4))
       example_bndry [2, 2]
     = Inr (example_bndry\<lparr>mb_values := Some (setBndryValues_crse
               \<lparr>br_boxes = Coarsen (Boxes [([0, 0], [7, 7])]) [2, 2], br_in_rad = 0,
                br_out_rad = 1, br_extent_rad = 2, br_ncomp = 1,
                br_copyFrom = Some (example_fab, 1, 0, 0, 1)\<rparr>
               0 example_fab 0 0 1 [2, 2] ([0, 0], [0, 0]))\<rparr>)"
    using t[where bc = "Boundary_ctor [0, 0, 0, 0] (Some 3) (Some 4)" and r = "[2, 2]"]
    by (simp add: Boundary_ctor_def upt2)
  have c4: "set_bndry_values 2 example_heap (Boundary_ctor [0, 0, 0, 0] (Some 3) (Some 4))
       example_bndry [0, 0]
     = Inl (AssertFailed ''crse_ratio != IntVect::TheZeroVector()'')"
    using t[where bc = "Boundary_ctor [0, 0, 0, 0] (Some 3) (Some 4)" and r = "[0, 0]"]
    by (simp add: Boundary_ctor_def)
  have c5: "set_bndry_values 2 example_heap (Boundary_ctor [0, 0, 0, 0] (Some 3) None)
       example_bndry [2, 2]
     = Inl (Abort ''FMultiGrid::Boundary::build_bndry: How did we get here?'')"
    using t[where bc = "Boundary_ctor [0, 0, 0, 0] (Some 3) None" and r = "[2, 2]"]
    by (simp add: Boundary_ctor_def)
  have c6: "crse_phi (m_bc example_configured) = None"
    using t[where ?fmg0.0 = example_root and gs = "[\<lparr>CellSize = [d_tenth, d_tenth]\<rparr>]" and B = 0
              and ?r0.0 = "[0, 0]" and K = example_kernel and ?h0.0 = example_heap
              and cs = example_calls and fmg = example_configured and ?h1.0 = example_heap]
          example_root_eval example_configured_eval
    by (simp add: example_configured_fields Boundary_ctor_def)
  show ?thesis
    by (intro conjI c1 c2 c3 c4 c5 example_root_eval example_configured_eval c6)
qed

subsection \<open>set_bc\<close>

text \<open>
  Claim C6. On an object whose boundary descriptor is set, every \<open>set_bc\<close> overload
  fails: the two without a coarse field at the assertion \<open>!m_bc.initilized\<close>, and so does
  the one with a coarse field unless the ratio is the zero vector. That overload fails at
  its first assertion, on the ratio, whenever the ratio is the zero vector, set before or
  not. A successful \<open>set_bc\<close> call finds the descriptor unset and leaves it set; once set
  it is never changed; so a sequence of calls that runs through holds at most one
  \<open>set_bc\<close> call.
\<close>

theorem set_bc_at_most_once:
  "(initilized (m_bc fmg) \<longrightarrow>
      set_bc fmg mg = Inl (AssertFailed ''!m_bc.initilized'')
    \<and> set_bc_phi fmg mg p = Inl (AssertFailed ''!m_bc.initilized'')
    \<and> isl (set_bc_crse sd fmg mg cp p))
 \<and> (initilized (m_bc fmg) \<and> m_crse_ratio fmg \<noteq> TheZeroVector sd \<longrightarrow>
      set_bc_crse sd fmg mg cp p = Inl (AssertFailed ''!m_bc.initilized''))
 \<and> (m_crse_ratio fmg = TheZeroVector sd \<longrightarrow>
      set_bc_crse sd fmg mg cp p
        = Inl (AssertFailed ''m_crse_ratio != IntVect::TheZeroVector()''))
 \<and> (is_set_bc c \<and> step sd K (fmg, h) c = Inr (fmg', h') \<longrightarrow>
      \<not> initilized (m_bc fmg) \<and> initilized (m_bc fmg'))
 \<and> (initilized (m_bc fmg) \<and> step sd K (fmg, h) c = Inr (fmg', h') \<longrightarrow>
      m_bc fmg' = m_bc fmg \<and> \<not> is_set_bc c)
 \<and> (FMultiGrid_vector sd gs B r = Inr fmg0 \<and> run sd K (fmg0, h0) cs = Inr (fmg1, h1) \<longrightarrow>
      \<not> initilized (m_bc fmg0) \<and> length (filter is_set_bc cs) \<le> 1
    \<and> initilized (m_bc fmg1) = list_ex is_set_bc cs)"
proof -
  have a: "is_set_bc c \<and> step sd K (fmg, h) c = Inr (fmg', h') \<longrightarrow>
      \<not> initilized (m_bc fmg) \<and> initilized (m_bc fmg')"
    using step_set_bc[of sd K fmg h c fmg' h'] by blast
  have b: "initilized (m_bc fmg) \<and> step sd K (fmg, h) c = Inr (fmg', h') \<longrightarrow>
      m_bc fmg' = m_bc fmg \<and> \<not> is_set_bc c"
    using step_bc_kept[of sd K fmg h c fmg' h'] by blast
  have c: "FMultiGrid_vector sd gs B r = Inr fmg0 \<and> run sd K (fmg0, h0) cs = Inr (fmg1, h1) \<longrightarrow>
      \<not> initilized (m_bc fmg0) \<and> length (filter is_set_bc cs) \<le> 1
    \<and> initilized (m_bc fmg1) = list_ex is_set_bc cs"
  proof
    assume "FMultiGrid_vector sd gs B r = Inr fmg0 \<and> run sd K (fmg0, h0) cs = Inr (fmg1, h1)"
    then have k: "FMultiGrid_vector sd gs B r = Inr fmg0"
      and r: "run sd K (fmg0, h0) cs = Inr (fmg1, h1)" by simp_all
    from ctor_fresh(2)[OF k] have n: "\<not> initilized (m_bc fmg0)"
      by (simp add: Boundary_default_def)
    have "initilized (m_bc f') = (initilized (m_bc f) \<or> list_ex is_set_bc ds)"
      if "run sd K (f, g) ds = Inr (f', g')" for f g f' g' ds
      using that
    proof (induction ds arbitrary: f g)
      case Nil
      then show ?case by simp
    next
      case (Cons d ds)
      from Cons.prems obtain f1 g1 where s: "step sd K (f, g) d = Inr (f1, g1)"
        and r: "run sd K (f1, g1) ds = Inr (f', g')"
        by (auto split: sum.splits)
      show ?case
      proof (cases "is_set_bc d")
        case True
        from step_set_bc[OF s True] Cons.IH[OF r] True show ?thesis by simp
      next
        case False
        have "initilized (m_bc f1) = initilized (m_bc f)"
        proof (cases "initilized (m_bc f)")
          case True
          from step_bc_kept[OF s True] True show ?thesis by simp
        next
          case F: False
          show ?thesis
          proof (cases "is_solve d")
            case True
            from step_solve[OF s True] F show ?thesis by simp
          next
            case S: False
            with s False F show ?thesis
              by (cases d) (auto simp: keep_heap_def keep_object_def setter_defs
                    split: if_splits sum.splits)
          qed
        qed
        with Cons.IH[OF r] False show ?thesis by simp
      qed
    qed
    from this[OF r] n run_set_bc_once[OF r]
    show "\<not> initilized (m_bc fmg0) \<and> length (filter is_set_bc cs) \<le> 1
        \<and> initilized (m_bc fmg1) = list_ex is_set_bc cs" by simp
  qed
  have d: "(initilized (m_bc fmg) \<longrightarrow>
      set_bc fmg mg = Inl (AssertFailed ''!m_bc.initilized'')
    \<and> set_bc_phi fmg mg p = Inl (AssertFailed ''!m_bc.initilized'')
    \<and> isl (set_bc_crse sd fmg mg cp p))"
   "(initilized (m_bc fmg) \<and> m_crse_ratio fmg \<noteq> TheZeroVector sd \<longrightarrow>
      set_bc_crse sd fmg mg cp p = Inl (AssertFailed ''!m_bc.initilized''))"
   "(m_crse_ratio fmg = TheZeroVector sd \<longrightarrow>
      set_bc_crse sd fmg mg cp p
        = Inl (AssertFailed ''m_crse_ratio != IntVect::TheZeroVector()''))"
    by (simp_all add: set_bc_def set_bc_phi_def set_bc_crse_def)
  show ?thesis by (intro conjI d a b c)
qed

theorem set_bc_at_most_once_witness:
  "initilized (m_bc example_configured)
 \<and> set_bc example_configured [1, 1, 1, 1] = Inl (AssertFailed ''!m_bc.initilized'')
 \<and> set_bc_phi example_configured [1, 1, 1, 1] 4 = Inl (AssertFailed ''!m_bc.initilized'')
 \<and> m_crse_ratio example_configured = TheZeroVector 2
 \<and> set_bc_crse 2 example_configured [1, 1, 1, 1] 3 4
      = Inl (AssertFailed ''m_crse_ratio != IntVect::TheZeroVector()'')
 \<and> m_crse_ratio example_fine \<noteq> TheZeroVector 2
 \<and> set_bc_crse 2 example_fine [1, 1, 1, 1] 3 4
      = Inr (example_fine\<lparr>m_bc := Boundary_ctor [1, 1, 1, 1] (Some 3) (Some 4)\<rparr>)
 \<and> set_bc_crse 2 (example_fine\<lparr>m_bc := Boundary_ctor [1, 1, 1, 1] (Some 3) (Some 4)\<rparr>)
      [1, 1, 1, 1] 3 4 = Inl (AssertFailed ''!m_bc.initilized'')
 \<and> FMultiGrid_vector 2 [\<lparr>CellSize = [d_tenth, d_tenth]\<rparr>] 0 [0, 0] = Inr example_root
 \<and> run 2 example_kernel (example_root, example_heap) example_calls
      = Inr (example_configured, example_heap)
 \<and> length (filter is_set_bc example_calls) \<le> 1
 \<and> list_ex is_set_bc example_calls
 \<and> isl (run 2 example_kernel (example_root, example_heap)
           (example_calls @ [Call_set_bc_phi [1, 1, 1, 1] 4]))"
proof -
  let ?f = "example_fine\<lparr>m_bc := Boundary_ctor [1, 1, 1, 1] (Some 3) (Some 4)\<rparr>"
  have i1: "initilized (m_bc example_configured)"
    and i2: "m_crse_ratio example_configured = TheZeroVector 2"
    and i3: "m_crse_ratio example_fine \<noteq> TheZeroVector 2"
    and i4: "initilized (m_bc ?f) \<and> m_crse_ratio ?f \<noteq> TheZeroVector 2"
    by (simp_all add: example_configured_fields example_root_fields example_defs
          Boundary_ctor_def)
  have f: "set_bc_crse 2 example_fine [1, 1, 1, 1] 3 4 = Inr ?f"
    by (simp add: set_bc_crse_def example_defs)
  note t1 = set_bc_at_most_once[where fmg = example_configured and mg = "[1, 1, 1, 1]"
         and p = 4 and cp = 3 and sd = 2 and ?fmg0.0 = example_root and K = example_kernel
         and ?h0.0 = example_heap and cs = example_calls and ?fmg1.0 = example_configured
         and ?h1.0 = example_heap and gs = "[\<lparr>CellSize = [d_tenth, d_tenth]\<rparr>]" and B = 0
         and r = "[0, 0]"]
  note t2 = set_bc_at_most_once[where fmg = ?f and mg = "[1, 1, 1, 1]" and p = 4 and cp = 3
         and sd = 2]
  from t1 i1 have c1: "set_bc example_configured [1, 1, 1, 1] = Inl (AssertFailed ''!m_bc.initilized'')"
    and c2: "set_bc_phi example_configured [1, 1, 1, 1] 4 = Inl (AssertFailed ''!m_bc.initilized'')"
    by blast+
  from t1 i2 have c3: "set_bc_crse 2 example_configured [1, 1, 1, 1] 3 4
      = Inl (AssertFailed ''m_crse_ratio != IntVect::TheZeroVector()'')" by blast
  from t2 i4 have c4: "set_bc_crse 2 ?f [1, 1, 1, 1] 3 4 = Inl (AssertFailed ''!m_bc.initilized'')"
    by blast
  from t1 example_root_eval example_configured_eval
  have c5: "length (filter is_set_bc example_calls) \<le> 1"
    and c6: "initilized (m_bc example_configured) = list_ex is_set_bc example_calls"
    by blast+
  from c6 i1 have c7: "list_ex is_set_bc example_calls" by simp
  have c8: "isl (run 2 example_kernel (example_root, example_heap)
           (example_calls @ [Call_set_bc_phi [1, 1, 1, 1] 4]))"
    by (simp add: run_append example_configured_eval keep_heap_def c2)
  show ?thesis
    by (intro conjI i1 c1 c2 i2 c3 i3 f c4 example_root_eval example_configured_eval c5 c7 c8)
qed

subsection \<open>Coefficient setters\<close>

lemma is_assert_failure_keep_heap:
  "is_assert_failure (keep_heap h r) = is_assert_failure r"
  by (cases r rule: is_assert_failure.cases) (simp_all add: keep_heap_def)

lemma setter_guard:
  assumes "coeff_consistent (m_coeff fmg)" and "requested c = Some v"
      and "\<not> ((eq_type (m_coeff fmg) = invalid_eq \<or> eq_type (m_coeff fmg) = v)
               \<and> \<not> sub_set (sub_of c) (m_coeff fmg))"
  shows "is_assert_failure (step sd K (fmg, h) c)"
  using assms
  by (cases c)
     (auto simp: is_assert_failure_keep_heap setter_defs coeff_consistent_def
        split: EqType.splits)

lemma setter_post:
  assumes "requested c = Some v" and "step sd K (fmg, h) c = Inr (f1, h1)"
      and "coeff_consistent (m_coeff fmg)"
  shows "(eq_type (m_coeff fmg) = invalid_eq \<or> eq_type (m_coeff fmg) = v)
       \<and> (v \<noteq> general_eq \<longrightarrow> eq_type (m_coeff fmg) = invalid_eq)
       \<and> \<not> sub_set (sub_of c) (m_coeff fmg)
       \<and> eq_type (m_coeff f1) = v
       \<and> (sub_of c \<noteq> No_sub \<longrightarrow> sub_set (sub_of c) (m_coeff f1))
       \<and> (\<forall>u. u \<noteq> sub_of c \<longrightarrow> sub_set u (m_coeff f1) = sub_set u (m_coeff fmg))
       \<and> h1 = h"
proof -
  have all: "(\<forall>u. P u) = (P No_sub \<and> P Alpha_sub \<and> P A_sub \<and> P Beta_sub \<and> P B_sub)" for P
    by (metis sub_value.exhaust)
  show ?thesis unfolding all
    using assms
    by (cases c)
       (auto simp: keep_heap_def setter_defs coeff_consistent_def
          split: if_splits sum.splits)
qed

lemma later_setter_fails:
  assumes "coeff_consistent co" and "co = m_coeff f2"
      and "requested c = Some v" and "requested c' = Some v'"
      and "eq_type co = v"
      and "sub_of c \<noteq> No_sub \<longrightarrow> sub_set (sub_of c) co"
      and "v' \<noteq> v \<or> sub_of c' = sub_of c"
  shows "step sd K (f2, h2) c' =
           Inl (AssertFailed
                 (if v' \<noteq> general_eq then ''m_coeff.eq_type == invalid_eq''
                  else if v \<noteq> general_eq then tag_assert
                  else flag_assert (sub_of c')))"
  using assms
  by (cases c; cases c')
     (auto simp: keep_heap_def setter_defs coeff_consistent_def split: EqType.splits)

lemmas example_setter_defs = example_with_acoef_def example_with_alpha_def
  example_with_alpha_beta_def example_with_bcoef_def example_two_level_acoef_def
  example_const_gravity_def example_root_fields example_two_level_fields keep_heap_def
  setter_defs ABecCoeff_default_def Boundary_default_def Boundary_ctor_def
  Copy_MultiFab_def Copy_PArray_def Copy_dims_def upt2

lemma example_setter_steps:
  "step 2 example_kernel (example_root, example_heap) (Call_set_alpha d_one)
     = Inr (example_with_alpha, example_heap)"
  "step 2 example_kernel (example_with_alpha, example_heap) (Call_set_beta d_two)
     = Inr (example_with_alpha_beta, example_heap)"
  "step 2 example_kernel (example_root, example_heap) (Call_set_bcoef [5, 6])
     = Inr (example_with_bcoef, example_heap)"
  "step 2 example_kernel (example_root, example_heap) (Call_set_acoef 7)
     = Inr (example_with_acoef, example_heap)"
  "step 2 example_kernel (example_two_level, example_heap) (Call_set_acoef_lev [7, 8])
     = Inr (example_two_level_acoef, example_heap)"
  "step 2 example_kernel (example_root, example_heap) Call_set_const_gravity_coeffs
     = Inr (example_const_gravity, example_heap)"
  by (simp_all add: example_setter_defs)

lemma example_setter_runs:
  "run 2 example_kernel (example_root, example_heap) [Call_set_alpha d_one]
     = Inr (example_with_alpha, example_heap)"
  "run 2 example_kernel (example_with_alpha, example_heap) [Call_set_beta d_two]
     = Inr (example_with_alpha_beta, example_heap)"
  "run 2 example_kernel (example_const_gravity, example_heap) [Call_set_bc [0, 0, 0, 0]]
     = Inr (example_const_gravity\<lparr>m_bc := Boundary_ctor [0, 0, 0, 0] None None\<rparr>, example_heap)"
  by (simp_all add: example_setter_defs del: step.simps add: example_setter_steps)
     (simp_all add: example_setter_defs)

lemma example_two_level_eval:
  "FMultiGrid_vector 2 [\<lparr>CellSize = [d_tenth, d_tenth]\<rparr>,
                        \<lparr>CellSize = [d_twentieth, d_twentieth]\<rparr>] 0 [0, 0]
     = Inr example_two_level"
  by (simp add: example_two_level_fields FMultiGrid_vector_def TheZeroVector_def
        Boundary_default_def ABecCoeff_default_def)

text \<open>
  Claim C7. On an object built by a constructor and changed by public calls, for every
  coefficient setter and every overload of it: the call fails at an assertion unless the
  variant is \<open>invalid_eq\<close> or the variant the setter requests, and the sub-value it sets
  is not set yet. The two gravity setters fail unless the variant is \<open>invalid_eq\<close>; the
  setters of \<open>alpha\<close>, \<open>a\<close>, \<open>beta\<close> and \<open>b\<close> fail unless it is \<open>invalid_eq\<close> or
  \<open>general_eq\<close>, and each fails when its own sub-value is already set; the assertion
  that fails is given. A setter call that succeeds found the variant and its sub-value
  so, records the variant it requests and marks its sub-value as set, and changes no
  other flag and not the heap. After a successful setter call and any further calls that
  succeed, every setter call that requests another variant or sets the same sub-value
  fails, at the assertion given. In particular \<open>set_alpha\<close> fails at any time after
  \<open>set_const_gravity_coeffs\<close>, and \<open>set_acoef\<close>, in either overload, fails at any time
  after \<open>set_acoef\<close>.
\<close>

theorem coefficient_setters_guarded:
  assumes "FMultiGrid_vector sd gs B r = Inr fmg0" and "run sd K (fmg0, h0) cs = Inr (fmg, h)"
  shows
   "(eq_type (m_coeff fmg) \<noteq> invalid_eq \<or> b_set (m_coeff fmg) \<longrightarrow>
       set_const_gravity_coeffs fmg = Inl (AssertFailed ''m_coeff.eq_type == invalid_eq'')
     \<and> set_gravity_coeffs sd fmg bs = Inl (AssertFailed ''m_coeff.eq_type == invalid_eq'')
     \<and> set_gravity_coeffs_lev sd fmg bl = Inl (AssertFailed ''m_coeff.eq_type == invalid_eq''))
  \<and> (eq_type (m_coeff fmg) \<noteq> invalid_eq \<and> eq_type (m_coeff fmg) \<noteq> general_eq \<longrightarrow>
       set_alpha fmg al = Inl (AssertFailed tag_assert)
     \<and> set_acoef fmg ac = Inl (AssertFailed tag_assert)
     \<and> set_acoef_lev fmg acs = Inl (AssertFailed tag_assert)
     \<and> set_beta fmg be = Inl (AssertFailed tag_assert)
     \<and> set_bcoef_ptr sd fmg bp = Inl (AssertFailed tag_assert)
     \<and> set_bcoef sd fmg bs = Inl (AssertFailed tag_assert)
     \<and> set_bcoef_lev sd fmg bl = Inl (AssertFailed tag_assert))
  \<and> (alpha_set (m_coeff fmg) \<longrightarrow> set_alpha fmg al = Inl (AssertFailed ''!m_coeff.alpha_set''))
  \<and> (a_set (m_coeff fmg) \<longrightarrow>
       set_acoef fmg ac = Inl (AssertFailed ''!m_coeff.a_set'')
     \<and> set_acoef_lev fmg acs = Inl (AssertFailed ''!m_coeff.a_set''))
  \<and> (beta_set (m_coeff fmg) \<longrightarrow> set_beta fmg be = Inl (AssertFailed ''!m_coeff.beta_set''))
  \<and> (b_set (m_coeff fmg) \<and> eq_type (m_coeff fmg) = general_eq \<longrightarrow>
       set_bcoef_ptr sd fmg bp = Inl (AssertFailed ''!m_coeff.b_set'')
     \<and> set_bcoef sd fmg bs = Inl (AssertFailed ''!m_coeff.b_set'')
     \<and> set_bcoef_lev sd fmg bl = Inl (AssertFailed ''!m_coeff.b_set''))
  \<and> (set_const_gravity_coeffs fmg = Inr f1 \<and> run sd K (f1, h) ds = Inr (f2, h2) \<longrightarrow>
       set_alpha f2 al = Inl (AssertFailed tag_assert))
  \<and> (set_acoef fmg ac = Inr f1 \<and> run sd K (f1, h) ds = Inr (f2, h2) \<longrightarrow>
       set_acoef f2 ac' = Inl (AssertFailed ''!m_coeff.a_set''))
  \<and> (requested c = Some v
       \<and> \<not> ((eq_type (m_coeff fmg) = invalid_eq \<or> eq_type (m_coeff fmg) = v)
              \<and> \<not> sub_set (sub_of c) (m_coeff fmg)) \<longrightarrow>
       is_assert_failure (step sd K (fmg, h) c))
  \<and> (requested c = Some v \<and> step sd K (fmg, h) c = Inr (g1, k1) \<longrightarrow>
       (eq_type (m_coeff fmg) = invalid_eq \<or> eq_type (m_coeff fmg) = v)
     \<and> \<not> sub_set (sub_of c) (m_coeff fmg)
     \<and> eq_type (m_coeff g1) = v
     \<and> (sub_of c \<noteq> No_sub \<longrightarrow> sub_set (sub_of c) (m_coeff g1))
     \<and> (\<forall>u. u \<noteq> sub_of c \<longrightarrow> sub_set u (m_coeff g1) = sub_set u (m_coeff fmg))
     \<and> k1 = h)
  \<and> (requested c = Some v \<and> step sd K (fmg, h) c = Inr (g1, k1)
       \<and> run sd K (g1, k1) es = Inr (g2, k2)
       \<and> requested c' = Some v' \<and> (v' \<noteq> v \<or> sub_of c' = sub_of c) \<longrightarrow>
       step sd K (g2, k2) c' =
         Inl (AssertFailed
               (if v' \<noteq> general_eq then ''m_coeff.eq_type == invalid_eq''
                else if v \<noteq> general_eq then tag_assert
                else flag_assert (sub_of c'))))"
proof -
  from reachable_coeff_consistent[OF assms] have inv: "coeff_consistent (m_coeff fmg)" .
  have g: "eq_type (m_coeff fmg) \<noteq> invalid_eq \<or> b_set (m_coeff fmg) \<longrightarrow>
       set_const_gravity_coeffs fmg = Inl (AssertFailed ''m_coeff.eq_type == invalid_eq'')
     \<and> set_gravity_coeffs sd fmg bs = Inl (AssertFailed ''m_coeff.eq_type == invalid_eq'')
     \<and> set_gravity_coeffs_lev sd fmg bl = Inl (AssertFailed ''m_coeff.eq_type == invalid_eq'')"
    using inv
    by (auto simp: coeff_consistent_def set_const_gravity_coeffs_def set_gravity_coeffs_def
          set_gravity_coeffs_lev_def split: EqType.splits)
  have t: "eq_type (m_coeff fmg) \<noteq> invalid_eq \<and> eq_type (m_coeff fmg) \<noteq> general_eq \<longrightarrow>
       set_alpha fmg al = Inl (AssertFailed tag_assert)
     \<and> set_acoef fmg ac = Inl (AssertFailed tag_assert)
     \<and> set_acoef_lev fmg acs = Inl (AssertFailed tag_assert)
     \<and> set_beta fmg be = Inl (AssertFailed tag_assert)
     \<and> set_bcoef_ptr sd fmg bp = Inl (AssertFailed tag_assert)
     \<and> set_bcoef sd fmg bs = Inl (AssertFailed tag_assert)
     \<and> set_bcoef_lev sd fmg bl = Inl (AssertFailed tag_assert)"
    by (simp add: set_alpha_def set_acoef_def set_acoef_lev_def set_beta_def set_bcoef_ptr_def
          set_bcoef_def set_bcoef_lev_def)
  have general: "eq_type co = general_eq"
    if "coeff_consistent co" "alpha_set co \<or> a_set co \<or> beta_set co" for co
    using that by (auto simp: coeff_consistent_def split: EqType.splits)
  have s1: "alpha_set (m_coeff fmg) \<longrightarrow> set_alpha fmg al = Inl (AssertFailed ''!m_coeff.alpha_set'')"
    using general[OF inv] by (auto simp: set_alpha_def)
  have s2: "a_set (m_coeff fmg) \<longrightarrow>
       set_acoef fmg ac = Inl (AssertFailed ''!m_coeff.a_set'')
     \<and> set_acoef_lev fmg acs = Inl (AssertFailed ''!m_coeff.a_set'')"
    using general[OF inv] by (auto simp: set_acoef_def set_acoef_lev_def)
  have s3: "beta_set (m_coeff fmg) \<longrightarrow> set_beta fmg be = Inl (AssertFailed ''!m_coeff.beta_set'')"
    using general[OF inv] by (auto simp: set_beta_def)
  have s4: "b_set (m_coeff fmg) \<and> eq_type (m_coeff fmg) = general_eq \<longrightarrow>
       set_bcoef_ptr sd fmg bp = Inl (AssertFailed ''!m_coeff.b_set'')
     \<and> set_bcoef sd fmg bs = Inl (AssertFailed ''!m_coeff.b_set'')
     \<and> set_bcoef_lev sd fmg bl = Inl (AssertFailed ''!m_coeff.b_set'')"
    by (simp add: set_bcoef_ptr_def set_bcoef_def set_bcoef_lev_def)
  have p1: "set_const_gravity_coeffs fmg = Inr f1 \<and> run sd K (f1, h) ds = Inr (f2, h2) \<longrightarrow>
       set_alpha f2 al = Inl (AssertFailed tag_assert)"
  proof
    assume a: "set_const_gravity_coeffs fmg = Inr f1 \<and> run sd K (f1, h) ds = Inr (f2, h2)"
    then have "eq_type (m_coeff f1) = const_gravity_eq"
      by (auto simp: set_const_gravity_coeffs_def split: if_splits)
    moreover from a have "run sd K (f1, h) ds = Inr (f2, h2)" by simp
    from run_coeff_monotone[OF this]
    have "eq_type (m_coeff f1) \<noteq> invalid_eq \<longrightarrow> eq_type (m_coeff f2) = eq_type (m_coeff f1)"
      by simp
    ultimately have "eq_type (m_coeff f2) = const_gravity_eq" by simp
    then show "set_alpha f2 al = Inl (AssertFailed tag_assert)" by (simp add: set_alpha_def)
  qed
  have p2: "set_acoef fmg ac = Inr f1 \<and> run sd K (f1, h) ds = Inr (f2, h2) \<longrightarrow>
       set_acoef f2 ac' = Inl (AssertFailed ''!m_coeff.a_set'')"
  proof
    assume a: "set_acoef fmg ac = Inr f1 \<and> run sd K (f1, h) ds = Inr (f2, h2)"
    then have f1: "eq_type (m_coeff f1) = general_eq" "a_set (m_coeff f1)"
      by (auto simp: set_acoef_def split: if_splits)
    from a have "run sd K (f1, h) ds = Inr (f2, h2)" by simp
    from run_coeff_monotone[OF this] f1
    have "eq_type (m_coeff f2) = general_eq" "a_set (m_coeff f2)" by simp_all
    then show "set_acoef f2 ac' = Inl (AssertFailed ''!m_coeff.a_set'')"
      by (simp add: set_acoef_def)
  qed
  have sub_mono: "sub_set u (m_coeff b)"
    if "run sd K (a, ka) xs = Inr (b, kb)" "sub_set u (m_coeff a)" "u \<noteq> No_sub"
    for u a ka xs b kb
    using run_coeff_monotone[OF that(1)] that(2,3) by (cases u) simp_all
  have req_valid: "w \<noteq> invalid_eq" if "requested x = Some w" for x w
    using that by (cases x) auto
  have q1: "(requested c = Some v
       \<and> \<not> ((eq_type (m_coeff fmg) = invalid_eq \<or> eq_type (m_coeff fmg) = v)
              \<and> \<not> sub_set (sub_of c) (m_coeff fmg)) \<longrightarrow>
       is_assert_failure (step sd K (fmg, h) c))"
  proof
    assume a: "requested c = Some v
       \<and> \<not> ((eq_type (m_coeff fmg) = invalid_eq \<or> eq_type (m_coeff fmg) = v)
              \<and> \<not> sub_set (sub_of c) (m_coeff fmg))"
    then have a1: "requested c = Some v"
      and a2: "\<not> ((eq_type (m_coeff fmg) = invalid_eq \<or> eq_type (m_coeff fmg) = v)
              \<and> \<not> sub_set (sub_of c) (m_coeff fmg))" by blast+
    from setter_guard[OF inv a1 a2] show "is_assert_failure (step sd K (fmg, h) c)" .
  qed
  have q2: "(requested c = Some v \<and> step sd K (fmg, h) c = Inr (g1, k1) \<longrightarrow>
       (eq_type (m_coeff fmg) = invalid_eq \<or> eq_type (m_coeff fmg) = v)
     \<and> \<not> sub_set (sub_of c) (m_coeff fmg)
     \<and> eq_type (m_coeff g1) = v
     \<and> (sub_of c \<noteq> No_sub \<longrightarrow> sub_set (sub_of c) (m_coeff g1))
     \<and> (\<forall>u. u \<noteq> sub_of c \<longrightarrow> sub_set u (m_coeff g1) = sub_set u (m_coeff fmg))
     \<and> k1 = h)"
  proof
    assume a: "requested c = Some v \<and> step sd K (fmg, h) c = Inr (g1, k1)"
    then have a1: "requested c = Some v" and a2: "step sd K (fmg, h) c = Inr (g1, k1)"
      by blast+
    from setter_post[OF a1 a2 inv]
    show "(eq_type (m_coeff fmg) = invalid_eq \<or> eq_type (m_coeff fmg) = v)
     \<and> \<not> sub_set (sub_of c) (m_coeff fmg)
     \<and> eq_type (m_coeff g1) = v
     \<and> (sub_of c \<noteq> No_sub \<longrightarrow> sub_set (sub_of c) (m_coeff g1))
     \<and> (\<forall>u. u \<noteq> sub_of c \<longrightarrow> sub_set u (m_coeff g1) = sub_set u (m_coeff fmg))
     \<and> k1 = h" by blast
  qed
  have q3: "(requested c = Some v \<and> step sd K (fmg, h) c = Inr (g1, k1)
       \<and> run sd K (g1, k1) es = Inr (g2, k2)
       \<and> requested c' = Some v' \<and> (v' \<noteq> v \<or> sub_of c' = sub_of c) \<longrightarrow>
       step sd K (g2, k2) c' =
         Inl (AssertFailed
               (if v' \<noteq> general_eq then ''m_coeff.eq_type == invalid_eq''
                else if v \<noteq> general_eq then tag_assert
                else flag_assert (sub_of c'))))"
  proof
    assume a: "requested c = Some v \<and> step sd K (fmg, h) c = Inr (g1, k1)
       \<and> run sd K (g1, k1) es = Inr (g2, k2)
       \<and> requested c' = Some v' \<and> (v' \<noteq> v \<or> sub_of c' = sub_of c)"
    then have a1: "requested c = Some v" and a2: "step sd K (fmg, h) c = Inr (g1, k1)"
      and a3: "run sd K (g1, k1) es = Inr (g2, k2)" and a4: "requested c' = Some v'"
      and a5: "v' \<noteq> v \<or> sub_of c' = sub_of c" by blast+
    from setter_post[OF a1 a2 inv]
    have e1: "eq_type (m_coeff g1) = v"
      and e2: "sub_of c \<noteq> No_sub \<longrightarrow> sub_set (sub_of c) (m_coeff g1)" by blast+
    from step_coeff_consistent[OF a2 inv] have i1: "coeff_consistent (m_coeff g1)" .
    from run_coeff_consistent[OF a3 i1] have i2: "coeff_consistent (m_coeff g2)" .
    from run_coeff_monotone[OF a3] e1 req_valid[OF a1]
    have e3: "eq_type (m_coeff g2) = v" by simp
    from e2 sub_mono[OF a3]
    have e4: "sub_of c \<noteq> No_sub \<longrightarrow> sub_set (sub_of c) (m_coeff g2)" by blast
    from later_setter_fails[OF i2 refl a1 a4 e3 e4 a5]
    show "step sd K (g2, k2) c' =
         Inl (AssertFailed
               (if v' \<noteq> general_eq then ''m_coeff.eq_type == invalid_eq''
                else if v \<noteq> general_eq then tag_assert
                else flag_assert (sub_of c')))" .
  qed
  show ?thesis by (intro conjI g t s1 s2 s3 s4 p1 p2 q1 q2 q3)
qed

text \<open>
  On the one-level instance: \<open>set_alpha\<close> after \<open>set_alpha\<close> and \<open>set_beta\<close>; \<open>set_beta\<close>
  twice; \<open>set_bcoef\<close> in two overloads; \<open>set_gravity_coeffs\<close> after \<open>set_bcoef\<close>;
  \<open>set_alpha\<close> after \<open>set_const_gravity_coeffs\<close> and \<open>set_bc\<close>; \<open>set_acoef\<close> twice. On
  the two-level instance: \<open>set_acoef\<close> on an array of two fields, twice.
\<close>

theorem coefficient_setters_guarded_witness:
  "FMultiGrid_vector 2 [\<lparr>CellSize = [d_tenth, d_tenth]\<rparr>] 0 [0, 0] = Inr example_root
 \<and> run 2 example_kernel (example_root, example_heap) example_calls
      = Inr (example_configured, example_heap)
 \<and> eq_type (m_coeff example_configured) = const_gravity_eq
 \<and> set_alpha example_configured d_one = Inl (AssertFailed tag_assert)
 \<and> set_const_gravity_coeffs example_configured
      = Inl (AssertFailed ''m_coeff.eq_type == invalid_eq'')
 \<and> set_bcoef 2 example_configured [5, 6] = Inl (AssertFailed tag_assert)
 \<and> step 2 example_kernel (example_root, example_heap) (Call_set_alpha d_one)
      = Inr (example_with_alpha, example_heap)
 \<and> eq_type (m_coeff example_with_alpha) = general_eq
 \<and> alpha_set (m_coeff example_with_alpha)
 \<and> \<not> beta_set (m_coeff example_with_alpha)
 \<and> run 2 example_kernel (example_with_alpha, example_heap) [Call_set_beta d_two]
      = Inr (example_with_alpha_beta, example_heap)
 \<and> step 2 example_kernel (example_with_alpha_beta, example_heap) (Call_set_alpha d_two)
      = Inl (AssertFailed ''!m_coeff.alpha_set'')
 \<and> beta_set (m_coeff example_with_alpha_beta)
 \<and> step 2 example_kernel (example_with_alpha_beta, example_heap) (Call_set_beta d_one)
      = Inl (AssertFailed ''!m_coeff.beta_set'')
 \<and> step 2 example_kernel (example_root, example_heap) (Call_set_bcoef [5, 6])
      = Inr (example_with_bcoef, example_heap)
 \<and> b_set (m_coeff example_with_bcoef)
 \<and> step 2 example_kernel (example_with_bcoef, example_heap) (Call_set_bcoef_ptr 5)
      = Inl (AssertFailed ''!m_coeff.b_set'')
 \<and> step 2 example_kernel (example_with_bcoef, example_heap) (Call_set_gravity_coeffs [5, 6])
      = Inl (AssertFailed ''m_coeff.eq_type == invalid_eq'')
 \<and> FMultiGrid_vector 2 [\<lparr>CellSize = [d_tenth, d_tenth]\<rparr>,
                         \<lparr>CellSize = [d_twentieth, d_twentieth]\<rparr>] 0 [0, 0]
      = Inr example_two_level
 \<and> m_nlevels example_two_level = 2
 \<and> step 2 example_kernel (example_two_level, example_heap) (Call_set_acoef_lev [7, 8])
      = Inr (example_two_level_acoef, example_heap)
 \<and> a_set (m_coeff example_two_level_acoef)
 \<and> step 2 example_kernel (example_two_level_acoef, example_heap) (Call_set_acoef_lev [8, 7])
      = Inl (AssertFailed ''!m_coeff.a_set'')
 \<and> is_assert_failure
      (step 2 example_kernel (example_two_level_acoef, example_heap) (Call_set_acoef_lev [8, 7]))
 \<and> step 2 example_kernel (example_root, example_heap) Call_set_const_gravity_coeffs
      = Inr (example_const_gravity, example_heap)
 \<and> run 2 example_kernel (example_const_gravity, example_heap) [Call_set_bc [0, 0, 0, 0]]
      = Inr (example_const_gravity\<lparr>m_bc := Boundary_ctor [0, 0, 0, 0] None None\<rparr>, example_heap)
 \<and> step 2 example_kernel
      (example_const_gravity\<lparr>m_bc := Boundary_ctor [0, 0, 0, 0] None None\<rparr>, example_heap)
      (Call_set_alpha d_one) = Inl (AssertFailed tag_assert)
 \<and> set_acoef example_root 7 = Inr example_with_acoef
 \<and> set_acoef example_with_acoef 8 = Inl (AssertFailed ''!m_coeff.a_set'')"
proof -
  note c = example_root_eval
  note c2 = example_two_level_eval
  note st = example_setter_steps
  note rn = example_setter_runs
  let ?K = example_kernel
  let ?h = example_heap
  let ?b = "example_const_gravity\<lparr>m_bc := Boundary_ctor [0, 0, 0, 0] None None\<rparr>"
  have r0: "run 2 ?K (example_root, ?h) [] = Inr (example_root, ?h)" by simp
  have r2: "run 2 ?K (example_two_level, ?h) [] = Inr (example_two_level, ?h)" by simp
  have e: "eq_type (m_coeff example_configured) = const_gravity_eq"
    "eq_type (m_coeff example_configured) \<noteq> invalid_eq
       \<and> eq_type (m_coeff example_configured) \<noteq> general_eq"
    "eq_type (m_coeff example_configured) \<noteq> invalid_eq \<or> b_set (m_coeff example_configured)"
    by (simp_all add: example_configured_fields)
  have fl: "eq_type (m_coeff example_with_alpha) = general_eq"
    "alpha_set (m_coeff example_with_alpha)"
    "\<not> beta_set (m_coeff example_with_alpha)"
    "beta_set (m_coeff example_with_alpha_beta)"
    "b_set (m_coeff example_with_bcoef)"
    "m_nlevels example_two_level = 2"
    "a_set (m_coeff example_two_level_acoef)"
    by (simp_all add: example_setter_defs)
  have rq: "requested (Call_set_alpha x) = Some general_eq"
    "requested (Call_set_beta x) = Some general_eq"
    "requested (Call_set_bcoef bs) = Some general_eq"
    "requested (Call_set_bcoef_ptr bp) = Some general_eq"
    "requested (Call_set_gravity_coeffs bs) = Some gravity_eq"
    "requested (Call_set_acoef_lev acs) = Some general_eq"
    "requested Call_set_const_gravity_coeffs = Some const_gravity_eq"
    for x bs bp acs by simp_all
  have sb: "gravity_eq \<noteq> general_eq \<or>
              sub_of (Call_set_gravity_coeffs [5, 6]) = sub_of (Call_set_bcoef [5, 6])"
    "general_eq \<noteq> const_gravity_eq \<or>
              sub_of (Call_set_alpha d_one) = sub_of Call_set_const_gravity_coeffs"
    "general_eq \<noteq> general_eq \<or> sub_of (Call_set_alpha d_two) = sub_of (Call_set_alpha d_one)"
    "general_eq \<noteq> general_eq \<or> sub_of (Call_set_beta d_one) = sub_of (Call_set_beta d_two)"
    "general_eq \<noteq> general_eq \<or> sub_of (Call_set_bcoef_ptr 5) = sub_of (Call_set_bcoef [5, 6])"
    "general_eq \<noteq> general_eq \<or>
       sub_of (Call_set_acoef_lev [8, 7]) = sub_of (Call_set_acoef_lev [7, 8])"
    by simp_all
  have a: "set_acoef example_root 7 = Inr example_with_acoef"
    by (simp add: example_setter_defs)
  have ra: "run 2 ?K (example_with_acoef, ?h) [] = Inr (example_with_acoef, ?h)" by simp
  have rb: "run 2 ?K (example_with_alpha_beta, ?h) [] = Inr (example_with_alpha_beta, ?h)"
    "run 2 ?K (example_with_bcoef, ?h) [] = Inr (example_with_bcoef, ?h)"
    "run 2 ?K (example_two_level_acoef, ?h) [] = Inr (example_two_level_acoef, ?h)"
    by simp_all
  have ng: "\<not> ((eq_type (m_coeff example_two_level_acoef) = invalid_eq
                 \<or> eq_type (m_coeff example_two_level_acoef) = general_eq)
              \<and> \<not> sub_set (sub_of (Call_set_acoef_lev [8, 7])) (m_coeff example_two_level_acoef))"
    by (simp add: example_setter_defs)
  have r2a: "run 2 ?K (example_two_level, ?h) [Call_set_acoef_lev [7, 8]]
      = Inr (example_two_level_acoef, ?h)"
    using st(5) by (simp del: step.simps)
  note t1 = coefficient_setters_guarded[OF c example_configured_eval, where al = d_one
              and bs = "[5, 6]"]
  note t3 = coefficient_setters_guarded[OF c r0, where ?f1.0 = example_with_acoef and ds = "[]"
              and ?f2.0 = example_with_acoef and ?h2.0 = example_heap and ac = 7 and ac' = 8]
  note u1 = coefficient_setters_guarded[OF c r0, where c = "Call_set_alpha d_one"
              and v = general_eq and ?g1.0 = example_with_alpha and ?k1.0 = example_heap
              and es = "[Call_set_beta d_two]" and ?g2.0 = example_with_alpha_beta
              and ?k2.0 = example_heap and c' = "Call_set_alpha d_two" and v' = general_eq,
              THEN conjunct2, THEN conjunct2, THEN conjunct2, THEN conjunct2, THEN conjunct2, THEN conjunct2, THEN conjunct2, THEN conjunct2, THEN conjunct2, THEN conjunct2, THEN mp]
  note u2 = coefficient_setters_guarded[OF c rn(1), where c = "Call_set_beta d_two"
              and v = general_eq and ?g1.0 = example_with_alpha_beta and ?k1.0 = example_heap
              and es = "[]" and ?g2.0 = example_with_alpha_beta
              and ?k2.0 = example_heap and c' = "Call_set_beta d_one" and v' = general_eq,
              THEN conjunct2, THEN conjunct2, THEN conjunct2, THEN conjunct2, THEN conjunct2, THEN conjunct2, THEN conjunct2, THEN conjunct2, THEN conjunct2, THEN conjunct2, THEN mp]
  note u3 = coefficient_setters_guarded[OF c r0, where c = "Call_set_bcoef [5, 6]"
              and v = general_eq and ?g1.0 = example_with_bcoef and ?k1.0 = example_heap
              and es = "[]" and ?g2.0 = example_with_bcoef
              and ?k2.0 = example_heap and c' = "Call_set_bcoef_ptr 5" and v' = general_eq,
              THEN conjunct2, THEN conjunct2, THEN conjunct2, THEN conjunct2, THEN conjunct2, THEN conjunct2, THEN conjunct2, THEN conjunct2, THEN conjunct2, THEN conjunct2, THEN mp]
  note u4 = coefficient_setters_guarded[OF c r0, where c = "Call_set_bcoef [5, 6]"
              and v = general_eq and ?g1.0 = example_with_bcoef and ?k1.0 = example_heap
              and es = "[]" and ?g2.0 = example_with_bcoef
              and ?k2.0 = example_heap and c' = "Call_set_gravity_coeffs [5, 6]"
              and v' = gravity_eq,
              THEN conjunct2, THEN conjunct2, THEN conjunct2, THEN conjunct2, THEN conjunct2, THEN conjunct2, THEN conjunct2, THEN conjunct2, THEN conjunct2, THEN conjunct2, THEN mp]
  note u5 = coefficient_setters_guarded[OF c2 r2, where c = "Call_set_acoef_lev [7, 8]"
              and v = general_eq and ?g1.0 = example_two_level_acoef and ?k1.0 = example_heap
              and es = "[]" and ?g2.0 = example_two_level_acoef
              and ?k2.0 = example_heap and c' = "Call_set_acoef_lev [8, 7]" and v' = general_eq,
              THEN conjunct2, THEN conjunct2, THEN conjunct2, THEN conjunct2, THEN conjunct2, THEN conjunct2, THEN conjunct2, THEN conjunct2, THEN conjunct2, THEN conjunct2, THEN mp]
  note u6 = coefficient_setters_guarded[OF c2 r2a, where c = "Call_set_acoef_lev [8, 7]"
              and v = general_eq,
              THEN conjunct2, THEN conjunct2, THEN conjunct2, THEN conjunct2, THEN conjunct2, THEN conjunct2, THEN conjunct2, THEN conjunct2, THEN conjunct1, THEN mp]
  note u7 = coefficient_setters_guarded[OF c r0, where c = Call_set_const_gravity_coeffs
              and v = const_gravity_eq and ?g1.0 = example_const_gravity
              and ?k1.0 = example_heap and es = "[Call_set_bc [0, 0, 0, 0]]" and ?g2.0 = ?b
              and ?k2.0 = example_heap and c' = "Call_set_alpha d_one" and v' = general_eq,
              THEN conjunct2, THEN conjunct2, THEN conjunct2, THEN conjunct2, THEN conjunct2, THEN conjunct2, THEN conjunct2, THEN conjunct2, THEN conjunct2, THEN conjunct2, THEN mp]
  from t1 e(2) have c1: "set_alpha example_configured d_one = Inl (AssertFailed tag_assert)"
    and c3: "set_bcoef 2 example_configured [5, 6] = Inl (AssertFailed tag_assert)"
    by blast+
  from t1 e(3) have c2': "set_const_gravity_coeffs example_configured
      = Inl (AssertFailed ''m_coeff.eq_type == invalid_eq'')" by blast
  from t3 a ra have c5: "set_acoef example_with_acoef 8 = Inl (AssertFailed ''!m_coeff.a_set'')"
    by blast
  have "step 2 ?K (example_with_alpha_beta, ?h) (Call_set_alpha d_two) =
         Inl (AssertFailed
               (if general_eq \<noteq> general_eq then ''m_coeff.eq_type == invalid_eq''
                else if general_eq \<noteq> general_eq then tag_assert
                else flag_assert (sub_of (Call_set_alpha d_two))))"
    by (rule u1) (intro conjI rq(1) st(1) rn(2) sb(3))
  then have d1: "step 2 ?K (example_with_alpha_beta, ?h) (Call_set_alpha d_two)
      = Inl (AssertFailed ''!m_coeff.alpha_set'')" by (simp del: step.simps)
  have "step 2 ?K (example_with_alpha_beta, ?h) (Call_set_beta d_one) =
         Inl (AssertFailed
               (if general_eq \<noteq> general_eq then ''m_coeff.eq_type == invalid_eq''
                else if general_eq \<noteq> general_eq then tag_assert
                else flag_assert (sub_of (Call_set_beta d_one))))"
    by (rule u2) (intro conjI rq(2) st(2) rb(1) sb(4))
  then have d2: "step 2 ?K (example_with_alpha_beta, ?h) (Call_set_beta d_one)
      = Inl (AssertFailed ''!m_coeff.beta_set'')" by (simp del: step.simps)
  have "step 2 ?K (example_with_bcoef, ?h) (Call_set_bcoef_ptr 5) =
         Inl (AssertFailed
               (if general_eq \<noteq> general_eq then ''m_coeff.eq_type == invalid_eq''
                else if general_eq \<noteq> general_eq then tag_assert
                else flag_assert (sub_of (Call_set_bcoef_ptr 5))))"
    by (rule u3) (intro conjI rq(3) rq(4) st(3) rb(2) sb(5))
  then have d3: "step 2 ?K (example_with_bcoef, ?h) (Call_set_bcoef_ptr 5)
      = Inl (AssertFailed ''!m_coeff.b_set'')" by (simp del: step.simps)
  have "step 2 ?K (example_with_bcoef, ?h) (Call_set_gravity_coeffs [5, 6]) =
         Inl (AssertFailed
               (if gravity_eq \<noteq> general_eq then ''m_coeff.eq_type == invalid_eq''
                else if general_eq \<noteq> general_eq then tag_assert
                else flag_assert (sub_of (Call_set_gravity_coeffs [5, 6]))))"
    by (rule u4) (intro conjI rq(3) rq(5) st(3) rb(2) sb(1))
  then have d4: "step 2 ?K (example_with_bcoef, ?h) (Call_set_gravity_coeffs [5, 6])
      = Inl (AssertFailed ''m_coeff.eq_type == invalid_eq'')" by (simp del: step.simps)
  have "step 2 ?K (example_two_level_acoef, ?h) (Call_set_acoef_lev [8, 7]) =
         Inl (AssertFailed
               (if general_eq \<noteq> general_eq then ''m_coeff.eq_type == invalid_eq''
                else if general_eq \<noteq> general_eq then tag_assert
                else flag_assert (sub_of (Call_set_acoef_lev [8, 7]))))"
    by (rule u5) (intro conjI rq(6) st(5) rb(3) sb(6))
  then have d5: "step 2 ?K (example_two_level_acoef, ?h) (Call_set_acoef_lev [8, 7])
      = Inl (AssertFailed ''!m_coeff.a_set'')" by (simp del: step.simps)
  have d6: "is_assert_failure
      (step 2 ?K (example_two_level_acoef, ?h) (Call_set_acoef_lev [8, 7]))"
    by (rule u6) (intro conjI rq(6) ng)
  have "step 2 ?K (?b, ?h) (Call_set_alpha d_one) =
         Inl (AssertFailed
               (if general_eq \<noteq> general_eq then ''m_coeff.eq_type == invalid_eq''
                else if const_gravity_eq \<noteq> general_eq then tag_assert
                else flag_assert (sub_of (Call_set_alpha d_one))))"
    by (rule u7) (intro conjI rq(7) rq(1) st(6) rn(3) sb(2))
  then have d7: "step 2 ?K (?b, ?h) (Call_set_alpha d_one) = Inl (AssertFailed tag_assert)"
    by (simp del: step.simps)
  show ?thesis
    by (intro conjI c example_configured_eval e(1) c1 c2' c3 st(1) fl(1) fl(2) fl(3) rn(2) d1
          fl(4) d2 st(3) fl(5) d3 d4 c2 fl(6) st(5) fl(7) d5 d6 st(6) rn(3) d7 a c5)
qed

subsection \<open>The solver handle\<close>

text \<open>
  Claim C8. For an object built by a constructor and a sequence of public calls that runs
  through: the handle is null at construction; it exists afterwards exactly when the
  sequence holds a \<open>solve\<close> or \<open>compute_residual\<close> call, and the sequence holds at most
  one; such a call succeeds only with the boundary set, the variant not \<open>invalid_eq\<close> and
  no handle, and leaves a handle; no other call touches the handle, and a handle that
  exists is never replaced; with a handle, every \<open>solve\<close> and \<open>compute_residual\<close> overload
  fails at the assertion \<open>m_mgt_solver == 0\<close>.
\<close>

theorem solver_handle_lifecycle:
  assumes "FMultiGrid_vector sd gs B r = Inr fmg0" and "run sd K (fmg0, h0) cs = Inr (fmg, h)"
  shows
   "m_mgt_solver fmg0 = None
  \<and> length (filter is_solve cs) \<le> 1
  \<and> (m_mgt_solver fmg \<noteq> None) = list_ex is_solve cs
  \<and> (is_solve c \<and> step sd K (fmg, h) c = Inr (fmg', h') \<longrightarrow>
       initilized (m_bc fmg) \<and> eq_type (m_coeff fmg) \<noteq> invalid_eq
     \<and> m_mgt_solver fmg = None \<and> m_mgt_solver fmg' \<noteq> None)
  \<and> (\<not> is_solve c \<and> step sd K (fmg, h) c = Inr (fmg', h') \<longrightarrow>
       m_mgt_solver fmg' = m_mgt_solver fmg)
  \<and> (m_mgt_solver fmg \<noteq> None \<and> step sd K (fmg, h) c = Inr (fmg', h') \<longrightarrow>
       m_mgt_solver fmg' = m_mgt_solver fmg)
  \<and> (m_mgt_solver fmg \<noteq> None \<longrightarrow>
       solve sd K fmg h phi rhs rt atl ub ng vb = Inl (AssertFailed ''m_mgt_solver == 0'')
     \<and> solve_MultiFab sd K fmg h p1 r1 rt atl ub ng vb = Inl (AssertFailed ''m_mgt_solver == 0'')
     \<and> compute_residual sd K fmg h phi rhs res = Inl (AssertFailed ''m_mgt_solver == 0'')
     \<and> compute_residual_MultiFab sd K fmg h p1 r1 e1
         = Inl (AssertFailed ''m_mgt_solver == 0''))
  \<and> (\<not> initilized (m_bc fmg) \<longrightarrow>
       solve sd K fmg h phi rhs rt atl ub ng vb = Inl (AssertFailed ''m_bc.initilized'')
     \<and> compute_residual sd K fmg h phi rhs res = Inl (AssertFailed ''m_bc.initilized''))
  \<and> (initilized (m_bc fmg) \<and> eq_type (m_coeff fmg) = invalid_eq \<longrightarrow>
       solve sd K fmg h phi rhs rt atl ub ng vb
         = Inl (AssertFailed ''m_coeff.eq_type != invalid_eq'')
     \<and> compute_residual sd K fmg h phi rhs res
         = Inl (AssertFailed ''m_coeff.eq_type != invalid_eq''))"
proof -
  from ctor_fresh(2)[OF assms(1)] have n0: "m_mgt_solver fmg0 = None" by simp
  have once: "length (filter is_solve cs) \<le> 1" by (rule run_solve_once[OF assms(2)])
  have iff: "(m_mgt_solver fmg \<noteq> None) = list_ex is_solve cs"
  proof (cases "list_ex is_solve cs")
    case True
    from run_solve_sets[OF assms(2) True] True show ?thesis by simp
  next
    case False
    from run_non_solve[OF assms(2) False] n0 False show ?thesis by simp
  qed
  have sol: "is_solve c \<and> step sd K (fmg, h) c = Inr (fmg', h') \<longrightarrow>
       initilized (m_bc fmg) \<and> eq_type (m_coeff fmg) \<noteq> invalid_eq
     \<and> m_mgt_solver fmg = None \<and> m_mgt_solver fmg' \<noteq> None"
  proof
    assume a: "is_solve c \<and> step sd K (fmg, h) c = Inr (fmg', h')"
    then have "step sd K (fmg, h) c = Inr (fmg', h')" and "is_solve c" by simp_all
    from step_solve[OF this] show "initilized (m_bc fmg) \<and> eq_type (m_coeff fmg) \<noteq> invalid_eq
     \<and> m_mgt_solver fmg = None \<and> m_mgt_solver fmg' \<noteq> None" by auto
  qed
  have non: "\<not> is_solve c \<and> step sd K (fmg, h) c = Inr (fmg', h') \<longrightarrow>
       m_mgt_solver fmg' = m_mgt_solver fmg"
  proof
    assume a: "\<not> is_solve c \<and> step sd K (fmg, h) c = Inr (fmg', h')"
    then have "step sd K (fmg, h) c = Inr (fmg', h')" and "\<not> is_solve c" by simp_all
    from step_non_solve[OF this] show "m_mgt_solver fmg' = m_mgt_solver fmg" by simp
  qed
  have kept: "m_mgt_solver fmg \<noteq> None \<and> step sd K (fmg, h) c = Inr (fmg', h') \<longrightarrow>
       m_mgt_solver fmg' = m_mgt_solver fmg"
  proof
    assume a: "m_mgt_solver fmg \<noteq> None \<and> step sd K (fmg, h) c = Inr (fmg', h')"
    then obtain s where s: "m_mgt_solver fmg = Some s" by auto
    from a have "step sd K (fmg, h) c = Inr (fmg', h')" by simp
    from step_handle_kept[OF this s] s show "m_mgt_solver fmg' = m_mgt_solver fmg" by simp
  qed
  from n0 have "m_mgt_solver fmg0 \<noteq> None \<longrightarrow> configured fmg0" by simp
  from run_handle_configured[OF assms(2) this]
  have conf: "m_mgt_solver fmg \<noteq> None \<Longrightarrow> configured fmg" by simp
  have again: "m_mgt_solver fmg \<noteq> None \<longrightarrow>
       solve sd K fmg h phi rhs rt atl ub ng vb = Inl (AssertFailed ''m_mgt_solver == 0'')
     \<and> solve_MultiFab sd K fmg h p1 r1 rt atl ub ng vb = Inl (AssertFailed ''m_mgt_solver == 0'')
     \<and> compute_residual sd K fmg h phi rhs res = Inl (AssertFailed ''m_mgt_solver == 0'')
     \<and> compute_residual_MultiFab sd K fmg h p1 r1 e1
         = Inl (AssertFailed ''m_mgt_solver == 0'')"
  proof
    assume a: "m_mgt_solver fmg \<noteq> None"
    from second_solve_fails[OF a conf[OF a]]
    show "solve sd K fmg h phi rhs rt atl ub ng vb = Inl (AssertFailed ''m_mgt_solver == 0'')
     \<and> solve_MultiFab sd K fmg h p1 r1 rt atl ub ng vb = Inl (AssertFailed ''m_mgt_solver == 0'')
     \<and> compute_residual sd K fmg h phi rhs res = Inl (AssertFailed ''m_mgt_solver == 0'')
     \<and> compute_residual_MultiFab sd K fmg h p1 r1 e1
         = Inl (AssertFailed ''m_mgt_solver == 0'')"
      by (intro conjI)
  qed
  have pre1: "\<not> initilized (m_bc fmg) \<longrightarrow>
       solve sd K fmg h phi rhs rt atl ub ng vb = Inl (AssertFailed ''m_bc.initilized'')
     \<and> compute_residual sd K fmg h phi rhs res = Inl (AssertFailed ''m_bc.initilized'')"
    by (simp add: solve_def compute_residual_def)
  have pre2: "initilized (m_bc fmg) \<and> eq_type (m_coeff fmg) = invalid_eq \<longrightarrow>
       solve sd K fmg h phi rhs rt atl ub ng vb
         = Inl (AssertFailed ''m_coeff.eq_type != invalid_eq'')
     \<and> compute_residual sd K fmg h phi rhs res
         = Inl (AssertFailed ''m_coeff.eq_type != invalid_eq'')"
    by (simp add: solve_def compute_residual_def)
  show ?thesis
    by (intro conjI n0 once iff sol non kept again pre1 pre2)
qed

theorem solver_handle_lifecycle_witness:
  "FMultiGrid_vector 2 [\<lparr>CellSize = [d_tenth, d_tenth]\<rparr>] 0 [0, 0] = Inr example_root
 \<and> run 2 example_kernel (example_root, example_heap) example_calls
      = Inr (example_configured, example_heap)
 \<and> is_solve example_solve
 \<and> step 2 example_kernel (example_configured, example_heap) example_solve
      = Inr (example_solved, example_heap)
 \<and> m_mgt_solver example_configured = None \<and> m_mgt_solver example_solved \<noteq> None
 \<and> run 2 example_kernel (example_root, example_heap) (example_calls @ [example_solve])
      = Inr (example_solved, example_heap)
 \<and> list_ex is_solve (example_calls @ [example_solve])
 \<and> solve 2 example_kernel example_solved example_heap [1] [2] d_tol d_zero 0 0 0
      = Inl (AssertFailed ''m_mgt_solver == 0'')
 \<and> compute_residual_MultiFab 2 example_kernel example_solved example_heap 1 2 3
      = Inl (AssertFailed ''m_mgt_solver == 0'')"
proof -
  have s: "is_solve example_solve" by (simp add: example_solve_def)
  from solver_handle_lifecycle[OF example_root_eval example_configured_eval,
         where c = example_solve and fmg' = example_solved and h' = example_heap]
       solver_handle_lifecycle[OF example_root_eval example_run_solved,
         where phi = "[1]" and rhs = "[2]" and rt = d_tol and atl = d_zero and ub = 0 and ng = 0
           and vb = 0 and ?p1.0 = 1 and ?r1.0 = 2 and ?e1.0 = 3]
       example_root_eval example_configured_eval example_run_solved example_solved_eval s
  show ?thesis by simp
qed

subsection \<open>Level counts\<close>

lemma get_grad_phi_loop_ok:
  assumes "m_mgt_solver fmg = Some s" and "\<forall>l\<in>set ls. l < length gl"
  shows "\<not> isl (get_grad_phi_loop K fmg gl ls h)"
  using assms by (induction ls arbitrary: h) (simp_all add: Let_def)

lemma get_grad_phi_loop_calls:
  assumes "m_mgt_solver fmg = Some s" and "\<forall>l\<in>set ls. l < length gl"
  shows "get_grad_phi_loop K fmg gl ls h =
           Inr (fold (\<lambda>ilev hh. k_get_fluxes K s hh ilev (gl ! ilev) (CellSize (m_geom fmg ! ilev)))
                  ls h)"
  using assms by (induction ls arbitrary: h) (simp_all add: Let_def)

lemma example_get_grad_phi:
  "get_grad_phi_Array example_kernel example_solved example_heap [[10, 11], [12, 13]]
     = Inr example_marked"
  "get_grad_phi_PArray example_kernel example_solved example_heap [[10, 11], [12, 13]]
     = Inr example_marked"
  "get_grad_phi_Array example_kernel example_solved example_heap [[10, 11]]
     = Inr example_marked"
  by (simp_all add: example_solved_fields example_configured_fields
        example_root_fields get_grad_phi_Array_def get_grad_phi_PArray_def
        example_kernel_def example_marked_def example_heap_def upt2 Let_def)

text \<open>
  Claim C9, as amended. With a level count other than 1, the four single-level setters
  and the single-level \<open>get_grad_phi\<close> fail at an assertion (at \<open>m_nlevels == 1\<close> itself on
  a fresh coefficient descriptor). The multi-level setters fail at an assertion when the
  size of their array differs from \<open>m_nlevels\<close>. The multi-level \<open>get_grad_phi\<close> overloads
  assert nothing about the size: with a handle and an array of at least \<open>m_nlevels\<close>
  entries they go through, and what they do is one \<open>get_fluxes\<close> call of the kernel for
  each level below \<open>m_nlevels\<close>, in order, on entry \<open>ilev\<close> of the array with the cell
  size of level \<open>ilev\<close>; the entries from \<open>m_nlevels\<close> on are not read, so the result is
  that on the first \<open>m_nlevels\<close> entries alone. The single-level overload, on one level,
  is the one \<open>get_fluxes\<close> call for level 0.
\<close>

theorem level_count_preconditions:
  "(m_nlevels fmg \<noteq> 1 \<longrightarrow>
      is_assert_failure (set_acoef fmg ac)
    \<and> is_assert_failure (set_bcoef_ptr sd fmg bp)
    \<and> is_assert_failure (set_bcoef sd fmg bs)
    \<and> is_assert_failure (set_gravity_coeffs sd fmg bs)
    \<and> get_grad_phi K fmg h g = Inl (AssertFailed ''m_nlevels == 1''))
 \<and> (m_nlevels fmg \<noteq> 1 \<and> m_coeff fmg = ABecCoeff_default \<longrightarrow>
      set_acoef fmg ac = Inl (AssertFailed ''m_nlevels == 1'')
    \<and> set_bcoef_ptr sd fmg bp = Inl (AssertFailed ''m_nlevels == 1'')
    \<and> set_bcoef sd fmg bs = Inl (AssertFailed ''m_nlevels == 1'')
    \<and> set_gravity_coeffs sd fmg bs = Inl (AssertFailed ''m_nlevels == 1''))
 \<and> (length bl \<noteq> m_nlevels fmg \<longrightarrow>
      is_assert_failure (set_gravity_coeffs_lev sd fmg bl)
    \<and> is_assert_failure (set_bcoef_lev sd fmg bl))
 \<and> (length al \<noteq> m_nlevels fmg \<longrightarrow> is_assert_failure (set_acoef_lev fmg al))
 \<and> (length bl \<noteq> m_nlevels fmg \<and> m_coeff fmg = ABecCoeff_default \<longrightarrow>
      set_gravity_coeffs_lev sd fmg bl = Inl (AssertFailed ''b.size() == m_nlevels'')
    \<and> set_bcoef_lev sd fmg bl = Inl (AssertFailed ''m_nlevels == b.size()''))
 \<and> (length al \<noteq> m_nlevels fmg \<and> m_coeff fmg = ABecCoeff_default \<longrightarrow>
      set_acoef_lev fmg al = Inl (AssertFailed ''m_nlevels == a.size()''))
 \<and> (m_mgt_solver fmg \<noteq> None \<and> m_nlevels fmg \<le> length gl \<longrightarrow>
      \<not> isl (get_grad_phi_Array K fmg h gl) \<and> \<not> isl (get_grad_phi_PArray K fmg h gl))
 \<and> (m_mgt_solver fmg = Some s \<and> m_nlevels fmg \<le> length gl \<longrightarrow>
      get_grad_phi_Array K fmg h gl =
        Inr (fold (\<lambda>ilev hh. k_get_fluxes K s hh ilev (gl ! ilev) (CellSize (m_geom fmg ! ilev)))
               [0..<m_nlevels fmg] h)
    \<and> get_grad_phi_PArray K fmg h gl =
        Inr (fold (\<lambda>ilev hh. k_get_fluxes K s hh ilev (gl ! ilev) (CellSize (m_geom fmg ! ilev)))
               [0..<m_nlevels fmg] h)
    \<and> get_grad_phi_Array K fmg h gl = get_grad_phi_Array K fmg h (take (m_nlevels fmg) gl)
    \<and> get_grad_phi_PArray K fmg h gl = get_grad_phi_PArray K fmg h (take (m_nlevels fmg) gl))
 \<and> (m_mgt_solver fmg = Some s \<and> m_nlevels fmg = 1 \<longrightarrow>
      get_grad_phi K fmg h g = Inr (k_get_fluxes K s h 0 g (CellSize (m_geom fmg ! 0))))"
proof -
  have g: "m_mgt_solver fmg \<noteq> None \<and> m_nlevels fmg \<le> length gl \<longrightarrow>
      \<not> isl (get_grad_phi_Array K fmg h gl) \<and> \<not> isl (get_grad_phi_PArray K fmg h gl)"
  proof
    assume a: "m_mgt_solver fmg \<noteq> None \<and> m_nlevels fmg \<le> length gl"
    then obtain s where s: "m_mgt_solver fmg = Some s" by auto
    from a have "\<forall>l\<in>set [0..<m_nlevels fmg]. l < length gl" by auto
    from get_grad_phi_loop_ok[OF s this]
    show "\<not> isl (get_grad_phi_Array K fmg h gl) \<and> \<not> isl (get_grad_phi_PArray K fmg h gl)"
      by (simp add: get_grad_phi_Array_def get_grad_phi_PArray_def)
  qed
  have f: "m_mgt_solver fmg = Some s \<and> m_nlevels fmg \<le> length gl \<longrightarrow>
      get_grad_phi_Array K fmg h gl =
        Inr (fold (\<lambda>ilev hh. k_get_fluxes K s hh ilev (gl ! ilev) (CellSize (m_geom fmg ! ilev)))
               [0..<m_nlevels fmg] h)
    \<and> get_grad_phi_PArray K fmg h gl =
        Inr (fold (\<lambda>ilev hh. k_get_fluxes K s hh ilev (gl ! ilev) (CellSize (m_geom fmg ! ilev)))
               [0..<m_nlevels fmg] h)
    \<and> get_grad_phi_Array K fmg h gl = get_grad_phi_Array K fmg h (take (m_nlevels fmg) gl)
    \<and> get_grad_phi_PArray K fmg h gl = get_grad_phi_PArray K fmg h (take (m_nlevels fmg) gl)"
  proof
    assume a: "m_mgt_solver fmg = Some s \<and> m_nlevels fmg \<le> length gl"
    then have s: "m_mgt_solver fmg = Some s" and n: "m_nlevels fmg \<le> length gl" by simp_all
    from n have r1: "\<forall>l\<in>set [0..<m_nlevels fmg]. l < length gl" by auto
    from n have r2: "\<forall>l\<in>set [0..<m_nlevels fmg]. l < length (take (m_nlevels fmg) gl)" by auto
    have eq: "fold (\<lambda>ilev hh. k_get_fluxes K s hh ilev (take (m_nlevels fmg) gl ! ilev)
                  (CellSize (m_geom fmg ! ilev))) [0..<m_nlevels fmg] h
            = fold (\<lambda>ilev hh. k_get_fluxes K s hh ilev (gl ! ilev)
                  (CellSize (m_geom fmg ! ilev))) [0..<m_nlevels fmg] h"
      by (rule fold_cong) auto
    from get_grad_phi_loop_calls[OF s r1, of K h] get_grad_phi_loop_calls[OF s r2, of K h] eq
    show "get_grad_phi_Array K fmg h gl =
        Inr (fold (\<lambda>ilev hh. k_get_fluxes K s hh ilev (gl ! ilev) (CellSize (m_geom fmg ! ilev)))
               [0..<m_nlevels fmg] h)
    \<and> get_grad_phi_PArray K fmg h gl =
        Inr (fold (\<lambda>ilev hh. k_get_fluxes K s hh ilev (gl ! ilev) (CellSize (m_geom fmg ! ilev)))
               [0..<m_nlevels fmg] h)
    \<and> get_grad_phi_Array K fmg h gl = get_grad_phi_Array K fmg h (take (m_nlevels fmg) gl)
    \<and> get_grad_phi_PArray K fmg h gl = get_grad_phi_PArray K fmg h (take (m_nlevels fmg) gl)"
      by (simp add: get_grad_phi_Array_def get_grad_phi_PArray_def)
  qed
  have one: "m_mgt_solver fmg = Some s \<and> m_nlevels fmg = 1 \<longrightarrow>
      get_grad_phi K fmg h g = Inr (k_get_fluxes K s h 0 g (CellSize (m_geom fmg ! 0)))"
    by (simp add: get_grad_phi_def)
  have a: "m_nlevels fmg \<noteq> 1 \<longrightarrow>
      is_assert_failure (set_acoef fmg ac)
    \<and> is_assert_failure (set_bcoef_ptr sd fmg bp)
    \<and> is_assert_failure (set_bcoef sd fmg bs)
    \<and> is_assert_failure (set_gravity_coeffs sd fmg bs)
    \<and> get_grad_phi K fmg h g = Inl (AssertFailed ''m_nlevels == 1'')"
    by (simp add: set_acoef_def set_bcoef_ptr_def set_bcoef_def set_gravity_coeffs_def
          get_grad_phi_def)
  have b: "m_nlevels fmg \<noteq> 1 \<and> m_coeff fmg = ABecCoeff_default \<longrightarrow>
      set_acoef fmg ac = Inl (AssertFailed ''m_nlevels == 1'')
    \<and> set_bcoef_ptr sd fmg bp = Inl (AssertFailed ''m_nlevels == 1'')
    \<and> set_bcoef sd fmg bs = Inl (AssertFailed ''m_nlevels == 1'')
    \<and> set_gravity_coeffs sd fmg bs = Inl (AssertFailed ''m_nlevels == 1'')"
    by (simp add: set_acoef_def set_bcoef_ptr_def set_bcoef_def set_gravity_coeffs_def
          ABecCoeff_default_def)
  have c: "length bl \<noteq> m_nlevels fmg \<longrightarrow>
      is_assert_failure (set_gravity_coeffs_lev sd fmg bl)
    \<and> is_assert_failure (set_bcoef_lev sd fmg bl)"
    "length al \<noteq> m_nlevels fmg \<longrightarrow> is_assert_failure (set_acoef_lev fmg al)"
    by (auto simp: set_gravity_coeffs_lev_def set_bcoef_lev_def set_acoef_lev_def)
  have d: "length bl \<noteq> m_nlevels fmg \<and> m_coeff fmg = ABecCoeff_default \<longrightarrow>
      set_gravity_coeffs_lev sd fmg bl = Inl (AssertFailed ''b.size() == m_nlevels'')
    \<and> set_bcoef_lev sd fmg bl = Inl (AssertFailed ''m_nlevels == b.size()'')"
    "length al \<noteq> m_nlevels fmg \<and> m_coeff fmg = ABecCoeff_default \<longrightarrow>
      set_acoef_lev fmg al = Inl (AssertFailed ''m_nlevels == a.size()'')"
    by (auto simp: set_gravity_coeffs_lev_def set_bcoef_lev_def set_acoef_lev_def
          ABecCoeff_default_def)
  show ?thesis by (intro conjI a b c d g f one)
qed

theorem level_count_preconditions_witness:
  "m_nlevels example_two_level \<noteq> 1 \<and> m_coeff example_two_level = ABecCoeff_default
 \<and> set_acoef example_two_level 7 = Inl (AssertFailed ''m_nlevels == 1'')
 \<and> set_bcoef_ptr 2 example_two_level 5 = Inl (AssertFailed ''m_nlevels == 1'')
 \<and> set_bcoef 2 example_two_level [5, 6] = Inl (AssertFailed ''m_nlevels == 1'')
 \<and> set_gravity_coeffs 2 example_two_level [5, 6] = Inl (AssertFailed ''m_nlevels == 1'')
 \<and> get_grad_phi example_kernel example_two_level example_heap [10, 11]
      = Inl (AssertFailed ''m_nlevels == 1'')
 \<and> length [[5, 6 :: nat]] \<noteq> m_nlevels example_two_level
 \<and> set_gravity_coeffs_lev 2 example_two_level [[5, 6]]
      = Inl (AssertFailed ''b.size() == m_nlevels'')
 \<and> set_bcoef_lev 2 example_two_level [[5, 6]] = Inl (AssertFailed ''m_nlevels == b.size()'')
 \<and> length [7 :: nat] \<noteq> m_nlevels example_two_level
 \<and> set_acoef_lev example_two_level [7] = Inl (AssertFailed ''m_nlevels == a.size()'')
 \<and> m_mgt_solver example_solved \<noteq> None
 \<and> m_nlevels example_solved \<le> length [[10, 11], [12, 13 :: nat]]
 \<and> get_grad_phi_Array example_kernel example_solved example_heap [[10, 11], [12, 13]]
      = Inr example_marked
 \<and> get_grad_phi_Array example_kernel example_solved example_heap
      (take (m_nlevels example_solved) [[10, 11], [12, 13]]) = Inr example_marked
 \<and> example_marked 10 = example_fab\<lparr>fab_values := [d_tenth, d_tenth]\<rparr>
 \<and> example_marked 12 = example_fab"
proof -
  have n: "m_nlevels example_two_level \<noteq> 1" "m_coeff example_two_level = ABecCoeff_default"
    "length [[5, 6 :: nat]] \<noteq> m_nlevels example_two_level"
    "length [7 :: nat] \<noteq> m_nlevels example_two_level"
    by (simp_all add: example_two_level_fields)
  have m: "m_mgt_solver example_solved \<noteq> None"
    "m_nlevels example_solved \<le> length [[10, 11], [12, 13 :: nat]]"
    by (simp_all add: example_solved_facts)
  then obtain s where s: "m_mgt_solver example_solved = Some s" by auto
  have v: "example_marked 10 = example_fab\<lparr>fab_values := [d_tenth, d_tenth]\<rparr>"
    "example_marked 12 = example_fab"
    by (simp_all add: example_marked_def example_heap_def)
  note t = level_count_preconditions[where fmg = example_two_level and sd = 2 and ac = 7
      and bp = 5 and bs = "[5, 6]" and K = example_kernel and h = example_heap
      and g = "[10, 11]" and bl = "[[5, 6]]" and al = "[7]"]
  note u = level_count_preconditions[where fmg = example_solved and K = example_kernel
      and h = example_heap and gl = "[[10, 11], [12, 13]]" and s = s]
  from t n have c1: "set_acoef example_two_level 7 = Inl (AssertFailed ''m_nlevels == 1'')"
    and c2: "set_bcoef_ptr 2 example_two_level 5 = Inl (AssertFailed ''m_nlevels == 1'')"
    and c3: "set_bcoef 2 example_two_level [5, 6] = Inl (AssertFailed ''m_nlevels == 1'')"
    and c4: "set_gravity_coeffs 2 example_two_level [5, 6] = Inl (AssertFailed ''m_nlevels == 1'')"
    and c5: "get_grad_phi example_kernel example_two_level example_heap [10, 11]
      = Inl (AssertFailed ''m_nlevels == 1'')"
    and c6: "set_gravity_coeffs_lev 2 example_two_level [[5, 6]]
      = Inl (AssertFailed ''b.size() == m_nlevels'')"
    and c7: "set_bcoef_lev 2 example_two_level [[5, 6]] = Inl (AssertFailed ''m_nlevels == b.size()'')"
    and c8: "set_acoef_lev example_two_level [7] = Inl (AssertFailed ''m_nlevels == a.size()'')"
    by blast+
  from u s m(2) have "get_grad_phi_Array example_kernel example_solved example_heap
      [[10, 11], [12, 13]]
    = get_grad_phi_Array example_kernel example_solved example_heap
        (take (m_nlevels example_solved) [[10, 11], [12, 13]])" by blast
  with example_get_grad_phi(1)
  have c9: "get_grad_phi_Array example_kernel example_solved example_heap
      (take (m_nlevels example_solved) [[10, 11], [12, 13]]) = Inr example_marked" by simp
  show ?thesis
    by (intro conjI n(1) n(2) c1 c2 c3 c4 c5 n(3) c6 c7 n(4) c8 m example_get_grad_phi(1) c9 v)
qed

text \<open>
  The claim as stated has every multi-level overload require an array of exactly
  \<open>m_nlevels\<close> entries. After a \<open>solve\<close> on an instance with one level, both multi-level
  \<open>get_grad_phi\<close> overloads accept an array of two, and write the fields of its first
  entry only.
\<close>

theorem get_grad_phi_size_counterexample:
  "run 2 example_kernel (example_root, example_heap) (example_calls @ [example_solve])
     = Inr (example_solved, example_heap)
 \<and> m_nlevels example_solved = 1
 \<and> length [[10, 11], [12, 13 :: nat]] = 2
 \<and> get_grad_phi_Array example_kernel example_solved example_heap [[10, 11], [12, 13]]
     = Inr example_marked
 \<and> get_grad_phi_PArray example_kernel example_solved example_heap [[10, 11], [12, 13]]
     = Inr example_marked"
proof -
  have n: "m_nlevels example_solved = 1" "length [[10, 11], [12, 13 :: nat]] = 2"
    by (simp_all add: example_solved_facts)
  show ?thesis
    by (intro conjI example_run_solved n example_get_grad_phi(1) example_get_grad_phi(2))
qed

subsection \<open>Single-field overloads\<close>

text \<open>
  Claim C10. The single-field overloads of \<open>solve\<close> and \<open>compute_residual\<close> give the result
  of the multi-level overloads on the one-element arrays holding the same fields: the
  same failure or the same object, heap and residual norm.
\<close>

theorem single_field_overloads_wrap:
  "solve_MultiFab sd K fmg h phi rhs rt atl ub ng vb
     = solve sd K fmg h [phi] [rhs] rt atl ub ng vb
 \<and> compute_residual_MultiFab sd K fmg h phi rhs res
     = compute_residual sd K fmg h [phi] [rhs] [res]
 \<and> step sd K (fmg, h) (Call_solve_MultiFab phi rhs rt atl ub ng vb)
     = step sd K (fmg, h) (Call_solve [phi] [rhs] rt atl ub ng vb)
 \<and> step sd K (fmg, h) (Call_compute_residual_MultiFab phi rhs res)
     = step sd K (fmg, h) (Call_compute_residual [phi] [rhs] [res])"
  by (simp add: solve_MultiFab_def compute_residual_MultiFab_def Copy_MultiFab_def)

theorem single_field_overloads_wrap_witness:
  "solve_MultiFab 2 example_kernel example_configured example_heap 1 2 d_tol d_zero 0 0 0
     = Inr (example_solved, example_heap, d_zero)
 \<and> solve 2 example_kernel example_configured example_heap [1] [2] d_tol d_zero 0 0 0
     = Inr (example_solved, example_heap, d_zero)
 \<and> compute_residual_MultiFab 2 example_kernel example_configured example_heap 1 2 3
     = Inr (example_solved, example_heap)
 \<and> compute_residual 2 example_kernel example_configured example_heap [1] [2] [3]
     = Inr (example_solved, example_heap)"
proof -
  have s: "solve 2 example_kernel example_configured example_heap [1] [2] d_tol d_zero 0 0 0
     = Inr (example_solved, example_heap, d_zero)"
    unfolding example_solved_fields
    by (simp add: example_configured_fields example_root_fields
        solve_def init_mgt_solver_def
        set_bndry_values_def set_coeffs_def level_distance_def Boundary_ctor_def
        ABecCoeff_default_def TheZeroVector_def example_heap_def example_fab_def
        example_kernel_def upt2 Let_def)
  have c: "compute_residual 2 example_kernel example_configured example_heap [1] [2] [3]
     = Inr (example_solved, example_heap)"
    unfolding example_solved_fields
    by (simp add: example_configured_fields example_root_fields
        compute_residual_def init_mgt_solver_def
        set_bndry_values_def set_coeffs_def level_distance_def Boundary_ctor_def
        ABecCoeff_default_def TheZeroVector_def example_heap_def example_fab_def
        example_kernel_def upt2 Let_def)
  note t = single_field_overloads_wrap[where sd = 2 and K = example_kernel
             and fmg = example_configured and h = example_heap and phi = 1 and rhs = 2
             and res = 3 and rt = d_tol and atl = d_zero and ub = 0 and ng = 0 and vb = 0]
  from t s have s1: "solve_MultiFab 2 example_kernel example_configured example_heap 1 2 d_tol d_zero 0 0 0
     = Inr (example_solved, example_heap, d_zero)" by simp
  from t c have c1: "compute_residual_MultiFab 2 example_kernel example_configured example_heap 1 2 3
     = Inr (example_solved, example_heap)" by simp
  show ?thesis by (intro conjI s1 s c1 c)
qed

end
